theory Spec2Isabelle
  imports Complex_Main "HOL-Library.Char_ord" "HOL-Library.List_Lexorder"
begin

section \<open>Python values, exceptions and the external library\<close>

text \<open>
  The script \<^verbatim>\<open>alphagenome_client.py\<close> is dynamically typed: method arguments come from
  \<^verbatim>\<open>argparse\<close> and \<^verbatim>\<open>json.loads\<close>, results are dictionaries. Values are modelled by
  \<open>pyval\<close>. A dictionary is an association list (insertion order, first binding of a key).

  A float is a finite value, an infinity or NaN (\<^verbatim>\<open>json.loads\<close> accepts \<^verbatim>\<open>NaN\<close>, \<^verbatim>\<open>Infinity\<close> and
  \<^verbatim>\<open>-Infinity\<close>). Comparisons are exact, as they are in Python between floats and between a
  float and an integer. Arithmetic on infinities and NaN follows IEEE 754. Arithmetic on
  finite values is exact here: a finite result is not rounded to the nearest double, the
  sign of a zero is not kept, and a result beyond the range of a double stays finite (in
  Python it is an infinity, or an \<^verbatim>\<open>OverflowError\<close> when an integer of more than 308 digits
  is converted or divided). The theorems of the last section state a finite float only
  where its exact value is a double within range (100, from the quotient of a positive
  integer by itself); the lemmas that lead to them speak of the exact values of the model.
\<close>

datatype pyfloat = Finite rat | PosInf | NegInf | NaN

fun fl_negative :: "pyfloat \<Rightarrow> bool" where
  "fl_negative (Finite x) = (x < 0)"
| "fl_negative NegInf = True"
| "fl_negative _ = False"

fun fl_neg :: "pyfloat \<Rightarrow> pyfloat" where
  "fl_neg (Finite x) = Finite (- x)"
| "fl_neg PosInf = NegInf"
| "fl_neg NegInf = PosInf"
| "fl_neg NaN = NaN"

fun fl_add :: "pyfloat \<Rightarrow> pyfloat \<Rightarrow> pyfloat" where
  "fl_add (Finite x) (Finite y) = Finite (x + y)"
| "fl_add NaN b = NaN"
| "fl_add a NaN = NaN"
| "fl_add PosInf NegInf = NaN"
| "fl_add NegInf PosInf = NaN"
| "fl_add PosInf b = PosInf"
| "fl_add NegInf b = NegInf"
| "fl_add a PosInf = PosInf"
| "fl_add a NegInf = NegInf"

definition fl_sub :: "pyfloat \<Rightarrow> pyfloat \<Rightarrow> pyfloat" where
  "fl_sub a b = fl_add a (fl_neg b)"

fun fl_mul :: "pyfloat \<Rightarrow> pyfloat \<Rightarrow> pyfloat" where
  "fl_mul (Finite x) (Finite y) = Finite (x * y)"
| "fl_mul NaN b = NaN"
| "fl_mul a NaN = NaN"
| "fl_mul a b =
     (if a = Finite 0 \<or> b = Finite 0 then NaN
      else if fl_negative a = fl_negative b then PosInf else NegInf)"

text \<open>\<open>fl_div a b\<close> for a divisor other than zero (Python raises on a zero divisor).\<close>

fun fl_div :: "pyfloat \<Rightarrow> pyfloat \<Rightarrow> pyfloat" where
  "fl_div (Finite x) (Finite y) = Finite (x / y)"
| "fl_div NaN b = NaN"
| "fl_div a NaN = NaN"
| "fl_div (Finite x) b = Finite 0"
| "fl_div a (Finite y) = (if fl_negative a = (y < 0) then PosInf else NegInf)"
| "fl_div a b = NaN"

fun fl_lt :: "pyfloat \<Rightarrow> pyfloat \<Rightarrow> bool" where
  "fl_lt (Finite x) (Finite y) = (x < y)"
| "fl_lt NaN b = False"
| "fl_lt a NaN = False"
| "fl_lt a NegInf = False"
| "fl_lt PosInf b = False"
| "fl_lt a b = True"

fun fl_le :: "pyfloat \<Rightarrow> pyfloat \<Rightarrow> bool" where
  "fl_le (Finite x) (Finite y) = (x \<le> y)"
| "fl_le NaN b = False"
| "fl_le a NaN = False"
| "fl_le NegInf b = True"
| "fl_le a PosInf = True"
| "fl_le a b = False"

definition fl_eq :: "pyfloat \<Rightarrow> pyfloat \<Rightarrow> bool" where
  "fl_eq a b = (a \<noteq> NaN \<and> a = b)"

datatype pyval =
    PNone
  | PBool bool
  | PInt int
  | PFloat pyfloat
  | PStr string
  | PList "pyval list"
  | PDict "(string \<times> pyval) list"

text \<open>An exception is its class name and its message \<^verbatim>\<open>str(e)\<close>.\<close>

datatype exn = Exn (exn_type: string) (exn_msg: string)

definition sq :: string where
  "sq = [CHR 0x27]"

definition ebind :: "exn + 'a \<Rightarrow> ('a \<Rightarrow> exn + 'b) \<Rightarrow> exn + 'b" where
  "ebind m f = (case m of Inl e \<Rightarrow> Inl e | Inr x \<Rightarrow> f x)"

fun emap :: "('a \<Rightarrow> exn + 'b) \<Rightarrow> 'a list \<Rightarrow> exn + 'b list" where
  "emap f [] = Inr []"
| "emap f (x # xs) = ebind (f x) (\<lambda>y. ebind (emap f xs) (\<lambda>ys. Inr (y # ys)))"

fun py_type_name :: "pyval \<Rightarrow> string" where
  "py_type_name PNone = ''NoneType''"
| "py_type_name (PBool b) = ''bool''"
| "py_type_name (PInt n) = ''int''"
| "py_type_name (PFloat r) = ''float''"
| "py_type_name (PStr s) = ''str''"
| "py_type_name (PList xs) = ''list''"
| "py_type_name (PDict kvs) = ''dict''"

definition no_attribute :: "pyval \<Rightarrow> string \<Rightarrow> exn" where
  "no_attribute v a =
     Exn ''AttributeError'' (sq @ py_type_name v @ sq @ '' object has no attribute '' @ sq @ a @ sq)"

text \<open>Truth value of a value, as \<^verbatim>\<open>not x\<close> and \<^verbatim>\<open>if x:\<close> test it.\<close>

fun py_truthy :: "pyval \<Rightarrow> bool" where
  "py_truthy PNone = False"
| "py_truthy (PBool b) = b"
| "py_truthy (PInt n) = (n \<noteq> 0)"
| "py_truthy (PFloat r) = (r \<noteq> Finite 0)"
| "py_truthy (PStr s) = (s \<noteq> [])"
| "py_truthy (PList xs) = (xs \<noteq> [])"
| "py_truthy (PDict kvs) = (kvs \<noteq> [])"

text \<open>The value of a number; a boolean is the integer 0 or 1.\<close>

fun as_num :: "pyval \<Rightarrow> pyfloat option" where
  "as_num (PBool b) = Some (Finite (if b then 1 else 0))"
| "as_num (PInt n) = Some (Finite (of_int n))"
| "as_num (PFloat r) = Some r"
| "as_num _ = None"

text \<open>\<^verbatim>\<open>a == b\<close> on JSON values: numbers by value, containers element by element.\<close>

fun py_eq :: "pyval \<Rightarrow> pyval \<Rightarrow> bool" where
  "py_eq (PList xs) (PList ys) = list_all2 py_eq xs ys"
| "py_eq (PDict xs) (PDict ys) =
     (length xs = length ys \<and>
      list_all (\<lambda>(k, v). list_ex (\<lambda>(k', w). k = k' \<and> py_eq v w) ys) xs)"
| "py_eq (PStr s) (PStr t) = (s = t)"
| "py_eq PNone PNone = True"
| "py_eq a b = (case (as_num a, as_num b) of (Some x, Some y) \<Rightarrow> fl_eq x y | _ \<Rightarrow> False)"

text \<open>
  The two ordering comparisons the script uses, \<^verbatim>\<open>a >= b\<close> and \<^verbatim>\<open>a < b\<close>: numbers by
  value (both are false when one side is NaN), strings and lists lexicographically,
  anything else raises \<^verbatim>\<open>TypeError\<close>.
\<close>

datatype cmp_op = Ge | Lt

fun cmp_symbol :: "cmp_op \<Rightarrow> string" where
  "cmp_symbol Ge = ''>=''"
| "cmp_symbol Lt = ''<''"

fun cmp_holds :: "cmp_op \<Rightarrow> ('a::linorder) \<Rightarrow> 'a \<Rightarrow> bool" where
  "cmp_holds Ge x y = (y \<le> x)"
| "cmp_holds Lt x y = (x < y)"

fun num_cmp :: "cmp_op \<Rightarrow> pyfloat \<Rightarrow> pyfloat \<Rightarrow> bool" where
  "num_cmp Ge x y = fl_le y x"
| "num_cmp Lt x y = fl_lt x y"

definition not_supported :: "cmp_op \<Rightarrow> pyval \<Rightarrow> pyval \<Rightarrow> exn" where
  "not_supported c a b =
     Exn ''TypeError'' (sq @ cmp_symbol c @ sq @ '' not supported between instances of ''
       @ sq @ py_type_name a @ sq @ '' and '' @ sq @ py_type_name b @ sq)"

fun py_compare :: "cmp_op \<Rightarrow> pyval \<Rightarrow> pyval \<Rightarrow> exn + bool"
  and list_compare :: "cmp_op \<Rightarrow> pyval list \<Rightarrow> pyval list \<Rightarrow> exn + bool" where
  "py_compare c (PList xs) (PList ys) = list_compare c xs ys"
| "py_compare c (PStr s) (PStr t) = Inr (cmp_holds c s t)"
| "py_compare c a b =
     (case (as_num a, as_num b) of
        (Some x, Some y) \<Rightarrow> Inr (num_cmp c x y)
      | _ \<Rightarrow> Inl (not_supported c a b))"
| "list_compare c [] ys = Inr (cmp_holds c 0 (length ys))"
| "list_compare c (x # xs) [] = Inr (cmp_holds c (Suc (length xs)) 0)"
| "list_compare c (x # xs) (y # ys) =
     (if py_eq x y then list_compare c xs ys else py_compare c x y)"

subsection \<open>Strings\<close>

text \<open>
  Strings are lists of 8-bit characters. \<^verbatim>\<open>str.upper\<close> and \<^verbatim>\<open>str.lower\<close> convert the ASCII
  letters and keep every other character: the model is exact on ASCII text, and on any
  text as far as membership in A, T, G, C, N goes (no character outside ASCII has an upper
  case among these five).
\<close>

definition upper_char :: "char \<Rightarrow> char" where
  "upper_char c =
     (case map_of (zip ''abcdefghijklmnopqrstuvwxyz'' ''ABCDEFGHIJKLMNOPQRSTUVWXYZ'') c of
        Some u \<Rightarrow> u | None \<Rightarrow> c)"

definition lower_char :: "char \<Rightarrow> char" where
  "lower_char c =
     (case map_of (zip ''ABCDEFGHIJKLMNOPQRSTUVWXYZ'' ''abcdefghijklmnopqrstuvwxyz'') c of
        Some u \<Rightarrow> u | None \<Rightarrow> c)"

definition upper :: "string \<Rightarrow> string" where
  "upper s = map upper_char s"

definition lower :: "string \<Rightarrow> string" where
  "lower s = map lower_char s"

definition py_upper :: "pyval \<Rightarrow> exn + string" where
  "py_upper v = (case v of PStr s \<Rightarrow> Inr (upper s) | _ \<Rightarrow> Inl (no_attribute v ''upper''))"

definition py_lower :: "pyval \<Rightarrow> exn + string" where
  "py_lower v = (case v of PStr s \<Rightarrow> Inr (lower s) | _ \<Rightarrow> Inl (no_attribute v ''lower''))"

text \<open>Decimal digits of a number, for \<^verbatim>\<open>str(n)\<close> and f-strings.\<close>

definition digit_char :: "nat \<Rightarrow> char" where
  "digit_char d = ''0123456789'' ! d"

fun nat_digits :: "nat \<Rightarrow> string" where
  "nat_digits n =
     (if n < 10 then [digit_char n] else nat_digits (n div 10) @ [digit_char (n mod 10)])"

declare nat_digits.simps [simp del]

definition int_str :: "int \<Rightarrow> string" where
  "int_str i = (if i < 0 then CHR ''-'' # nat_digits (nat (- i)) else nat_digits (nat i))"

text \<open>\<^verbatim>\<open>", ".join(xs)\<close>\<close>

fun join_comma :: "string list \<Rightarrow> string" where
  "join_comma [] = []"
| "join_comma [x] = x"
| "join_comma (x # y # ys) = x @ '', '' @ join_comma (y # ys)"

text \<open>\<^verbatim>\<open>s.split(sep)\<close> for a separator of one character.\<close>

fun split_on :: "char \<Rightarrow> string \<Rightarrow> string list" where
  "split_on sep [] = [Nil]"
| "split_on sep (x # xs) =
     (if x = sep then [] # split_on sep xs
      else (case split_on sep xs of p # ps \<Rightarrow> (x # p) # ps | [] \<Rightarrow> [x] # []))"

text \<open>
  A string is a list of 8-bit characters: the model covers the strings whose code points
  are all below U+0100. White space for \<^verbatim>\<open>int\<close> is then the six ASCII characters that C's
  \<^verbatim>\<open>isspace\<close> accepts, and U+0085 and U+00A0, which \<^verbatim>\<open>int\<close> turns into a space before it
  reads the number (U+001C to U+001F are white space for \<^verbatim>\<open>str.strip\<close>, not for \<^verbatim>\<open>int\<close>). The
  only decimal digits below U+0100 are \<^verbatim>\<open>0\<close> to \<^verbatim>\<open>9\<close>.
\<close>

definition is_space :: "char \<Rightarrow> bool" where
  "is_space c = (c \<in> set [CHR 0x09, CHR 0x0A, CHR 0x0B, CHR 0x0C, CHR 0x0D, CHR 0x20,
                             CHR 0x85, CHR 0xA0])"

definition is_digit :: "char \<Rightarrow> bool" where
  "is_digit c = (c \<in> set ''0123456789'')"

definition digit_val :: "char \<Rightarrow> nat" where
  "digit_val c = of_char c - 48"

text \<open>The value of a string of decimal digits.\<close>

definition digits_value :: "string \<Rightarrow> nat" where
  "digits_value ds = foldl (\<lambda>acc c. 10 * acc + digit_val c) 0 ds"

text \<open>Two underscores in a row.\<close>

fun double_underscore :: "string \<Rightarrow> bool" where
  "double_underscore (a # b # cs) = ((a = CHR ''_'' \<and> b = CHR ''_'') \<or> double_underscore (b # cs))"
| "double_underscore _ = False"

subsection \<open>Containers\<close>

text \<open>\<^verbatim>\<open>d.get(key, default)\<close>\<close>

definition dict_get :: "pyval \<Rightarrow> string \<Rightarrow> pyval \<Rightarrow> exn + pyval" where
  "dict_get d k dflt =
     (case d of
        PDict kvs \<Rightarrow> Inr (case map_of kvs k of None \<Rightarrow> dflt | Some v \<Rightarrow> v)
      | _ \<Rightarrow> Inl (no_attribute d ''get''))"

text \<open>\<^verbatim>\<open>d[key]\<close> with a string key.\<close>

definition py_getitem :: "pyval \<Rightarrow> string \<Rightarrow> exn + pyval" where
  "py_getitem d k =
     (case d of
        PDict kvs \<Rightarrow> (case map_of kvs k of None \<Rightarrow> Inl (Exn ''KeyError'' (sq @ k @ sq)) | Some v \<Rightarrow> Inr v)
      | PList xs \<Rightarrow> Inl (Exn ''TypeError'' ''list indices must be integers or slices, not str'')
      | PStr s \<Rightarrow> Inl (Exn ''TypeError'' (''string indices must be integers, not '' @ sq @ ''str'' @ sq))
      | _ \<Rightarrow> Inl (Exn ''TypeError'' (sq @ py_type_name d @ sq @ '' object is not subscriptable'')))"

text \<open>\<^verbatim>\<open>for x in v\<close>: the elements of a list, the characters of a string, the keys of a dict.\<close>

definition py_iter :: "pyval \<Rightarrow> exn + pyval list" where
  "py_iter v =
     (case v of
        PList xs \<Rightarrow> Inr xs
      | PStr s \<Rightarrow> Inr (map (\<lambda>c. PStr [c]) s)
      | PDict kvs \<Rightarrow> Inr (map (\<lambda>kv. PStr (fst kv)) kvs)
      | _ \<Rightarrow> Inl (Exn ''TypeError'' (sq @ py_type_name v @ sq @ '' object is not iterable'')))"

definition py_len :: "pyval \<Rightarrow> exn + nat" where
  "py_len v =
     (case v of
        PList xs \<Rightarrow> Inr (length xs)
      | PStr s \<Rightarrow> Inr (length s)
      | PDict kvs \<Rightarrow> Inr (length kvs)
      | _ \<Rightarrow> Inl (Exn ''TypeError'' (''object of type '' @ sq @ py_type_name v @ sq @ '' has no len()'')))"

text \<open>
  Arithmetic on numbers: \<^verbatim>\<open>a - b\<close>, \<^verbatim>\<open>a + b\<close>, \<^verbatim>\<open>a * b\<close> and the true division \<^verbatim>\<open>a / b\<close>. Two
  integers (or booleans) give an integer, except under division. The script applies
  \<^verbatim>\<open>+\<close> and \<^verbatim>\<open>*\<close> only to the result of a subtraction or a division, which is a number, so
  concatenation and repetition of sequences do not arise.
\<close>

fun as_int :: "pyval \<Rightarrow> int option" where
  "as_int (PBool b) = Some (if b then 1 else 0)"
| "as_int (PInt n) = Some n"
| "as_int _ = None"

definition unsupported_operand :: "string \<Rightarrow> pyval \<Rightarrow> pyval \<Rightarrow> exn" where
  "unsupported_operand opn a b =
     Exn ''TypeError'' (''unsupported operand type(s) for '' @ opn @ '': ''
       @ sq @ py_type_name a @ sq @ '' and '' @ sq @ py_type_name b @ sq)"

definition py_sub :: "pyval \<Rightarrow> pyval \<Rightarrow> exn + pyval" where
  "py_sub a b =
     (case (as_int a, as_int b) of
        (Some x, Some y) \<Rightarrow> Inr (PInt (x - y))
      | _ \<Rightarrow> (case (as_num a, as_num b) of
                (Some x, Some y) \<Rightarrow> Inr (PFloat (fl_sub x y))
              | _ \<Rightarrow> Inl (unsupported_operand ''-'' a b)))"

definition py_add :: "pyval \<Rightarrow> pyval \<Rightarrow> exn + pyval" where
  "py_add a b =
     (case (as_int a, as_int b) of
        (Some x, Some y) \<Rightarrow> Inr (PInt (x + y))
      | _ \<Rightarrow> (case (as_num a, as_num b) of
                (Some x, Some y) \<Rightarrow> Inr (PFloat (fl_add x y))
              | _ \<Rightarrow> Inl (unsupported_operand ''+'' a b)))"

definition py_mul :: "pyval \<Rightarrow> pyval \<Rightarrow> exn + pyval" where
  "py_mul a b =
     (case (as_int a, as_int b) of
        (Some x, Some y) \<Rightarrow> Inr (PInt (x * y))
      | _ \<Rightarrow> (case (as_num a, as_num b) of
                (Some x, Some y) \<Rightarrow> Inr (PFloat (fl_mul x y))
              | _ \<Rightarrow> Inl (unsupported_operand ''*'' a b)))"

definition py_truediv :: "pyval \<Rightarrow> pyval \<Rightarrow> exn + pyval" where
  "py_truediv a b =
     (case (as_num a, as_num b) of
        (Some x, Some y) \<Rightarrow>
          if y = Finite 0 then
            Inl (Exn ''ZeroDivisionError''
                   (if as_int a \<noteq> None \<and> as_int b \<noteq> None then ''division by zero''
                    else ''float division by zero''))
          else Inr (PFloat (fl_div x y))
      | _ \<Rightarrow> Inl (unsupported_operand ''/'' a b))"

text \<open>\<^verbatim>\<open>round(x, 2)\<close>: an integer is returned as it is, a finite float is rounded to
  hundredths, ties to the even neighbour; an infinity and NaN are returned as they are.\<close>

definition round_half_even :: "rat \<Rightarrow> int" where
  "round_half_even x =
     (let f = \<lfloor>x\<rfloor>; d = x - of_int f
      in if d < 1 / 2 then f else if 1 / 2 < d then f + 1 else if even f then f else f + 1)"

definition py_round2 :: "pyval \<Rightarrow> exn + pyval" where
  "py_round2 v =
     (case v of
        PInt n \<Rightarrow> Inr (PInt n)
      | PBool b \<Rightarrow> Inr (PInt (if b then 1 else 0))
      | PFloat (Finite r) \<Rightarrow> Inr (PFloat (Finite (of_int (round_half_even (r * 100)) / 100)))
      | PFloat r \<Rightarrow> Inr (PFloat r)
      | _ \<Rightarrow> Inl (Exn ''TypeError'' (''type '' @ py_type_name v @ '' doesn't define __round__ method'')))"

text \<open>\<^verbatim>\<open>min(xs, key=f)\<close> on a non-empty list: the first element with the least key.\<close>

definition py_min_key :: "('a \<Rightarrow> int) \<Rightarrow> 'a \<Rightarrow> 'a list \<Rightarrow> 'a" where
  "py_min_key f x xs = foldl (\<lambda>best y. if f y < f best then y else best) x xs"

subsection \<open>The external library and the Python runtime\<close>

text \<open>
  The classes \<^verbatim>\<open>Interval\<close>, \<^verbatim>\<open>Variant\<close>, \<^verbatim>\<open>OutputType\<close>, \<^verbatim>\<open>VariantFormat\<close>, \<^verbatim>\<open>Organism\<close> and
  the client object made by \<^verbatim>\<open>create\<close> belong to the external package \<^verbatim>\<open>alphagenome\<close>.
  Their objects are modelled by their declared fields; their behaviour is a parameter
  of every operation (the record \<open>pyenv\<close>). The fields of an \<^verbatim>\<open>Interval\<close> are Python
  values: the script passes what it was given without converting it, and reads
  \<^verbatim>\<open>chromosome\<close>, \<^verbatim>\<open>start\<close> and \<^verbatim>\<open>end\<close> back from the object.
\<close>

record interval =
  i_chromosome :: pyval
  i_start :: pyval
  i_end :: pyval

record variant =
  v_chromosome :: string
  v_position :: int
  v_reference_bases :: string
  v_alternate_bases :: string
  v_name :: string

datatype variant_format = DEFAULT | GNOMAD | GTEX | OPEN_TARGETS | OPEN_TARGETS_BIGQUERY

datatype organism = HOMO_SAPIENS | MUS_MUSCULUS

text \<open>
  What the client returns: an object, known by the names of its attributes that are
  present and not \<^verbatim>\<open>None\<close>, or a list of such results.
\<close>

datatype extobj = EObj "string list" | EList "extobj list"

text \<open>
  A request to the external client: the method called and its arguments. Requested output
  types are \<^verbatim>\<open>OutputType\<close> members, written by name.
\<close>

datatype client_call =
    Call_predict_sequence string organism "string list option" pyval
  | Call_predict_interval interval organism "string list option" pyval
  | Call_predict_variant interval variant organism "string list option" pyval
  | Call_score_variant interval variant organism
  | Call_output_metadata organism
  | Call_predict_sequences "string list" organism "string list option" pyval pyval
  | Call_predict_intervals "interval list" organism "string list option" pyval pyval
  | Call_predict_variants interval "variant list" organism "string list option" pyval pyval
  | Call_score_variants interval "variant list" organism pyval
  | Call_score_interval interval organism
  | Call_score_intervals "interval list" organism pyval
  | Call_score_ism_variants interval interval organism pyval

text \<open>
  The environment of a run. \<open>set_iter\<close> is the order in which the runtime iterates over a
  set of characters (given here by its distinct elements); \<open>repr_val\<close> is \<^verbatim>\<open>repr\<close> of a
  value; \<open>client_invoke\<close> is one request to the external service, which may change the
  service's state \<open>'s\<close>.
\<close>

record 's pyenv =
  set_iter :: "char list \<Rightarrow> char list"
  repr_val :: "pyval \<Rightarrow> string"
  has_output_type :: "string \<Rightarrow> bool"
  Interval_init :: "pyval \<Rightarrow> pyval \<Rightarrow> pyval \<Rightarrow> exn + interval"
  interval_overlaps :: "interval \<Rightarrow> interval \<Rightarrow> bool"
  interval_intersect :: "interval \<Rightarrow> interval \<Rightarrow> interval option"
  Variant_init :: "pyval \<Rightarrow> pyval \<Rightarrow> pyval \<Rightarrow> pyval \<Rightarrow> exn + variant"
  Variant_from_str :: "pyval \<Rightarrow> variant_format \<Rightarrow> exn + variant"
  json_loads :: "string \<Rightarrow> exn + pyval"
  create :: "pyval \<Rightarrow> exn + 's"
  client_invoke :: "'s \<Rightarrow> client_call \<Rightarrow> (exn + extobj) \<times> 's"

text \<open>
  The state of an \<^verbatim>\<open>AlphaGenomeClient\<close>: its only field \<^verbatim>\<open>self.client\<close>. \<open>calls\<close> is a
  ghost field that records every request made through \<^verbatim>\<open>self.client\<close>.
\<close>

record 's agc =
  client :: 's
  calls :: "client_call list"

definition invoke :: "'s pyenv \<Rightarrow> client_call \<Rightarrow> 's agc \<Rightarrow> (exn + extobj) \<times> 's agc" where
  "invoke env c self =
     (case client_invoke env (client self) c of
        (r, s') \<Rightarrow> (r, self\<lparr>client := s', calls := calls self @ [c]\<rparr>))"

text \<open>\<^verbatim>\<open>str(v)\<close>, as an f-string formats a value.\<close>

definition py_str :: "'s pyenv \<Rightarrow> pyval \<Rightarrow> string" where
  "py_str env v =
     (case v of
        PStr s \<Rightarrow> s
      | PInt n \<Rightarrow> int_str n
      | PBool b \<Rightarrow> (if b then ''True'' else ''False'')
      | PNone \<Rightarrow> ''None''
      | _ \<Rightarrow> repr_val env v)"

text \<open>\<^verbatim>\<open>str\<close> of a non-empty set of one-character strings.\<close>

definition set_str :: "'s pyenv \<Rightarrow> char list \<Rightarrow> string" where
  "set_str env cs = ''{'' @ join_comma (map (\<lambda>c. repr_val env (PStr [c])) (set_iter env cs)) @ ''}''"

definition int_list_str :: "int list \<Rightarrow> string" where
  "int_list_str ns = ''['' @ join_comma (map int_str ns) @ '']''"

text \<open>
  \<^verbatim>\<open>int(s)\<close> on a string, as \<^verbatim>\<open>PyLong_FromString\<close> reads it in base 10: leading white space,
  an optional sign, then the longest run of digits and underscores, then white space up to
  the end. The run must have a digit, must not begin or end with an underscore or have two
  in a row, and must not have more than 4300 digits (the default of
  \<^verbatim>\<open>sys.set_int_max_str_digits\<close>, tested before what follows the run is looked at). The message
  of an invalid literal shows the first 200 characters of \<^verbatim>\<open>repr(s)\<close>.
\<close>

definition invalid_literal :: "'s pyenv \<Rightarrow> string \<Rightarrow> exn" where
  "invalid_literal env s =
     Exn ''ValueError'' (''invalid literal for int() with base 10: '' @ take 200 (repr_val env (PStr s)))"

definition max_str_digits :: nat where
  "max_str_digits = 4300"

definition digit_limit :: "nat \<Rightarrow> exn" where
  "digit_limit n =
     Exn ''ValueError'' (''Exceeds the limit ('' @ nat_digits max_str_digits
       @ '' digits) for integer string conversion: value has '' @ nat_digits n
       @ '' digits; use sys.set_int_max_str_digits() to increase the limit'')"

definition in_number :: "char \<Rightarrow> bool" where
  "in_number c = (is_digit c \<or> c = CHR ''_'')"

definition py_int :: "'s pyenv \<Rightarrow> string \<Rightarrow> exn + int" where
  "py_int env s =
     (let t = dropWhile is_space s;
          negative = (t \<noteq> [] \<and> hd t = CHR ''-'');
          u = (if t \<noteq> [] \<and> (hd t = CHR ''-'' \<or> hd t = CHR ''+'') then tl t else t);
          body = takeWhile in_number u;
          rest = dropWhile in_number u;
          digits = filter is_digit body
      in if body = [] \<or> hd body = CHR ''_'' \<or> last body = CHR ''_'' \<or> double_underscore body
         then Inl (invalid_literal env s)
         else if length digits > max_str_digits then Inl (digit_limit (length digits))
         else if dropWhile is_space rest \<noteq> [] then Inl (invalid_literal env s)
         else Inr (if negative then - int (digits_value digits) else int (digits_value digits)))"

section \<open>The uniform envelope\<close>

text \<open>
  Every method body is \<^verbatim>\<open>try: ... except Exception as e: return {"success": False,
  "error": str(e), "type": type(e).__name__}\<close>.
\<close>

definition error_envelope :: "exn \<Rightarrow> pyval" where
  "error_envelope e =
     PDict [(''success'', PBool False), (''error'', PStr (exn_msg e)), (''type'', PStr (exn_type e))]"

definition catch :: "exn + pyval \<Rightarrow> pyval" where
  "catch r = (case r of Inl e \<Rightarrow> error_envelope e | Inr v \<Rightarrow> v)"

text \<open>
  Each method \<open>m\<close> is given in two steps. \<open>m_try\<close> is the \<^verbatim>\<open>try\<close> block: it returns the value
  the block returns, or the exception that leaves it, together with the state of the object
  at that moment. \<open>m\<close> is the method: the \<^verbatim>\<open>try\<close> block under its \<^verbatim>\<open>except Exception\<close> clause.
  Every exception of the model is an instance of \<^verbatim>\<open>Exception\<close>; \<^verbatim>\<open>KeyboardInterrupt\<close>,
  \<^verbatim>\<open>SystemExit\<close> and the like, which the clause does not catch, are outside it.
\<close>

definition guarded :: "(exn + pyval) \<times> 'st \<Rightarrow> pyval \<times> 'st" where
  "guarded t = (catch (fst t), snd t)"

section \<open>Utility and validation operations\<close>

subsection \<open>\<^verbatim>\<open>validate_genomic_data\<close>\<close>

text \<open>The dictionary \<^verbatim>\<open>validation_results\<close>, which the method fills as it goes.\<close>

record vres =
  vr_valid :: bool
  vr_warnings :: "string list"
  vr_errors :: "string list"

definition vres_init :: vres where
  "vres_init = \<lparr>vr_valid = True, vr_warnings = [], vr_errors = []\<rparr>"

text \<open>\<^verbatim>\<open>errors.append(msg); validation_results["valid"] = False\<close>\<close>

definition add_error :: "string \<Rightarrow> vres \<Rightarrow> vres" where
  "add_error msg v = v\<lparr>vr_errors := vr_errors v @ [msg], vr_valid := False\<rparr>"

definition add_warning :: "string \<Rightarrow> vres \<Rightarrow> vres" where
  "add_warning msg v = v\<lparr>vr_warnings := vr_warnings v @ [msg]\<rparr>"

definition vres_dict :: "vres \<Rightarrow> pyval" where
  "vres_dict v =
     PDict [(''valid'', PBool (vr_valid v)),
            (''warnings'', PList (map PStr (vr_warnings v))),
            (''errors'', PList (map PStr (vr_errors v)))]"

definition supported_lengths :: "int list" where
  "supported_lengths = [2048, 16384, 131072, 524288, 1048576]"

text \<open>\<^verbatim>\<open>set(s) - set('ATGCN')\<close>, by its distinct elements.\<close>

definition invalid_chars_of :: "string \<Rightarrow> char list" where
  "invalid_chars_of s = remdups (filter (\<lambda>c. c \<notin> set ''ATGCN'') s)"

definition validate_sequence :: "'s pyenv \<Rightarrow> pyval \<Rightarrow> exn + vres" where
  "validate_sequence env data =
     ebind (dict_get data ''sequence'' (PStr [])) (\<lambda>sequence.
       if \<not> py_truthy sequence then Inr (add_error ''Sequence is empty'' vres_init)
       else
         ebind (py_upper sequence) (\<lambda>u.
           let invalid_chars = invalid_chars_of u;
               v1 = (if invalid_chars \<noteq> []
                     then add_error (''Invalid characters found: '' @ set_str env invalid_chars) vres_init
                     else vres_init)
           in ebind (py_len sequence) (\<lambda>n.
                Inr (if int n \<notin> set supported_lengths
                     then add_warning (''Sequence length '' @ int_str (int n)
                            @ '' not in supported lengths: '' @ int_list_str supported_lengths) v1
                     else v1))))"

definition validate_interval :: "pyval \<Rightarrow> exn + vres" where
  "validate_interval data =
     ebind (dict_get data ''chromosome'' (PStr [])) (\<lambda>chromosome.
     ebind (dict_get data ''start'' PNone) (\<lambda>start.
     ebind (dict_get data ''end'' PNone) (\<lambda>end_pos.
       let v1 = (if \<not> py_truthy chromosome then add_error ''Chromosome is required'' vres_init
                 else vres_init)
       in if start = PNone \<or> end_pos = PNone
          then Inr (add_error ''Start and end positions are required'' v1)
          else
            ebind (py_compare Ge start end_pos) (\<lambda>ge.
              if ge then Inr (add_error ''End position must be greater than start position'' v1)
              else
                ebind (py_compare Lt start (PInt 1)) (\<lambda>lt.
                  if lt then Inr (add_error ''Start position must be positive'' v1)
                  else Inr v1)))))"

text \<open>\<^verbatim>\<open>set(s.upper()).issubset(set('ATGC'))\<close>\<close>

definition allele_chars_ok :: "pyval \<Rightarrow> exn + bool" where
  "allele_chars_ok a = ebind (py_upper a) (\<lambda>u. Inr (set u \<subseteq> set ''ATGC''))"

definition validate_variant :: "pyval \<Rightarrow> exn + vres" where
  "validate_variant data =
     ebind (dict_get data ''chromosome'' (PStr [])) (\<lambda>chromosome.
     ebind (dict_get data ''position'' PNone) (\<lambda>position.
     ebind (dict_get data ''ref'' (PStr [])) (\<lambda>ref.
     ebind (dict_get data ''alt'' (PStr [])) (\<lambda>alt.
       let v1 = (if \<not> py_truthy chromosome then add_error ''Chromosome is required'' vres_init
                 else vres_init)
       in ebind (if position = PNone then Inr True else py_compare Lt position (PInt 1)) (\<lambda>bad_pos.
            let v2 = (if bad_pos then add_error ''Position must be a positive integer'' v1 else v1)
            in if \<not> py_truthy ref \<or> \<not> py_truthy alt
               then Inr (add_error ''Reference and alternate alleles are required'' v2)
               else
                 ebind (allele_chars_ok ref) (\<lambda>ref_ok.
                   let v3 = (if \<not> ref_ok
                             then add_error ''Reference allele contains invalid characters'' v2 else v2)
                   in ebind (allele_chars_ok alt) (\<lambda>alt_ok.
                        Inr (if \<not> alt_ok
                             then add_error ''Alternate allele contains invalid characters'' v3
                             else v3))))))))"

definition validate_body :: "'s pyenv \<Rightarrow> pyval \<Rightarrow> pyval \<Rightarrow> exn + pyval" where
  "validate_body env data_type data =
     ebind (if data_type = PStr ''sequence'' then validate_sequence env data
            else if data_type = PStr ''interval'' then validate_interval data
            else if data_type = PStr ''variant'' then validate_variant data
            else Inr vres_init) (\<lambda>validation_results.
       Inr (PDict [(''success'', PBool True),
                   (''result'', vres_dict validation_results),
                   (''data_type'', data_type)]))"

definition validate_genomic_data_try ::
  "'s pyenv \<Rightarrow> pyval \<Rightarrow> pyval \<Rightarrow> 's agc \<Rightarrow> (exn + pyval) \<times> 's agc" where
  "validate_genomic_data_try env data_type data self =
     (validate_body env data_type data, self)"

definition validate_genomic_data ::
  "'s pyenv \<Rightarrow> pyval \<Rightarrow> pyval \<Rightarrow> 's agc \<Rightarrow> pyval \<times> 's agc" where
  "validate_genomic_data env data_type data self =
     guarded (validate_genomic_data_try env data_type data self)"

text \<open>Reading a key of a result dictionary.\<close>

definition field :: "string \<Rightarrow> pyval \<Rightarrow> pyval option" where
  "field k d = (case d of PDict kvs \<Rightarrow> map_of kvs k | _ \<Rightarrow> None)"

subsection \<open>\<^verbatim>\<open>get_sequence_info\<close>\<close>

text \<open>\<^verbatim>\<open>x / y * 100\<close>\<close>

definition percentage :: "int \<Rightarrow> int \<Rightarrow> exn + pyval" where
  "percentage x y = ebind (py_truediv (PInt x) (PInt y)) (\<lambda>q. py_mul q (PInt 100))"

definition get_sequence_info_body :: "'s pyenv \<Rightarrow> pyval \<Rightarrow> exn + pyval" where
  "get_sequence_info_body env sequence0 =
     (if \<not> py_truthy sequence0 then Inl (Exn ''ValueError'' ''Sequence cannot be empty'')
      else
        ebind (py_upper sequence0) (\<lambda>sequence.
          let len = int (length sequence);
              count_A = int (count_list sequence CHR ''A'');
              count_T = int (count_list sequence CHR ''T'');
              count_G = int (count_list sequence CHR ''G'');
              count_C = int (count_list sequence CHR ''C'');
              count_N = int (count_list sequence CHR ''N'');
              gc_count = count_G + count_C;
              at_count = count_A + count_T;
              known_bases = gc_count + at_count
          in ebind (if known_bases > 0 then percentage gc_count known_bases else Inr (PInt 0))
               (\<lambda>gc_content.
                 let is_supported_length = (len \<in> set supported_lengths);
                     closest_length =
                       py_min_key (\<lambda>x. \<bar>x - len\<bar>) (hd supported_lengths) (tl supported_lengths);
                     invalid_chars = invalid_chars_of sequence;
                     is_valid = (length invalid_chars = 0)
                 in ebind (py_round2 gc_content) (\<lambda>gc_rounded.
                    ebind (ebind (py_sub (PInt 100) gc_content) py_round2) (\<lambda>at_rounded.
                    ebind (ebind (percentage count_N len) py_round2) (\<lambda>n_rounded.
                      Inr (PDict
                        [(''success'', PBool True),
                         (''result'', PDict
                            [(''length'', PInt len),
                             (''base_counts'', PDict
                                [(''A'', PInt count_A), (''T'', PInt count_T), (''G'', PInt count_G),
                                 (''C'', PInt count_C), (''N'', PInt count_N)]),
                             (''gc_content'', gc_rounded),
                             (''at_content'', at_rounded),
                             (''n_content'', n_rounded),
                             (''is_valid'', PBool is_valid),
                             (''invalid_characters'',
                                PList (map (\<lambda>c. PStr [c])
                                  (if invalid_chars \<noteq> [] then set_iter env invalid_chars else []))),
                             (''is_supported_length'', PBool is_supported_length),
                             (''closest_supported_length'', PInt closest_length),
                             (''supported_lengths'', PList (map PInt supported_lengths))])]))))))) "

definition get_sequence_info_try ::
  "'s pyenv \<Rightarrow> pyval \<Rightarrow> 's agc \<Rightarrow> (exn + pyval) \<times> 's agc" where
  "get_sequence_info_try env sequence self =
     (get_sequence_info_body env sequence, self)"

definition get_sequence_info ::
  "'s pyenv \<Rightarrow> pyval \<Rightarrow> 's agc \<Rightarrow> pyval \<times> 's agc" where
  "get_sequence_info env sequence self =
     guarded (get_sequence_info_try env sequence self)"

subsection \<open>\<^verbatim>\<open>parse_variant_string\<close>\<close>

text \<open>\<^verbatim>\<open>"-" in v\<close> for a one-character string: substring of a string, element of a list,
  key of a dict.\<close>

definition py_contains_char :: "char \<Rightarrow> pyval \<Rightarrow> exn + bool" where
  "py_contains_char c v =
     (case v of
        PStr s \<Rightarrow> Inr (c \<in> set s)
      | PList xs \<Rightarrow> Inr (list_ex (\<lambda>x. py_eq x (PStr [c])) xs)
      | PDict kvs \<Rightarrow> Inr ([c] \<in> set (map fst kvs))
      | _ \<Rightarrow> Inl (Exn ''TypeError'' (''argument of type '' @ sq @ py_type_name v @ sq @ '' is not iterable'')))"

definition py_split :: "char \<Rightarrow> pyval \<Rightarrow> exn + string list" where
  "py_split c v = (case v of PStr s \<Rightarrow> Inr (split_on c s) | _ \<Rightarrow> Inl (no_attribute v ''split''))"

definition variant_result :: "pyval \<Rightarrow> pyval \<Rightarrow> pyval \<Rightarrow> pyval \<Rightarrow> pyval \<Rightarrow> pyval \<Rightarrow> pyval \<Rightarrow> pyval" where
  "variant_result chromosome position ref alt name variant_format variant_string =
     PDict [(''success'', PBool True),
            (''result'', PDict
               [(''chromosome'', chromosome),
                (''position'', position),
                (''reference_bases'', ref),
                (''alternate_bases'', alt),
                (''name'', name),
                (''parsed_format'', variant_format)]),
            (''original_string'', variant_string)]"

definition format_map :: "(string \<times> variant_format) list" where
  "format_map =
     [(''default'', DEFAULT), (''gnomad'', GNOMAD), (''gtex'', GTEX),
      (''open_targets'', OPEN_TARGETS), (''open_targets_bigquery'', OPEN_TARGETS_BIGQUERY)]"

text \<open>The fall-back: \<^verbatim>\<open>Variant.from_str\<close> of the library.\<close>

definition library_parse :: "'s pyenv \<Rightarrow> pyval \<Rightarrow> pyval \<Rightarrow> exn + pyval" where
  "library_parse env variant_string variant_format =
     ebind (py_lower variant_format) (\<lambda>f.
       let format_enum = (case map_of format_map f of Some e \<Rightarrow> e | None \<Rightarrow> DEFAULT)
       in ebind (Variant_from_str env variant_string format_enum) (\<lambda>v.
            Inr (variant_result (PStr (v_chromosome v)) (PInt (v_position v))
                   (PStr (v_reference_bases v)) (PStr (v_alternate_bases v)) (PStr (v_name v))
                   variant_format variant_string)))"

text \<open>The manual parse of \<^verbatim>\<open>parts\<close> when there are exactly four of them.\<close>

definition manual_parse :: "'s pyenv \<Rightarrow> string list \<Rightarrow> pyval \<Rightarrow> pyval \<Rightarrow> exn + pyval" where
  "manual_parse env parts variant_string variant_format =
     (case parts of
        [chromosome, position, ref, alt] \<Rightarrow>
          ebind (py_int env position) (\<lambda>n.
            Inr (variant_result (PStr chromosome) (PInt n) (PStr ref) (PStr alt)
                   variant_string variant_format variant_string))
      | _ \<Rightarrow> library_parse env variant_string variant_format)"

definition parse_variant_string_body :: "'s pyenv \<Rightarrow> pyval \<Rightarrow> pyval \<Rightarrow> exn + pyval" where
  "parse_variant_string_body env variant_string variant_format =
     ebind (py_contains_char CHR ''-'' variant_string) (\<lambda>has_dash.
       if has_dash then
         ebind (py_split CHR ''-'' variant_string) (\<lambda>parts.
           manual_parse env parts variant_string variant_format)
       else
         ebind (py_contains_char CHR '':'' variant_string) (\<lambda>has_colon.
           if has_colon then
             ebind (py_split CHR '':'' variant_string) (\<lambda>parts.
               manual_parse env parts variant_string variant_format)
           else library_parse env variant_string variant_format))"

definition parse_variant_string_try ::
  "'s pyenv \<Rightarrow> pyval \<Rightarrow> pyval \<Rightarrow> 's agc \<Rightarrow> (exn + pyval) \<times> 's agc" where
  "parse_variant_string_try env variant_string variant_format self =
     (parse_variant_string_body env variant_string variant_format, self)"

definition parse_variant_string ::
  "'s pyenv \<Rightarrow> pyval \<Rightarrow> pyval \<Rightarrow> 's agc \<Rightarrow> pyval \<times> 's agc" where
  "parse_variant_string env variant_string variant_format self =
     guarded (parse_variant_string_try env variant_string variant_format self)"

subsection \<open>\<^verbatim>\<open>calculate_genomic_overlap\<close>\<close>

text \<open>\<^verbatim>\<open>Interval(chromosome=d["chromosome"], start=d["start"], end=d["end"])\<close>\<close>

definition interval_of :: "'s pyenv \<Rightarrow> pyval \<Rightarrow> exn + interval" where
  "interval_of env d =
     ebind (py_getitem d ''chromosome'') (\<lambda>c.
     ebind (py_getitem d ''start'') (\<lambda>s.
     ebind (py_getitem d ''end'') (\<lambda>e. Interval_init env c s e)))"

text \<open>\<^verbatim>\<open>f"{chromosome}:{start}-{end}"\<close>\<close>

definition interval_str :: "'s pyenv \<Rightarrow> pyval \<Rightarrow> pyval \<Rightarrow> pyval \<Rightarrow> string" where
  "interval_str env c s e = py_str env c @ '':'' @ py_str env s @ ''-'' @ py_str env e"

text \<open>\<^verbatim>\<open>f"{d['chromosome']}:{d['start']}-{d['end']}"\<close>\<close>

definition interval_dict_str :: "'s pyenv \<Rightarrow> pyval \<Rightarrow> exn + string" where
  "interval_dict_str env d =
     ebind (py_getitem d ''chromosome'') (\<lambda>c.
     ebind (py_getitem d ''start'') (\<lambda>s.
     ebind (py_getitem d ''end'') (\<lambda>e. Inr (interval_str env c s e))))"

text \<open>\<^verbatim>\<open>x.end - x.start + 1\<close>\<close>

definition interval_length :: "interval \<Rightarrow> exn + pyval" where
  "interval_length x = ebind (py_sub (i_end x) (i_start x)) (\<lambda>d. py_add d (PInt 1))"

text \<open>\<^verbatim>\<open>(x / y) * 100\<close>\<close>

definition percentage_of :: "pyval \<Rightarrow> pyval \<Rightarrow> exn + pyval" where
  "percentage_of x y = ebind (py_truediv x y) (\<lambda>q. py_mul q (PInt 100))"

text \<open>The entries \<^verbatim>\<open>intersection\<close> and \<^verbatim>\<open>overlap_stats\<close>, in the order in which the script
  evaluates them.\<close>

definition overlap_details :: "interval \<Rightarrow> interval \<Rightarrow> interval \<Rightarrow> exn + (string \<times> pyval) list" where
  "overlap_details int1 int2 intersection =
     ebind (interval_length intersection) (\<lambda>len.
     ebind (interval_length int1) (\<lambda>int1_length.
     ebind (interval_length int2) (\<lambda>int2_length.
     ebind (interval_length intersection) (\<lambda>overlap_length.
     ebind (percentage_of overlap_length int1_length) (\<lambda>p1.
     ebind (percentage_of overlap_length int2_length) (\<lambda>p2.
       Inr [(''intersection'', PDict
               [(''chromosome'', i_chromosome intersection),
                (''start'', i_start intersection),
                (''end'', i_end intersection),
                (''length'', len)]),
            (''overlap_stats'', PDict
               [(''overlap_length'', overlap_length),
                (''interval1_length'', int1_length),
                (''interval2_length'', int2_length),
                (''overlap_percentage_int1'', p1),
                (''overlap_percentage_int2'', p2)])]))))))"

definition calculate_genomic_overlap_body :: "'s pyenv \<Rightarrow> pyval \<Rightarrow> pyval \<Rightarrow> exn + pyval" where
  "calculate_genomic_overlap_body env interval1 interval2 =
     ebind (interval_of env interval1) (\<lambda>int1.
     ebind (interval_of env interval2) (\<lambda>int2.
       let overlaps = interval_overlaps env int1 int2
       in ebind (interval_dict_str env interval1) (\<lambda>s1.
          ebind (interval_dict_str env interval2) (\<lambda>s2.
            let result = [(''overlaps'', PBool overlaps),
                          (''interval1'', PStr s1),
                          (''interval2'', PStr s2)]
            in ebind (if overlaps then
                        (case interval_intersect env int1 int2 of
                           None \<Rightarrow> Inr []
                         | Some intersection \<Rightarrow> overlap_details int1 int2 intersection)
                      else Inr []) (\<lambda>more.
                 Inr (PDict [(''success'', PBool True), (''result'', PDict (result @ more))]))))))"

definition calculate_genomic_overlap_try ::
  "'s pyenv \<Rightarrow> pyval \<Rightarrow> pyval \<Rightarrow> 's agc \<Rightarrow> (exn + pyval) \<times> 's agc" where
  "calculate_genomic_overlap_try env interval1 interval2 self =
     (calculate_genomic_overlap_body env interval1 interval2, self)"

definition calculate_genomic_overlap ::
  "'s pyenv \<Rightarrow> pyval \<Rightarrow> pyval \<Rightarrow> 's agc \<Rightarrow> pyval \<times> 's agc" where
  "calculate_genomic_overlap env interval1 interval2 self =
     guarded (calculate_genomic_overlap_try env interval1 interval2 self)"

section \<open>Operations that contact the external client\<close>

text \<open>
  \<^verbatim>\<open>Organism.HOMO_SAPIENS if organism.lower() in ['human', 'homo_sapiens'] else
  Organism.HOMO_SAPIENS\<close>
\<close>

definition organism_enum :: "pyval \<Rightarrow> exn + organism" where
  "organism_enum organism =
     ebind (py_lower organism) (\<lambda>l.
       Inr (if l \<in> set [''human'', ''homo_sapiens''] then HOMO_SAPIENS else HOMO_SAPIENS))"

text \<open>
  \<^verbatim>\<open>[getattr(OutputType, ot.upper()) for ot in output_types if hasattr(OutputType,
  ot.upper())]\<close> when \<^verbatim>\<open>output_types\<close> is true, \<^verbatim>\<open>None\<close> otherwise.
\<close>

definition requested_outputs :: "'s pyenv \<Rightarrow> pyval \<Rightarrow> exn + string list option" where
  "requested_outputs env output_types =
     (if py_truthy output_types then
        ebind (py_iter output_types) (\<lambda>ots.
        ebind (emap py_upper ots) (\<lambda>names.
          Inr (Some (filter (has_output_type env) names))))
      else Inr None)"

text \<open>\<^verbatim>\<open>Variant(chromosome=d["chromosome"], position=d["position"], reference_bases=d["ref"],
  alternate_bases=d["alt"])\<close>\<close>

definition variant_of :: "'s pyenv \<Rightarrow> pyval \<Rightarrow> exn + variant" where
  "variant_of env d =
     ebind (py_getitem d ''chromosome'') (\<lambda>c.
     ebind (py_getitem d ''position'') (\<lambda>p.
     ebind (py_getitem d ''ref'') (\<lambda>r.
     ebind (py_getitem d ''alt'') (\<lambda>a. Variant_init env c p r a))))"

text \<open>\<^verbatim>\<open>f"{chromosome}:{position}{ref}>{alt}"\<close>\<close>

definition variant_str :: "'s pyenv \<Rightarrow> pyval \<Rightarrow> pyval \<Rightarrow> pyval \<Rightarrow> pyval \<Rightarrow> string" where
  "variant_str env c p r a = py_str env c @ '':'' @ py_str env p @ py_str env r @ ''>'' @ py_str env a"

subsection \<open>Serialisers\<close>

text \<open>
  The four \<^verbatim>\<open>_serialize_*\<close> helpers only test which attributes of a result are present.
  Each has a \<^verbatim>\<open>try\<close>/\<^verbatim>\<open>except\<close> of its own, which returns a dictionary with the one key
  "error"; nothing in the helpers can raise on the results modelled here, so that branch
  does not occur.
\<close>

text \<open>\<^verbatim>\<open>hasattr(output, a) and output.a is not None\<close>\<close>

definition has_attr :: "extobj \<Rightarrow> string \<Rightarrow> bool" where
  "has_attr obj a = (case obj of EObj attrs \<Rightarrow> a \<in> set attrs | EList xs \<Rightarrow> False)"

text \<open>\<^verbatim>\<open>for result in results\<close> over what the client returned.\<close>

definition ext_iter :: "extobj \<Rightarrow> exn + extobj list" where
  "ext_iter obj =
     (case obj of EList xs \<Rightarrow> Inr xs | EObj attrs \<Rightarrow> Inl (Exn ''TypeError'' ''object is not iterable''))"

definition present :: "extobj \<Rightarrow> (string \<times> 'a) list \<Rightarrow> (string \<times> 'a) list" where
  "present obj table = filter (\<lambda>kv. has_attr obj (fst kv)) table"

definition serialize_output :: "extobj \<Rightarrow> pyval" where
  "serialize_output output =
     PDict [(''type'', PStr ''prediction_output''),
            (''data'', PDict (present output
               [(''atac'', PStr ''ATAC-seq data available''),
                (''cage'', PStr ''CAGE data available''),
                (''dnase'', PStr ''DNase data available''),
                (''histone_marks'', PStr ''Histone marks data available''),
                (''gene_expression'', PStr ''Gene expression data available'')]))]"

definition serialize_scores :: "extobj \<Rightarrow> pyval" where
  "serialize_scores scores =
     PDict [(''type'', PStr ''variant_scores''),
            (''scores'', PList
               (case scores of
                  EList xs \<Rightarrow>
                    map (\<lambda>i. PDict [(''scorer_index'', PInt (int i)),
                                     (''data'', PStr ''Score data available (AnnData format)'')])
                      [0 ..< length xs]
                | EObj attrs \<Rightarrow> []))]"

definition serialize_variant_output :: "extobj \<Rightarrow> pyval" where
  "serialize_variant_output output =
     PDict [(''type'', PStr ''variant_prediction_output''),
            (''data'', PDict (present output
               [(''reference'', PStr ''Reference prediction data available''),
                (''alternate'', PStr ''Alternate prediction data available''),
                (''difference'', PStr ''Difference prediction data available'')]))]"

definition serialize_metadata :: "extobj \<Rightarrow> pyval" where
  "serialize_metadata metadata =
     PDict [(''type'', PStr ''output_metadata''),
            (''available_outputs'', PList (map (\<lambda>kv. PStr (fst kv)) (present metadata
               [(''atac'', ()), (''cage'', ()), (''dnase'', ()), (''histone_marks'', ()),
                (''gene_expression'', ())])))]"

subsection \<open>The shape of a client operation\<close>

text \<open>
  Inside \<^verbatim>\<open>try\<close>: the arguments are checked and converted (\<open>prep\<close>, which gives the
  request), the client is called once, and the result dictionary is built from what it
  returns (\<open>post\<close>). An exception at any of the three steps leaves the block.
\<close>

definition try_client ::
  "'s pyenv \<Rightarrow> exn + client_call \<Rightarrow> (extobj \<Rightarrow> exn + pyval) \<Rightarrow> 's agc
     \<Rightarrow> (exn + pyval) \<times> 's agc" where
  "try_client env prep post self =
     (case prep of
        Inl e \<Rightarrow> (Inl e, self)
      | Inr c \<Rightarrow>
          (case invoke env c self of
             (Inl e, self') \<Rightarrow> (Inl e, self')
           | (Inr r, self') \<Rightarrow> (post r, self')))"

abbreviation with_client ::
  "'s pyenv \<Rightarrow> exn + client_call \<Rightarrow> (extobj \<Rightarrow> exn + pyval) \<Rightarrow> 's agc \<Rightarrow> pyval \<times> 's agc" where
  "with_client env prep post self \<equiv> guarded (try_client env prep post self)"

definition is_str :: "pyval \<Rightarrow> bool" where
  "is_str v = (case v of PStr s \<Rightarrow> True | _ \<Rightarrow> False)"

definition is_list :: "pyval \<Rightarrow> bool" where
  "is_list v = (case v of PList xs \<Rightarrow> True | _ \<Rightarrow> False)"

subsection \<open>Single requests\<close>

definition predict_sequence_prep :: "'s pyenv \<Rightarrow> pyval \<Rightarrow> pyval \<Rightarrow> pyval \<Rightarrow> pyval \<Rightarrow> exn + client_call" where
  "predict_sequence_prep env sequence organism output_types ontology_terms =
     (if \<not> py_truthy sequence \<or> \<not> is_str sequence
      then Inl (Exn ''ValueError'' ''Sequence must be a non-empty string'')
      else
        ebind (py_upper sequence) (\<lambda>u.
          if \<not> set u \<subseteq> set ''ATGCN''
          then Inl (Exn ''ValueError''
                 ''Sequence contains invalid characters. Only A, T, G, C, N are allowed'')
          else
            ebind (organism_enum organism) (\<lambda>org.
            ebind (requested_outputs env output_types) (\<lambda>ro.
              Inr (Call_predict_sequence u org ro ontology_terms)))))"

definition predict_sequence_try ::
  "'s pyenv \<Rightarrow> pyval \<Rightarrow> pyval \<Rightarrow> pyval \<Rightarrow> pyval \<Rightarrow> 's agc \<Rightarrow> (exn + pyval) \<times> 's agc" where
  "predict_sequence_try env sequence organism output_types ontology_terms self =
     try_client env (predict_sequence_prep env sequence organism output_types ontology_terms)
       (\<lambda>result.
          ebind (py_len sequence) (\<lambda>n.
            Inr (PDict [(''success'', PBool True),
                        (''result'', serialize_output result),
                        (''sequence_length'', PInt (int n))]))) self"

definition predict_sequence ::
  "'s pyenv \<Rightarrow> pyval \<Rightarrow> pyval \<Rightarrow> pyval \<Rightarrow> pyval \<Rightarrow> 's agc \<Rightarrow> pyval \<times> 's agc" where
  "predict_sequence env sequence organism output_types ontology_terms self =
     guarded (predict_sequence_try env sequence organism output_types ontology_terms self)"

definition predict_interval_try ::
  "'s pyenv \<Rightarrow> pyval \<Rightarrow> pyval \<Rightarrow> pyval \<Rightarrow> pyval \<Rightarrow> pyval \<Rightarrow> pyval \<Rightarrow> 's agc \<Rightarrow> (exn + pyval) \<times> 's agc" where
  "predict_interval_try env chromosome start end_pos organism output_types ontology_terms self =
     try_client env
       (ebind (Interval_init env chromosome start end_pos) (\<lambda>interval.
        ebind (organism_enum organism) (\<lambda>org.
        ebind (requested_outputs env output_types) (\<lambda>ro.
          Inr (Call_predict_interval interval org ro ontology_terms)))))
       (\<lambda>result.
          Inr (PDict [(''success'', PBool True),
                      (''result'', serialize_output result),
                      (''interval'', PStr (interval_str env chromosome start end_pos))])) self"

definition predict_interval ::
  "'s pyenv \<Rightarrow> pyval \<Rightarrow> pyval \<Rightarrow> pyval \<Rightarrow> pyval \<Rightarrow> pyval \<Rightarrow> pyval \<Rightarrow> 's agc \<Rightarrow> pyval \<times> 's agc" where
  "predict_interval env chromosome start end_pos organism output_types ontology_terms self =
     guarded (predict_interval_try env chromosome start end_pos organism output_types
        ontology_terms self)"

definition predict_variant_try ::
  "'s pyenv \<Rightarrow> pyval \<Rightarrow> pyval \<Rightarrow> pyval \<Rightarrow> pyval \<Rightarrow> pyval \<Rightarrow> pyval \<Rightarrow> pyval \<Rightarrow> pyval \<Rightarrow> pyval
     \<Rightarrow> 's agc \<Rightarrow> (exn + pyval) \<times> 's agc" where
  "predict_variant_try env chromosome position ref alt interval_start interval_end organism
       output_types ontology_terms self =
     try_client env
       (ebind (Interval_init env chromosome interval_start interval_end) (\<lambda>interval.
        ebind (Variant_init env chromosome position ref alt) (\<lambda>variant.
        ebind (organism_enum organism) (\<lambda>org.
        ebind (requested_outputs env output_types) (\<lambda>ro.
          Inr (Call_predict_variant interval variant org ro ontology_terms))))))
       (\<lambda>result.
          Inr (PDict [(''success'', PBool True),
                      (''result'', serialize_output result),
                      (''variant'', PStr (variant_str env chromosome position ref alt)),
                      (''interval'', PStr (interval_str env chromosome interval_start interval_end))])) self"

definition predict_variant ::
  "'s pyenv \<Rightarrow> pyval \<Rightarrow> pyval \<Rightarrow> pyval \<Rightarrow> pyval \<Rightarrow> pyval \<Rightarrow> pyval \<Rightarrow> pyval \<Rightarrow> pyval \<Rightarrow> pyval
     \<Rightarrow> 's agc \<Rightarrow> pyval \<times> 's agc" where
  "predict_variant env chromosome position ref alt interval_start interval_end organism
       output_types ontology_terms self =
     guarded (predict_variant_try env chromosome position ref alt interval_start interval_end
        organism output_types ontology_terms self)"

definition score_variant_try ::
  "'s pyenv \<Rightarrow> pyval \<Rightarrow> pyval \<Rightarrow> pyval \<Rightarrow> pyval \<Rightarrow> pyval \<Rightarrow> pyval \<Rightarrow> pyval
     \<Rightarrow> 's agc \<Rightarrow> (exn + pyval) \<times> 's agc" where
  "score_variant_try env chromosome position ref alt interval_start interval_end organism self =
     try_client env
       (ebind (Interval_init env chromosome interval_start interval_end) (\<lambda>interval.
        ebind (Variant_init env chromosome position ref alt) (\<lambda>variant.
        ebind (organism_enum organism) (\<lambda>org.
          Inr (Call_score_variant interval variant org)))))
       (\<lambda>result.
          Inr (PDict [(''success'', PBool True),
                      (''result'', serialize_scores result),
                      (''variant'', PStr (variant_str env chromosome position ref alt)),
                      (''interval'', PStr (interval_str env chromosome interval_start interval_end))])) self"

definition score_variant ::
  "'s pyenv \<Rightarrow> pyval \<Rightarrow> pyval \<Rightarrow> pyval \<Rightarrow> pyval \<Rightarrow> pyval \<Rightarrow> pyval \<Rightarrow> pyval
     \<Rightarrow> 's agc \<Rightarrow> pyval \<times> 's agc" where
  "score_variant env chromosome position ref alt interval_start interval_end organism self =
     guarded (score_variant_try env chromosome position ref alt interval_start interval_end
        organism self)"

definition get_output_metadata_try ::
  "'s pyenv \<Rightarrow> pyval \<Rightarrow> 's agc \<Rightarrow> (exn + pyval) \<times> 's agc" where
  "get_output_metadata_try env organism self =
     try_client env
       (ebind (organism_enum organism) (\<lambda>org. Inr (Call_output_metadata org)))
       (\<lambda>metadata.
          Inr (PDict [(''success'', PBool True),
                      (''result'', serialize_metadata metadata),
                      (''organism'', organism)])) self"

definition get_output_metadata ::
  "'s pyenv \<Rightarrow> pyval \<Rightarrow> 's agc \<Rightarrow> pyval \<times> 's agc" where
  "get_output_metadata env organism self =
     guarded (get_output_metadata_try env organism self)"

definition score_interval_try ::
  "'s pyenv \<Rightarrow> pyval \<Rightarrow> pyval \<Rightarrow> pyval \<Rightarrow> pyval \<Rightarrow> 's agc \<Rightarrow> (exn + pyval) \<times> 's agc" where
  "score_interval_try env chromosome start end_pos organism self =
     try_client env
       (ebind (Interval_init env chromosome start end_pos) (\<lambda>interval.
        ebind (organism_enum organism) (\<lambda>org.
          Inr (Call_score_interval interval org))))
       (\<lambda>results.
          Inr (PDict [(''success'', PBool True),
                      (''results'', serialize_scores results),
                      (''interval'', PStr (interval_str env chromosome start end_pos))])) self"

definition score_interval ::
  "'s pyenv \<Rightarrow> pyval \<Rightarrow> pyval \<Rightarrow> pyval \<Rightarrow> pyval \<Rightarrow> 's agc \<Rightarrow> pyval \<times> 's agc" where
  "score_interval env chromosome start end_pos organism self =
     guarded (score_interval_try env chromosome start end_pos organism self)"

definition score_ism_variants_try ::
  "'s pyenv \<Rightarrow> pyval \<Rightarrow> pyval \<Rightarrow> pyval \<Rightarrow> pyval \<Rightarrow> pyval \<Rightarrow> pyval \<Rightarrow> pyval \<Rightarrow> pyval
     \<Rightarrow> 's agc \<Rightarrow> (exn + pyval) \<times> 's agc" where
  "score_ism_variants_try env chromosome start end_pos ism_chromosome ism_start ism_end organism
       max_workers self =
     try_client env
       (ebind (Interval_init env chromosome start end_pos) (\<lambda>interval.
        ebind (Interval_init env ism_chromosome ism_start ism_end) (\<lambda>ism_interval.
        ebind (organism_enum organism) (\<lambda>org.
          Inr (Call_score_ism_variants interval ism_interval org max_workers)))))
       (\<lambda>results.
          ebind (ext_iter results) (\<lambda>rs.
            Inr (PDict [(''success'', PBool True),
                        (''results'', PList (map serialize_scores rs)),
                        (''interval'', PStr (interval_str env chromosome start end_pos)),
                        (''ism_interval'', PStr (interval_str env ism_chromosome ism_start ism_end))]))) self"

definition score_ism_variants ::
  "'s pyenv \<Rightarrow> pyval \<Rightarrow> pyval \<Rightarrow> pyval \<Rightarrow> pyval \<Rightarrow> pyval \<Rightarrow> pyval \<Rightarrow> pyval \<Rightarrow> pyval
     \<Rightarrow> 's agc \<Rightarrow> pyval \<times> 's agc" where
  "score_ism_variants env chromosome start end_pos ism_chromosome ism_start ism_end organism
       max_workers self =
     guarded (score_ism_variants_try env chromosome start end_pos ism_chromosome ism_start
        ism_end organism max_workers self)"

subsection \<open>Batch requests\<close>

definition predict_sequences_try ::
  "'s pyenv \<Rightarrow> pyval \<Rightarrow> pyval \<Rightarrow> pyval \<Rightarrow> pyval \<Rightarrow> pyval \<Rightarrow> 's agc \<Rightarrow> (exn + pyval) \<times> 's agc" where
  "predict_sequences_try env sequences organism output_types ontology_terms max_workers self =
     try_client env
       (if \<not> py_truthy sequences \<or> \<not> is_list sequences
        then Inl (Exn ''ValueError'' ''Sequences must be a non-empty list'')
        else
          ebind (organism_enum organism) (\<lambda>org.
          ebind (requested_outputs env output_types) (\<lambda>ro.
          ebind (py_iter sequences) (\<lambda>seqs.
          ebind (emap py_upper seqs) (\<lambda>us.
            Inr (Call_predict_sequences us org ro ontology_terms max_workers))))))
       (\<lambda>results.
          ebind (ext_iter results) (\<lambda>rs.
          ebind (py_len sequences) (\<lambda>n.
            Inr (PDict [(''success'', PBool True),
                        (''results'', PList (map serialize_output rs)),
                        (''sequence_count'', PInt (int n))])))) self"

definition predict_sequences ::
  "'s pyenv \<Rightarrow> pyval \<Rightarrow> pyval \<Rightarrow> pyval \<Rightarrow> pyval \<Rightarrow> pyval \<Rightarrow> 's agc \<Rightarrow> pyval \<times> 's agc" where
  "predict_sequences env sequences organism output_types ontology_terms max_workers self =
     guarded (predict_sequences_try env sequences organism output_types ontology_terms
        max_workers self)"

text \<open>The loop \<^verbatim>\<open>for interval_data in intervals: interval_objs.append(Interval(...))\<close>\<close>

definition interval_objs_of :: "'s pyenv \<Rightarrow> pyval \<Rightarrow> exn + interval list" where
  "interval_objs_of env intervals = ebind (py_iter intervals) (emap (interval_of env))"

definition variant_objs_of :: "'s pyenv \<Rightarrow> pyval \<Rightarrow> exn + variant list" where
  "variant_objs_of env variants = ebind (py_iter variants) (emap (variant_of env))"

definition predict_intervals_try ::
  "'s pyenv \<Rightarrow> pyval \<Rightarrow> pyval \<Rightarrow> pyval \<Rightarrow> pyval \<Rightarrow> pyval \<Rightarrow> 's agc \<Rightarrow> (exn + pyval) \<times> 's agc" where
  "predict_intervals_try env intervals organism output_types ontology_terms max_workers self =
     try_client env
       (ebind (interval_objs_of env intervals) (\<lambda>interval_objs.
        ebind (organism_enum organism) (\<lambda>org.
        ebind (requested_outputs env output_types) (\<lambda>ro.
          Inr (Call_predict_intervals interval_objs org ro ontology_terms max_workers)))))
       (\<lambda>results.
          ebind (ext_iter results) (\<lambda>rs.
          ebind (py_len intervals) (\<lambda>n.
            Inr (PDict [(''success'', PBool True),
                        (''results'', PList (map serialize_output rs)),
                        (''interval_count'', PInt (int n))])))) self"

definition predict_intervals ::
  "'s pyenv \<Rightarrow> pyval \<Rightarrow> pyval \<Rightarrow> pyval \<Rightarrow> pyval \<Rightarrow> pyval \<Rightarrow> 's agc \<Rightarrow> pyval \<times> 's agc" where
  "predict_intervals env intervals organism output_types ontology_terms max_workers self =
     guarded (predict_intervals_try env intervals organism output_types ontology_terms
        max_workers self)"

definition predict_variants_try ::
  "'s pyenv \<Rightarrow> pyval \<Rightarrow> pyval \<Rightarrow> pyval \<Rightarrow> pyval \<Rightarrow> pyval \<Rightarrow> pyval \<Rightarrow> 's agc \<Rightarrow> (exn + pyval) \<times> 's agc" where
  "predict_variants_try env variants interval organism output_types ontology_terms max_workers self =
     try_client env
       (ebind (interval_of env interval) (\<lambda>interval_obj.
        ebind (variant_objs_of env variants) (\<lambda>variant_objs.
        ebind (organism_enum organism) (\<lambda>org.
        ebind (requested_outputs env output_types) (\<lambda>ro.
          Inr (Call_predict_variants interval_obj variant_objs org ro ontology_terms max_workers))))))
       (\<lambda>results.
          ebind (ext_iter results) (\<lambda>rs.
          ebind (py_len variants) (\<lambda>n.
          ebind (interval_dict_str env interval) (\<lambda>istr.
            Inr (PDict [(''success'', PBool True),
                        (''results'', PList (map serialize_variant_output rs)),
                        (''variant_count'', PInt (int n)),
                        (''interval'', PStr istr)]))))) self"

definition predict_variants ::
  "'s pyenv \<Rightarrow> pyval \<Rightarrow> pyval \<Rightarrow> pyval \<Rightarrow> pyval \<Rightarrow> pyval \<Rightarrow> pyval \<Rightarrow> 's agc \<Rightarrow> pyval \<times> 's agc" where
  "predict_variants env variants interval organism output_types ontology_terms max_workers self =
     guarded (predict_variants_try env variants interval organism output_types ontology_terms
        max_workers self)"

definition score_variants_try ::
  "'s pyenv \<Rightarrow> pyval \<Rightarrow> pyval \<Rightarrow> pyval \<Rightarrow> pyval \<Rightarrow> 's agc \<Rightarrow> (exn + pyval) \<times> 's agc" where
  "score_variants_try env variants interval organism max_workers self =
     try_client env
       (ebind (interval_of env interval) (\<lambda>interval_obj.
        ebind (variant_objs_of env variants) (\<lambda>variant_objs.
        ebind (organism_enum organism) (\<lambda>org.
          Inr (Call_score_variants interval_obj variant_objs org max_workers)))))
       (\<lambda>results.
          ebind (ext_iter results) (\<lambda>rs.
          ebind (py_len variants) (\<lambda>n.
          ebind (interval_dict_str env interval) (\<lambda>istr.
            Inr (PDict [(''success'', PBool True),
                        (''results'', PList (map serialize_scores rs)),
                        (''variant_count'', PInt (int n)),
                        (''interval'', PStr istr)]))))) self"

definition score_variants ::
  "'s pyenv \<Rightarrow> pyval \<Rightarrow> pyval \<Rightarrow> pyval \<Rightarrow> pyval \<Rightarrow> 's agc \<Rightarrow> pyval \<times> 's agc" where
  "score_variants env variants interval organism max_workers self =
     guarded (score_variants_try env variants interval organism max_workers self)"

definition score_intervals_try ::
  "'s pyenv \<Rightarrow> pyval \<Rightarrow> pyval \<Rightarrow> pyval \<Rightarrow> 's agc \<Rightarrow> (exn + pyval) \<times> 's agc" where
  "score_intervals_try env intervals organism max_workers self =
     try_client env
       (ebind (interval_objs_of env intervals) (\<lambda>interval_objs.
        ebind (organism_enum organism) (\<lambda>org.
          Inr (Call_score_intervals interval_objs org max_workers))))
       (\<lambda>results.
          ebind (ext_iter results) (\<lambda>rs.
          ebind (py_len intervals) (\<lambda>n.
            Inr (PDict [(''success'', PBool True),
                        (''results'', PList (map serialize_scores rs)),
                        (''interval_count'', PInt (int n))])))) self"

definition score_intervals ::
  "'s pyenv \<Rightarrow> pyval \<Rightarrow> pyval \<Rightarrow> pyval \<Rightarrow> 's agc \<Rightarrow> pyval \<times> 's agc" where
  "score_intervals env intervals organism max_workers self =
     guarded (score_intervals_try env intervals organism max_workers self)"

section \<open>Composite and informational operations\<close>

definition get_supported_outputs_try ::
  "'s agc \<Rightarrow> (exn + pyval) \<times> 's agc" where
  "get_supported_outputs_try self =
     (Inr (PDict [(''success'', PBool True),
             (''result'', PDict
                [(''output_types'', PDict
                    [(''ATAC'', PStr ''ATAC-seq chromatin accessibility data''),
                     (''CAGE'', PStr ''CAGE transcription start site data''),
                     (''CHIP_HISTONE'', PStr ''ChIP-seq histone modification data''),
                     (''CHIP_TF'', PStr ''ChIP-seq transcription factor binding data''),
                     (''CONTACT_MAPS'', PStr ''3D chromatin contact maps''),
                     (''DNASE'', PStr ''DNase hypersensitivity data''),
                     (''PROCAP'', PStr ''PRO-cap nascent transcription data''),
                     (''RNA_SEQ'', PStr ''RNA-seq gene expression data''),
                     (''SPLICE_JUNCTIONS'', PStr ''Splice junction predictions''),
                     (''SPLICE_SITES'', PStr ''Splice site predictions''),
                     (''SPLICE_SITE_USAGE'', PStr ''Splice site usage predictions'')]),
                 (''supported_sequence_lengths'', PDict
                    [(''SEQUENCE_LENGTH_2KB'', PInt 2048),
                     (''SEQUENCE_LENGTH_16KB'', PInt 16384),
                     (''SEQUENCE_LENGTH_100KB'', PInt 131072),
                     (''SEQUENCE_LENGTH_500KB'', PInt 524288),
                     (''SEQUENCE_LENGTH_1MB'', PInt 1048576)]),
                 (''max_ism_interval_width'', PInt 10),
                 (''max_variant_scorers_per_request'', PInt 20),
                 (''supported_organisms'', PList [PStr ''human'']),
                 (''variant_formats'', PList (map PStr
                    [''default'', ''gnomad'', ''gtex'', ''open_targets'', ''open_targets_bigquery'']))])]),
      self)"

definition get_supported_outputs ::
  "'s agc \<Rightarrow> pyval \<times> 's agc" where
  "get_supported_outputs self =
     guarded (get_supported_outputs_try self)"

definition analyze_gene_region_try ::
  "pyval \<Rightarrow> pyval \<Rightarrow> pyval \<Rightarrow> pyval \<Rightarrow> 's agc \<Rightarrow> (exn + pyval) \<times> 's agc" where
  "analyze_gene_region_try gene_symbol organism flanking_size output_types self =
     (Inr (PDict [(''success'', PBool False),
             (''error'', PStr (''Gene coordinate lookup requires integration with Ensembl/UCSC API. ''
                @ ''Please provide chromosome coordinates directly using predict_genomic_interval.'')),
             (''type'', PStr ''NotImplementedError''),
             (''suggestion'', PStr (''Use predict_genomic_interval with gene coordinates from Ensembl: ''
                @ ''https://rest.ensembl.org/''))]),
      self)"

definition analyze_gene_region ::
  "pyval \<Rightarrow> pyval \<Rightarrow> pyval \<Rightarrow> pyval \<Rightarrow> 's agc \<Rightarrow> pyval \<times> 's agc" where
  "analyze_gene_region gene_symbol organism flanking_size output_types self =
     guarded (analyze_gene_region_try gene_symbol organism flanking_size output_types self)"

text \<open>
  \<^verbatim>\<open>compare_sequences\<close> calls \<^verbatim>\<open>self.predict_sequence\<close> twice, with \<^verbatim>\<open>ontology_terms\<close> left
  at its default \<^verbatim>\<open>None\<close>.
\<close>

definition compare_body :: "pyval \<Rightarrow> pyval \<Rightarrow> pyval \<Rightarrow> pyval \<Rightarrow> exn + pyval" where
  "compare_body sequence1 sequence2 result1 result2 =
     ebind (py_getitem result1 ''success'') (\<lambda>ok1.
     ebind (if \<not> py_truthy ok1 then Inr True
            else ebind (py_getitem result2 ''success'') (\<lambda>ok2. Inr (\<not> py_truthy ok2))) (\<lambda>failed.
       if failed then
         Inr (PDict [(''success'', PBool False),
                     (''error'', PStr ''Failed to predict one or both sequences''),
                     (''result1'', result1),
                     (''result2'', result2)])
       else
         ebind (py_len sequence1) (\<lambda>n1.
         ebind (py_getitem result1 ''result'') (\<lambda>predictions1.
         ebind (py_len sequence2) (\<lambda>n2.
         ebind (py_getitem result2 ''result'') (\<lambda>predictions2.
           Inr (PDict
             [(''success'', PBool True),
              (''result'', PDict
                 [(''sequence1'', PDict [(''length'', PInt (int n1)), (''predictions'', predictions1)]),
                  (''sequence2'', PDict [(''length'', PInt (int n2)), (''predictions'', predictions2)]),
                  (''comparison'', PDict
                     [(''length_difference'', PInt \<bar>int n1 - int n2\<bar>),
                      (''note'', PStr (''Detailed differential analysis requires post-processing ''
                         @ ''of prediction outputs''))])])]))))))) "

definition compare_sequences_try ::
  "'s pyenv \<Rightarrow> pyval \<Rightarrow> pyval \<Rightarrow> pyval \<Rightarrow> pyval \<Rightarrow> 's agc \<Rightarrow> (exn + pyval) \<times> 's agc" where
  "compare_sequences_try env sequence1 sequence2 organism output_types self =
     (case predict_sequence env sequence1 organism output_types PNone self of
        (result1, self1) \<Rightarrow>
          (case predict_sequence env sequence2 organism output_types PNone self1 of
             (result2, self2) \<Rightarrow> (compare_body sequence1 sequence2 result1 result2, self2)))"

definition compare_sequences ::
  "'s pyenv \<Rightarrow> pyval \<Rightarrow> pyval \<Rightarrow> pyval \<Rightarrow> pyval \<Rightarrow> 's agc \<Rightarrow> pyval \<times> 's agc" where
  "compare_sequences env sequence1 sequence2 organism output_types self =
     guarded (compare_sequences_try env sequence1 sequence2 organism output_types self)"

text \<open>\<^verbatim>\<open>xs[i]\<close> with a non-negative index.\<close>

definition py_index :: "pyval \<Rightarrow> nat \<Rightarrow> exn + pyval" where
  "py_index v i =
     (case v of
        PList xs \<Rightarrow> if i < length xs then Inr (xs ! i)
                     else Inl (Exn ''IndexError'' ''list index out of range'')
      | PStr s \<Rightarrow> if i < length s then Inr (PStr [s ! i])
                   else Inl (Exn ''IndexError'' ''string index out of range'')
      | PDict kvs \<Rightarrow> Inl (Exn ''KeyError'' (int_str (int i)))
      | _ \<Rightarrow> Inl (Exn ''TypeError'' (sq @ py_type_name v @ sq @ '' object is not subscriptable'')))"

text \<open>One entry of \<^verbatim>\<open>ranked_variants\<close>, for the variant at position \<open>i\<close> of \<^verbatim>\<open>variants\<close>.\<close>

definition variant_info :: "'s pyenv \<Rightarrow> pyval \<Rightarrow> nat \<times> pyval \<Rightarrow> exn + pyval" where
  "variant_info env score_result iv =
     (case iv of (i, variant) \<Rightarrow>
        ebind (py_getitem variant ''chromosome'') (\<lambda>c.
        ebind (py_getitem variant ''position'') (\<lambda>p.
        ebind (py_getitem variant ''ref'') (\<lambda>r.
        ebind (py_getitem variant ''alt'') (\<lambda>a.
        ebind (py_getitem score_result ''results'') (\<lambda>results.
        ebind (py_len results) (\<lambda>n.
        ebind (if i < n then py_index results i else Inr PNone) (\<lambda>scores.
          Inr (PDict [(''rank'', PInt (int i + 1)),
                      (''variant'', PStr (variant_str env c p r a)),
                      (''chromosome'', c),
                      (''position'', p),
                      (''ref'', r),
                      (''alt'', a),
                      (''scores'', scores),
                      (''impact_category'', PStr ''unknown'')])))))))))"

definition rank_body :: "'s pyenv \<Rightarrow> pyval \<Rightarrow> pyval \<Rightarrow> pyval \<Rightarrow> pyval \<Rightarrow> exn + pyval" where
  "rank_body env variants interval ranking_metric score_result =
     ebind (py_getitem score_result ''success'') (\<lambda>ok.
       if \<not> py_truthy ok then Inr score_result
       else
         ebind (py_iter variants) (\<lambda>vs.
         ebind (emap (variant_info env score_result) (zip [0 ..< length vs] vs)) (\<lambda>ranked_variants.
         ebind (py_len variants) (\<lambda>n.
         ebind (interval_dict_str env interval) (\<lambda>istr.
           Inr (PDict
             [(''success'', PBool True),
              (''result'', PDict
                 [(''ranked_variants'', PList ranked_variants),
                  (''total_variants'', PInt (int n)),
                  (''ranking_metric'', ranking_metric),
                  (''interval'', PStr istr),
                  (''note'', PStr (''Variants are returned with scores. Detailed ranking requires ''
                     @ ''score interpretation based on specific algorithms.''))])]))))))"

definition rank_variants_by_impact_try ::
  "'s pyenv \<Rightarrow> pyval \<Rightarrow> pyval \<Rightarrow> pyval \<Rightarrow> pyval \<Rightarrow> pyval \<Rightarrow> 's agc \<Rightarrow> (exn + pyval) \<times> 's agc" where
  "rank_variants_by_impact_try env variants interval organism ranking_metric max_workers self =
     (case score_variants env variants interval organism max_workers self of
        (score_result, self1) \<Rightarrow>
          (rank_body env variants interval ranking_metric score_result, self1))"

definition rank_variants_by_impact ::
  "'s pyenv \<Rightarrow> pyval \<Rightarrow> pyval \<Rightarrow> pyval \<Rightarrow> pyval \<Rightarrow> pyval \<Rightarrow> 's agc \<Rightarrow> pyval \<times> 's agc" where
  "rank_variants_by_impact env variants interval organism ranking_metric max_workers self =
     guarded (rank_variants_by_impact_try env variants interval organism ranking_metric
        max_workers self)"

section \<open>The command line\<close>

text \<open>
  \<^verbatim>\<open>main\<close> builds an \<^verbatim>\<open>argparse\<close> parser and dispatches on the parsed \<^verbatim>\<open>args\<close>. The record
  \<open>cli_args\<close> has one field for each \<^verbatim>\<open>parser.add_argument\<close> call, in the source's order:
  an option not given is \<^verbatim>\<open>None\<close> unless it has a default. \<open>parse_args\<close> is the
  \<^verbatim>\<open>Namespace\<close> object \<^verbatim>\<open>parser.parse_args()\<close> returns for them: it has exactly these
  attributes. (A command line the parser rejects ends the process before \<^verbatim>\<open>main\<close>'s
  \<^verbatim>\<open>try\<close> block and is not modelled.)
\<close>

record cli_args =
  a_command :: string
  a_api_key :: string
  a_sequence :: "string option"
  a_chromosome :: "string option"
  a_start :: "int option"
  a_end :: "int option"
  a_position :: "int option"
  a_ref :: "string option"
  a_alt :: "string option"
  a_interval_start :: "int option"
  a_interval_end :: "int option"
  a_organism :: string
  a_output_types :: "string list option"
  a_ontology_terms :: "string list option"
  a_sequences :: "string option"
  a_intervals :: "string option"
  a_variants :: "string option"
  a_interval :: "string option"
  a_max_workers :: int
  a_ism_chromosome :: "string option"
  a_ism_start :: "int option"
  a_ism_end :: "int option"
  a_gene_symbol :: "string option"
  a_flanking_size :: int
  a_sequence1 :: "string option"
  a_sequence2 :: "string option"
  a_ranking_metric :: string

definition opt_str :: "string option \<Rightarrow> pyval" where
  "opt_str x = (case x of None \<Rightarrow> PNone | Some s \<Rightarrow> PStr s)"

definition opt_int :: "int option \<Rightarrow> pyval" where
  "opt_int x = (case x of None \<Rightarrow> PNone | Some n \<Rightarrow> PInt n)"

definition opt_strs :: "string list option \<Rightarrow> pyval" where
  "opt_strs x = (case x of None \<Rightarrow> PNone | Some xs \<Rightarrow> PList (map PStr xs))"

type_synonym namespace = "(string \<times> pyval) list"

definition parse_args :: "cli_args \<Rightarrow> namespace" where
  "parse_args a =
     [(''command'', PStr (a_command a)),
      (''api_key'', PStr (a_api_key a)),
      (''sequence'', opt_str (a_sequence a)),
      (''chromosome'', opt_str (a_chromosome a)),
      (''start'', opt_int (a_start a)),
      (''end'', opt_int (a_end a)),
      (''position'', opt_int (a_position a)),
      (''ref'', opt_str (a_ref a)),
      (''alt'', opt_str (a_alt a)),
      (''interval_start'', opt_int (a_interval_start a)),
      (''interval_end'', opt_int (a_interval_end a)),
      (''organism'', PStr (a_organism a)),
      (''output_types'', opt_strs (a_output_types a)),
      (''ontology_terms'', opt_strs (a_ontology_terms a)),
      (''sequences'', opt_str (a_sequences a)),
      (''intervals'', opt_str (a_intervals a)),
      (''variants'', opt_str (a_variants a)),
      (''interval'', opt_str (a_interval a)),
      (''max_workers'', PInt (a_max_workers a)),
      (''ism_chromosome'', opt_str (a_ism_chromosome a)),
      (''ism_start'', opt_int (a_ism_start a)),
      (''ism_end'', opt_int (a_ism_end a)),
      (''gene_symbol'', opt_str (a_gene_symbol a)),
      (''flanking_size'', PInt (a_flanking_size a)),
      (''sequence1'', opt_str (a_sequence1 a)),
      (''sequence2'', opt_str (a_sequence2 a)),
      (''ranking_metric'', PStr (a_ranking_metric a))]"

text \<open>\<^verbatim>\<open>args.name\<close>: \<^verbatim>\<open>AttributeError\<close> when the namespace has no such attribute.\<close>

definition ns_get :: "namespace \<Rightarrow> string \<Rightarrow> exn + pyval" where
  "ns_get ns name =
     (case map_of ns name of
        Some v \<Rightarrow> Inr v
      | None \<Rightarrow> Inl (Exn ''AttributeError''
                  (sq @ ''Namespace'' @ sq @ '' object has no attribute '' @ sq @ name @ sq)))"

text \<open>\<^verbatim>\<open>AlphaGenomeClient(api_key)\<close>\<close>

definition new_client :: "'s pyenv \<Rightarrow> pyval \<Rightarrow> exn + 's agc" where
  "new_client env api_key =
     (if \<not> py_truthy api_key then Inl (Exn ''ValueError'' ''API key is required'')
      else ebind (create env api_key) (\<lambda>c. Inr \<lparr>client = c, calls = []\<rparr>))"

definition py_json_loads :: "'s pyenv \<Rightarrow> pyval \<Rightarrow> exn + pyval" where
  "py_json_loads env v =
     (case v of
        PStr s \<Rightarrow> json_loads env s
      | _ \<Rightarrow> Inl (Exn ''TypeError''
                (''the JSON object must be str, bytes or bytearray, not '' @ py_type_name v)))"

definition required :: "string \<Rightarrow> exn" where
  "required msg = Exn ''ValueError'' msg"

text \<open>The \<^verbatim>\<open>if\<close>/\<^verbatim>\<open>elif\<close> chain on \<^verbatim>\<open>args.command\<close>; its value is the \<^verbatim>\<open>result\<close> to print.\<close>

definition dispatch :: "'s pyenv \<Rightarrow> namespace \<Rightarrow> 's agc \<Rightarrow> pyval \<Rightarrow> exn + pyval" where
  "dispatch env ns cl command =
    (if command = PStr ''predict_sequence'' then
       ebind (ns_get ns ''sequence'') (\<lambda>sequence.
          if \<not> py_truthy sequence
          then Inl (required ''--sequence is required for predict_sequence'')
          else
            ebind (ns_get ns ''sequence'') (\<lambda>sequence.
            ebind (ns_get ns ''organism'') (\<lambda>organism.
            ebind (ns_get ns ''output_types'') (\<lambda>output_types.
            ebind (ns_get ns ''ontology_terms'') (\<lambda>ontology_terms.
              Inr (fst (predict_sequence env sequence organism output_types ontology_terms cl)))))))
     else if command = PStr ''predict_interval'' then
       ebind (ns_get ns ''chromosome'') (\<lambda>chromosome.
       ebind (ns_get ns ''start'') (\<lambda>start.
       ebind (ns_get ns ''end'') (\<lambda>end_pos.
       if \<not> (py_truthy chromosome \<and> start \<noteq> PNone \<and> end_pos \<noteq> PNone)
           then Inl (required ''--chromosome, --start, and --end are required for predict_interval'')
           else
             ebind (ns_get ns ''chromosome'') (\<lambda>chromosome.
             ebind (ns_get ns ''start'') (\<lambda>start.
             ebind (ns_get ns ''end'') (\<lambda>end_pos.
             ebind (ns_get ns ''organism'') (\<lambda>organism.
             ebind (ns_get ns ''output_types'') (\<lambda>output_types.
             ebind (ns_get ns ''ontology_terms'') (\<lambda>ontology_terms.
               Inr (fst (predict_interval env chromosome start end_pos organism output_types ontology_terms cl)))))))))))
     else if command = PStr ''predict_variant'' then
       ebind (ns_get ns ''chromosome'') (\<lambda>chromosome.
       ebind (ns_get ns ''position'') (\<lambda>position.
       ebind (ns_get ns ''ref'') (\<lambda>ref.
       ebind (ns_get ns ''alt'') (\<lambda>alt.
       ebind (ns_get ns ''interval_start'') (\<lambda>interval_start.
       ebind (ns_get ns ''interval_end'') (\<lambda>interval_end.
         if \<not> list_all (\<lambda>arg. arg \<noteq> PNone)
                  [chromosome, position, ref, alt, interval_start, interval_end]
           then Inl (required ''All variant and interval parameters are required for predict_variant'')
           else
             ebind (ns_get ns ''chromosome'') (\<lambda>chromosome.
             ebind (ns_get ns ''position'') (\<lambda>position.
             ebind (ns_get ns ''ref'') (\<lambda>ref.
             ebind (ns_get ns ''alt'') (\<lambda>alt.
             ebind (ns_get ns ''interval_start'') (\<lambda>interval_start.
             ebind (ns_get ns ''interval_end'') (\<lambda>interval_end.
             ebind (ns_get ns ''organism'') (\<lambda>organism.
             ebind (ns_get ns ''output_types'') (\<lambda>output_types.
             ebind (ns_get ns ''ontology_terms'') (\<lambda>ontology_terms.
               Inr (fst (predict_variant env chromosome position ref alt interval_start interval_end
                          organism output_types ontology_terms cl)))))))))))))))))
     else if command = PStr ''score_variant'' then
       ebind (ns_get ns ''chromosome'') (\<lambda>chromosome.
       ebind (ns_get ns ''position'') (\<lambda>position.
       ebind (ns_get ns ''ref'') (\<lambda>ref.
       ebind (ns_get ns ''alt'') (\<lambda>alt.
       ebind (ns_get ns ''interval_start'') (\<lambda>interval_start.
       ebind (ns_get ns ''interval_end'') (\<lambda>interval_end.
         if \<not> list_all (\<lambda>arg. arg \<noteq> PNone)
                  [chromosome, position, ref, alt, interval_start, interval_end]
           then Inl (required ''All variant and interval parameters are required for score_variant'')
           else
             ebind (ns_get ns ''chromosome'') (\<lambda>chromosome.
             ebind (ns_get ns ''position'') (\<lambda>position.
             ebind (ns_get ns ''ref'') (\<lambda>ref.
             ebind (ns_get ns ''alt'') (\<lambda>alt.
             ebind (ns_get ns ''interval_start'') (\<lambda>interval_start.
             ebind (ns_get ns ''interval_end'') (\<lambda>interval_end.
             ebind (ns_get ns ''organism'') (\<lambda>organism.
               Inr (fst (score_variant env chromosome position ref alt interval_start interval_end
                          organism cl)))))))))))))))
     else if command = PStr ''get_metadata'' then
       ebind (ns_get ns ''organism'') (\<lambda>organism.
         Inr (fst (get_output_metadata env organism cl)))
     else if command = PStr ''predict_sequences'' then
       ebind (ns_get ns ''sequences'') (\<lambda>raw.
         if \<not> py_truthy raw then Inl (required ''--sequences is required for predict_sequences'')
         else
           ebind (ns_get ns ''sequences'') (\<lambda>raw.
           ebind (py_json_loads env raw) (\<lambda>sequences.
           ebind (ns_get ns ''organism'') (\<lambda>organism.
           ebind (ns_get ns ''output_types'') (\<lambda>output_types.
           ebind (ns_get ns ''ontology_terms'') (\<lambda>ontology_terms.
           ebind (ns_get ns ''max_workers'') (\<lambda>max_workers.
             Inr (fst (predict_sequences env sequences organism output_types ontology_terms
                        max_workers cl)))))))))
     else if command = PStr ''predict_intervals'' then
       ebind (ns_get ns ''intervals'') (\<lambda>raw.
         if \<not> py_truthy raw then Inl (required ''--intervals is required for predict_intervals'')
         else
           ebind (ns_get ns ''intervals'') (\<lambda>raw.
           ebind (py_json_loads env raw) (\<lambda>intervals.
           ebind (ns_get ns ''organism'') (\<lambda>organism.
           ebind (ns_get ns ''output_types'') (\<lambda>output_types.
           ebind (ns_get ns ''ontology_terms'') (\<lambda>ontology_terms.
           ebind (ns_get ns ''max_workers'') (\<lambda>max_workers.
             Inr (fst (predict_intervals env intervals organism output_types ontology_terms
                        max_workers cl)))))))))
     else if command = PStr ''predict_variants'' then
       ebind (ns_get ns ''variants'') (\<lambda>raw_variants.
       ebind (if \<not> py_truthy raw_variants then Inr PNone else ns_get ns ''interval'') (\<lambda>raw_interval.
         if \<not> py_truthy raw_variants \<or> \<not> py_truthy raw_interval
         then Inl (required ''--variants and --interval are required for predict_variants'')
         else
           ebind (ns_get ns ''variants'') (\<lambda>raw_variants.
           ebind (py_json_loads env raw_variants) (\<lambda>variants.
           ebind (ns_get ns ''interval'') (\<lambda>raw_interval.
           ebind (py_json_loads env raw_interval) (\<lambda>interval.
           ebind (ns_get ns ''organism'') (\<lambda>organism.
           ebind (ns_get ns ''output_types'') (\<lambda>output_types.
           ebind (ns_get ns ''ontology_terms'') (\<lambda>ontology_terms.
           ebind (ns_get ns ''max_workers'') (\<lambda>max_workers.
             Inr (fst (predict_variants env variants interval organism output_types ontology_terms
                        max_workers cl))))))))))))
     else if command = PStr ''score_variants'' then
       ebind (ns_get ns ''variants'') (\<lambda>raw_variants.
       ebind (if \<not> py_truthy raw_variants then Inr PNone else ns_get ns ''interval'') (\<lambda>raw_interval.
         if \<not> py_truthy raw_variants \<or> \<not> py_truthy raw_interval
         then Inl (required ''--variants and --interval are required for score_variants'')
         else
           ebind (ns_get ns ''variants'') (\<lambda>raw_variants.
           ebind (py_json_loads env raw_variants) (\<lambda>variants.
           ebind (ns_get ns ''interval'') (\<lambda>raw_interval.
           ebind (py_json_loads env raw_interval) (\<lambda>interval.
           ebind (ns_get ns ''organism'') (\<lambda>organism.
           ebind (ns_get ns ''max_workers'') (\<lambda>max_workers.
             Inr (fst (score_variants env variants interval organism max_workers cl))))))))))
     else if command = PStr ''score_interval'' then
       ebind (ns_get ns ''chromosome'') (\<lambda>chromosome.
       ebind (ns_get ns ''start'') (\<lambda>start.
       ebind (ns_get ns ''end'') (\<lambda>end_pos.
       if \<not> (py_truthy chromosome \<and> start \<noteq> PNone \<and> end_pos \<noteq> PNone)
           then Inl (required ''--chromosome, --start, and --end are required for score_interval'')
           else
             ebind (ns_get ns ''chromosome'') (\<lambda>chromosome.
             ebind (ns_get ns ''start'') (\<lambda>start.
             ebind (ns_get ns ''end'') (\<lambda>end_pos.
             ebind (ns_get ns ''organism'') (\<lambda>organism.
               Inr (fst (score_interval env chromosome start end_pos organism cl)))))))))
     else if command = PStr ''score_intervals'' then
       ebind (ns_get ns ''intervals'') (\<lambda>raw.
         if \<not> py_truthy raw then Inl (required ''--intervals is required for score_intervals'')
         else
           ebind (ns_get ns ''intervals'') (\<lambda>raw.
           ebind (py_json_loads env raw) (\<lambda>intervals.
           ebind (ns_get ns ''organism'') (\<lambda>organism.
           ebind (ns_get ns ''max_workers'') (\<lambda>max_workers.
             Inr (fst (score_intervals env intervals organism max_workers cl)))))))
     else if command = PStr ''score_ism_variants'' then
       ebind (ns_get ns ''chromosome'') (\<lambda>chromosome.
       ebind (ns_get ns ''start'') (\<lambda>start.
       ebind (ns_get ns ''end'') (\<lambda>end_pos.
       ebind (ns_get ns ''ism_chromosome'') (\<lambda>ism_chromosome.
       ebind (ns_get ns ''ism_start'') (\<lambda>ism_start.
       ebind (ns_get ns ''ism_end'') (\<lambda>ism_end.
         if \<not> (py_truthy chromosome \<and> start \<noteq> PNone \<and> end_pos \<noteq> PNone \<and>
                   py_truthy ism_chromosome \<and> ism_start \<noteq> PNone \<and> ism_end \<noteq> PNone)
           then Inl (required ''All interval and ISM parameters are required for score_ism_variants'')
           else
             ebind (ns_get ns ''chromosome'') (\<lambda>chromosome.
             ebind (ns_get ns ''start'') (\<lambda>start.
             ebind (ns_get ns ''end'') (\<lambda>end_pos.
             ebind (ns_get ns ''ism_chromosome'') (\<lambda>ism_chromosome.
             ebind (ns_get ns ''ism_start'') (\<lambda>ism_start.
             ebind (ns_get ns ''ism_end'') (\<lambda>ism_end.
             ebind (ns_get ns ''organism'') (\<lambda>organism.
             ebind (ns_get ns ''max_workers'') (\<lambda>max_workers.
               Inr (fst (score_ism_variants env chromosome start end_pos ism_chromosome ism_start
                          ism_end organism max_workers cl))))))))))))))))
     else if command = PStr ''parse_variant_string'' then
       ebind (ns_get ns ''variant_string'') (\<lambda>variant_string.
         if \<not> py_truthy variant_string
         then Inl (required ''--variant-string is required for parse_variant_string'')
         else
           ebind (ns_get ns ''variant_string'') (\<lambda>variant_string.
           ebind (ns_get ns ''variant_format'') (\<lambda>variant_format.
             Inr (fst (parse_variant_string env variant_string
                        (if py_truthy variant_format then variant_format else PStr ''default'')
                        cl)))))
     else if command = PStr ''validate_genomic_data'' then
       ebind (ns_get ns ''data_type'') (\<lambda>data_type.
       ebind (if \<not> py_truthy data_type then Inr PNone else ns_get ns ''data'') (\<lambda>raw.
         if \<not> py_truthy data_type \<or> \<not> py_truthy raw
         then Inl (required ''--data-type and --data are required for validate_genomic_data'')
         else
           ebind (ns_get ns ''data'') (\<lambda>raw.
           ebind (py_json_loads env raw) (\<lambda>data.
           ebind (ns_get ns ''data_type'') (\<lambda>data_type.
             Inr (fst (validate_genomic_data env data_type data cl)))))))
     else if command = PStr ''get_supported_outputs'' then
       Inr (fst (get_supported_outputs cl))
     else if command = PStr ''calculate_genomic_overlap'' then
       ebind (ns_get ns ''interval1'') (\<lambda>raw1.
       ebind (if \<not> py_truthy raw1 then Inr PNone else ns_get ns ''interval2'') (\<lambda>raw2.
         if \<not> py_truthy raw1 \<or> \<not> py_truthy raw2
         then Inl (required ''--interval1 and --interval2 are required for calculate_genomic_overlap'')
         else
           ebind (ns_get ns ''interval1'') (\<lambda>raw1.
           ebind (py_json_loads env raw1) (\<lambda>interval1.
           ebind (ns_get ns ''interval2'') (\<lambda>raw2.
           ebind (py_json_loads env raw2) (\<lambda>interval2.
             Inr (fst (calculate_genomic_overlap env interval1 interval2 cl))))))))
     else if command = PStr ''get_sequence_info'' then
       ebind (ns_get ns ''sequence'') (\<lambda>sequence.
         if \<not> py_truthy sequence then Inl (required ''--sequence is required for get_sequence_info'')
         else
           ebind (ns_get ns ''sequence'') (\<lambda>sequence.
             Inr (fst (get_sequence_info env sequence cl))))
     else if command = PStr ''analyze_gene_region'' then
       ebind (ns_get ns ''gene_symbol'') (\<lambda>gene_symbol.
         if \<not> py_truthy gene_symbol
         then Inl (required ''--gene-symbol is required for analyze_gene_region'')
         else
           ebind (ns_get ns ''gene_symbol'') (\<lambda>gene_symbol.
           ebind (ns_get ns ''organism'') (\<lambda>organism.
           ebind (ns_get ns ''flanking_size'') (\<lambda>flanking_size.
           ebind (ns_get ns ''output_types'') (\<lambda>output_types.
             Inr (fst (analyze_gene_region gene_symbol organism flanking_size output_types cl)))))))
     else if command = PStr ''compare_sequences'' then
       ebind (ns_get ns ''sequence1'') (\<lambda>sequence1.
       ebind (if \<not> py_truthy sequence1 then Inr PNone else ns_get ns ''sequence2'') (\<lambda>sequence2.
         if \<not> py_truthy sequence1 \<or> \<not> py_truthy sequence2
         then Inl (required ''--sequence1 and --sequence2 are required for compare_sequences'')
         else
           ebind (ns_get ns ''sequence1'') (\<lambda>sequence1.
           ebind (ns_get ns ''sequence2'') (\<lambda>sequence2.
           ebind (ns_get ns ''organism'') (\<lambda>organism.
           ebind (ns_get ns ''output_types'') (\<lambda>output_types.
             Inr (fst (compare_sequences env sequence1 sequence2 organism output_types cl))))))))
     else if command = PStr ''rank_variants_by_impact'' then
       ebind (ns_get ns ''variants'') (\<lambda>raw_variants.
       ebind (if \<not> py_truthy raw_variants then Inr PNone else ns_get ns ''interval'') (\<lambda>raw_interval.
         if \<not> py_truthy raw_variants \<or> \<not> py_truthy raw_interval
         then Inl (required ''--variants and --interval are required for rank_variants_by_impact'')
         else
           ebind (ns_get ns ''variants'') (\<lambda>raw_variants.
           ebind (py_json_loads env raw_variants) (\<lambda>variants.
           ebind (ns_get ns ''interval'') (\<lambda>raw_interval.
           ebind (py_json_loads env raw_interval) (\<lambda>interval.
           ebind (ns_get ns ''organism'') (\<lambda>organism.
           ebind (ns_get ns ''ranking_metric'') (\<lambda>ranking_metric.
           ebind (ns_get ns ''max_workers'') (\<lambda>max_workers.
             Inr (fst (rank_variants_by_impact env variants interval organism ranking_metric
                        max_workers cl)))))))))))
     else Inl (Exn ''ValueError'' (''Unknown command: '' @ py_str env command)))"

definition main_body :: "'s pyenv \<Rightarrow> namespace \<Rightarrow> exn + pyval" where
  "main_body env ns =
     ebind (ns_get ns ''api_key'') (\<lambda>api_key.
     ebind (new_client env api_key) (\<lambda>cl.
     ebind (ns_get ns ''command'') (\<lambda>command. dispatch env ns cl command)))"

text \<open>
  What \<^verbatim>\<open>main\<close> prints (\<^verbatim>\<open>json.dumps\<close> of this value) and the exit status of the process:
  \<^verbatim>\<open>sys.exit(1)\<close> after printing the envelope of an exception.
\<close>

definition main :: "'s pyenv \<Rightarrow> namespace \<Rightarrow> pyval \<times> nat" where
  "main env ns =
     (case main_body env ns of
        Inr result \<Rightarrow> (result, 0)
      | Inl e \<Rightarrow> (error_envelope e, 1))"

section \<open>A reference environment\<close>

text \<open>
  A small environment on which the model can be run. Its intervals keep the coordinates
  they are given and are half-open, its
  variant parser accepts nothing, its JSON reader knows two documents, and its service
  counts the requests it has answered. \<open>ref_env\<close> iterates over a set in order of first
  occurrence; \<open>ref_env_rev\<close> differs from it only in iterating the other way round.
\<close>

definition ref_repr :: "pyval \<Rightarrow> string" where
  "ref_repr v = (case v of PStr s \<Rightarrow> sq @ s @ sq | _ \<Rightarrow> ''<'' @ py_type_name v @ ''>'')"

definition ref_interval_init :: "pyval \<Rightarrow> pyval \<Rightarrow> pyval \<Rightarrow> exn + interval" where
  "ref_interval_init c s e =
     ebind (py_compare Lt e s) (\<lambda>lt.
       if lt then Inl (Exn ''ValueError'' ''end < start'')
       else Inr \<lparr>i_chromosome = c, i_start = s, i_end = e\<rparr>)"

definition ref_overlaps :: "interval \<Rightarrow> interval \<Rightarrow> bool" where
  "ref_overlaps a b =
     (py_eq (i_chromosome a) (i_chromosome b) \<and> py_compare Lt (i_start a) (i_end b) = Inr True
      \<and> py_compare Lt (i_start b) (i_end a) = Inr True)"

text \<open>\<^verbatim>\<open>max(a, b)\<close> and \<^verbatim>\<open>min(a, b)\<close> of two values that can be compared.\<close>

definition py_max :: "pyval \<Rightarrow> pyval \<Rightarrow> pyval" where
  "py_max a b = (if py_compare Lt a b = Inr True then b else a)"

definition py_min :: "pyval \<Rightarrow> pyval \<Rightarrow> pyval" where
  "py_min a b = (if py_compare Lt b a = Inr True then b else a)"

definition ref_intersect :: "interval \<Rightarrow> interval \<Rightarrow> interval option" where
  "ref_intersect a b =
     (if ref_overlaps a b
      then Some \<lparr>i_chromosome = i_chromosome a,
                 i_start = py_max (i_start a) (i_start b),
                 i_end = py_min (i_end a) (i_end b)\<rparr>
      else None)"

definition ref_variant_init :: "pyval \<Rightarrow> pyval \<Rightarrow> pyval \<Rightarrow> pyval \<Rightarrow> exn + variant" where
  "ref_variant_init c p r a =
     (case (c, p, r, a) of
        (PStr c', PInt p', PStr r', PStr a') \<Rightarrow>
          Inr \<lparr>v_chromosome = c', v_position = p', v_reference_bases = r',
               v_alternate_bases = a', v_name = []\<rparr>
      | _ \<Rightarrow> Inl (Exn ''TypeError'' ''invalid variant''))"

definition ref_json_loads :: "string \<Rightarrow> exn + pyval" where
  "ref_json_loads s =
     (if s = ''[]'' then Inr (PList [])
      else if s = ''{}'' then Inr (PDict [])
      else Inl (Exn ''JSONDecodeError'' ''Expecting value: line 1 column 1 (char 0)''))"

definition ref_client_invoke :: "nat \<Rightarrow> client_call \<Rightarrow> (exn + extobj) \<times> nat" where
  "ref_client_invoke n c =
     (Inr (case c of
             Call_predict_sequences us org ro ot mw \<Rightarrow> EList (map (\<lambda>u. EObj [''atac'']) us)
           | Call_predict_intervals ivs org ro ot mw \<Rightarrow> EList (map (\<lambda>i. EObj [''atac'']) ivs)
           | Call_predict_variants iv vs org ro ot mw \<Rightarrow> EList (map (\<lambda>v. EObj [''reference'']) vs)
           | Call_score_variants iv vs org mw \<Rightarrow> EList (map (\<lambda>v. EList [EObj []]) vs)
           | Call_score_intervals ivs org mw \<Rightarrow> EList (map (\<lambda>i. EList [EObj []]) ivs)
           | Call_score_variant iv v org \<Rightarrow> EList [EObj []]
           | Call_score_interval iv org \<Rightarrow> EList [EObj []]
           | Call_score_ism_variants iv ism org mw \<Rightarrow> EList [EList [EObj []]]
           | _ \<Rightarrow> EObj [''atac'', ''dnase'']),
      Suc n)"

definition ref_env :: "nat pyenv" where
  "ref_env =
     \<lparr>set_iter = (\<lambda>cs. cs),
      repr_val = ref_repr,
      has_output_type = (\<lambda>name. name \<in> set [''ATAC'', ''CAGE'', ''CHIP_HISTONE'', ''CHIP_TF'',
         ''CONTACT_MAPS'', ''DNASE'', ''PROCAP'', ''RNA_SEQ'', ''SPLICE_JUNCTIONS'', ''SPLICE_SITES'',
         ''SPLICE_SITE_USAGE'']),
      Interval_init = ref_interval_init,
      interval_overlaps = ref_overlaps,
      interval_intersect = ref_intersect,
      Variant_init = ref_variant_init,
      Variant_from_str = (\<lambda>s f. Inl (Exn ''ValueError'' ''Invalid variant string'')),
      json_loads = ref_json_loads,
      create = (\<lambda>key. Inr 0),
      client_invoke = ref_client_invoke\<rparr>"

definition ref_env_rev :: "nat pyenv" where
  "ref_env_rev = ref_env\<lparr>set_iter := rev\<rparr>"

definition ref_self :: "nat agc" where
  "ref_self = \<lparr>client = 0, calls = []\<rparr>"

text \<open>The command line \<^verbatim>\<open>alphagenome_client.py <command> --api-key KEY\<close>, nothing else given.\<close>

definition bare_args :: "string \<Rightarrow> cli_args" where
  "bare_args cmd =
     \<lparr>a_command = cmd, a_api_key = ''KEY'', a_sequence = None, a_chromosome = None,
      a_start = None, a_end = None, a_position = None, a_ref = None, a_alt = None,
      a_interval_start = None, a_interval_end = None, a_organism = ''human'',
      a_output_types = None, a_ontology_terms = None, a_sequences = None, a_intervals = None,
      a_variants = None, a_interval = None, a_max_workers = 5, a_ism_chromosome = None,
      a_ism_start = None, a_ism_end = None, a_gene_symbol = None, a_flanking_size = 10000,
      a_sequence1 = None, a_sequence2 = None, a_ranking_metric = ''composite''\<rparr>"

section \<open>Reading results\<close>

text \<open>\<^verbatim>\<open>r["result"][k]\<close>, and whether \<^verbatim>\<open>r["success"]\<close> is \<^verbatim>\<open>True\<close>.\<close>

definition result_field :: "string \<Rightarrow> pyval \<Rightarrow> pyval option" where
  "result_field k r = Option.bind (field ''result'' r) (field k)"

definition succeeded :: "pyval \<Rightarrow> bool" where
  "succeeded r = (field ''success'' r = Some (PBool True))"

definition reports_valid :: "pyval \<Rightarrow> bool" where
  "reports_valid r = (succeeded r \<and> result_field ''valid'' r = Some (PBool True))"

text \<open>
  The condition for a valid interval as the specification words it: the chromosome field
  is a non-empty string, start and end are present, \<open>start < end\<close> and \<open>start \<ge> 1\<close>.
\<close>

definition claimed_interval_valid :: "(string \<times> pyval) list \<Rightarrow> bool" where
  "claimed_interval_valid kvs =
     ((case map_of kvs ''chromosome'' of Some (PStr c) \<Rightarrow> c \<noteq> [] | _ \<Rightarrow> False) \<and>
      (case (Option.bind (map_of kvs ''start'') as_num, Option.bind (map_of kvs ''end'') as_num) of
         (Some s, Some e) \<Rightarrow> fl_lt s e \<and> fl_le (Finite 1) s
       | _ \<Rightarrow> False))"


section \<open>Calls of the public methods\<close>

text \<open>
  A call of one of the twenty public methods of \<^verbatim>\<open>AlphaGenomeClient\<close>, with its arguments
  in the order of the method's signature, and the method it runs.
\<close>

datatype request =
    Predict_sequence pyval pyval pyval pyval
  | Predict_interval pyval pyval pyval pyval pyval pyval
  | Predict_variant pyval pyval pyval pyval pyval pyval pyval pyval pyval
  | Score_variant pyval pyval pyval pyval pyval pyval pyval
  | Get_output_metadata pyval
  | Predict_sequences pyval pyval pyval pyval pyval
  | Predict_intervals pyval pyval pyval pyval pyval
  | Predict_variants pyval pyval pyval pyval pyval pyval
  | Score_variants pyval pyval pyval pyval
  | Score_interval pyval pyval pyval pyval
  | Score_intervals pyval pyval pyval
  | Score_ism_variants pyval pyval pyval pyval pyval pyval pyval pyval
  | Parse_variant_string pyval pyval
  | Validate_genomic_data pyval pyval
  | Get_supported_outputs
  | Calculate_genomic_overlap pyval pyval
  | Get_sequence_info pyval
  | Analyze_gene_region pyval pyval pyval pyval
  | Compare_sequences pyval pyval pyval pyval
  | Rank_variants_by_impact pyval pyval pyval pyval pyval

fun run :: "'s pyenv \<Rightarrow> request \<Rightarrow> 's agc \<Rightarrow> pyval \<times> 's agc" where
  "run env (Predict_sequence sequence organism output_types ontology_terms) =
     predict_sequence env sequence organism output_types ontology_terms"
| "run env (Predict_interval chromosome start end_pos organism output_types ontology_terms) =
     predict_interval env chromosome start end_pos organism output_types ontology_terms"
| "run env (Predict_variant chromosome position ref alt interval_start interval_end organism
       output_types ontology_terms) =
     predict_variant env chromosome position ref alt interval_start interval_end organism
       output_types ontology_terms"
| "run env (Score_variant chromosome position ref alt interval_start interval_end organism) =
     score_variant env chromosome position ref alt interval_start interval_end organism"
| "run env (Get_output_metadata organism) = get_output_metadata env organism"
| "run env (Predict_sequences sequences organism output_types ontology_terms max_workers) =
     predict_sequences env sequences organism output_types ontology_terms max_workers"
| "run env (Predict_intervals intervals organism output_types ontology_terms max_workers) =
     predict_intervals env intervals organism output_types ontology_terms max_workers"
| "run env (Predict_variants variants interval organism output_types ontology_terms max_workers) =
     predict_variants env variants interval organism output_types ontology_terms max_workers"
| "run env (Score_variants variants interval organism max_workers) =
     score_variants env variants interval organism max_workers"
| "run env (Score_interval chromosome start end_pos organism) =
     score_interval env chromosome start end_pos organism"
| "run env (Score_intervals intervals organism max_workers) =
     score_intervals env intervals organism max_workers"
| "run env (Score_ism_variants chromosome start end_pos ism_chromosome ism_start ism_end organism
       max_workers) =
     score_ism_variants env chromosome start end_pos ism_chromosome ism_start ism_end organism
       max_workers"
| "run env (Parse_variant_string variant_string variant_format) =
     parse_variant_string env variant_string variant_format"
| "run env (Validate_genomic_data data_type data) = validate_genomic_data env data_type data"
| "run env Get_supported_outputs = get_supported_outputs"
| "run env (Calculate_genomic_overlap interval1 interval2) =
     calculate_genomic_overlap env interval1 interval2"
| "run env (Get_sequence_info sequence) = get_sequence_info env sequence"
| "run env (Analyze_gene_region gene_symbol organism flanking_size output_types) =
     analyze_gene_region gene_symbol organism flanking_size output_types"
| "run env (Compare_sequences sequence1 sequence2 organism output_types) =
     compare_sequences env sequence1 sequence2 organism output_types"
| "run env (Rank_variants_by_impact variants interval organism ranking_metric max_workers) =
     rank_variants_by_impact env variants interval organism ranking_metric max_workers"

text \<open>The \<^verbatim>\<open>try\<close> block of the method that a call runs.\<close>

fun run_try :: "'s pyenv \<Rightarrow> request \<Rightarrow> 's agc \<Rightarrow> (exn + pyval) \<times> 's agc" where
  "run_try env (Predict_sequence sequence organism output_types ontology_terms) =
     predict_sequence_try env sequence organism output_types ontology_terms"
| "run_try env (Predict_interval chromosome start end_pos organism output_types ontology_terms) =
     predict_interval_try env chromosome start end_pos organism output_types ontology_terms"
| "run_try env (Predict_variant chromosome position ref alt interval_start interval_end organism
       output_types ontology_terms) =
     predict_variant_try env chromosome position ref alt interval_start interval_end organism
       output_types ontology_terms"
| "run_try env (Score_variant chromosome position ref alt interval_start interval_end organism) =
     score_variant_try env chromosome position ref alt interval_start interval_end organism"
| "run_try env (Get_output_metadata organism) = get_output_metadata_try env organism"
| "run_try env (Predict_sequences sequences organism output_types ontology_terms max_workers) =
     predict_sequences_try env sequences organism output_types ontology_terms max_workers"
| "run_try env (Predict_intervals intervals organism output_types ontology_terms max_workers) =
     predict_intervals_try env intervals organism output_types ontology_terms max_workers"
| "run_try env (Predict_variants variants interval organism output_types ontology_terms max_workers) =
     predict_variants_try env variants interval organism output_types ontology_terms max_workers"
| "run_try env (Score_variants variants interval organism max_workers) =
     score_variants_try env variants interval organism max_workers"
| "run_try env (Score_interval chromosome start end_pos organism) =
     score_interval_try env chromosome start end_pos organism"
| "run_try env (Score_intervals intervals organism max_workers) =
     score_intervals_try env intervals organism max_workers"
| "run_try env (Score_ism_variants chromosome start end_pos ism_chromosome ism_start ism_end organism
       max_workers) =
     score_ism_variants_try env chromosome start end_pos ism_chromosome ism_start ism_end organism
       max_workers"
| "run_try env (Parse_variant_string variant_string variant_format) =
     parse_variant_string_try env variant_string variant_format"
| "run_try env (Validate_genomic_data data_type data) = validate_genomic_data_try env data_type data"
| "run_try env Get_supported_outputs = get_supported_outputs_try"
| "run_try env (Calculate_genomic_overlap interval1 interval2) =
     calculate_genomic_overlap_try env interval1 interval2"
| "run_try env (Get_sequence_info sequence) = get_sequence_info_try env sequence"
| "run_try env (Analyze_gene_region gene_symbol organism flanking_size output_types) =
     analyze_gene_region_try gene_symbol organism flanking_size output_types"
| "run_try env (Compare_sequences sequence1 sequence2 organism output_types) =
     compare_sequences_try env sequence1 sequence2 organism output_types"
| "run_try env (Rank_variants_by_impact variants interval organism ranking_metric max_workers) =
     rank_variants_by_impact_try env variants interval organism ranking_metric max_workers"

text \<open>The same call with another \<^verbatim>\<open>organism\<close> argument (where the method has one).\<close>

fun with_organism :: "pyval \<Rightarrow> request \<Rightarrow> request" where
  "with_organism org (Predict_sequence a b c d) = Predict_sequence a org c d"
| "with_organism org (Predict_interval a b c d e f) = Predict_interval a b c org e f"
| "with_organism org (Predict_variant a b c d e f g h i) = Predict_variant a b c d e f org h i"
| "with_organism org (Score_variant a b c d e f g) = Score_variant a b c d e f org"
| "with_organism org (Get_output_metadata a) = Get_output_metadata org"
| "with_organism org (Predict_sequences a b c d e) = Predict_sequences a org c d e"
| "with_organism org (Predict_intervals a b c d e) = Predict_intervals a org c d e"
| "with_organism org (Predict_variants a b c d e f) = Predict_variants a b org d e f"
| "with_organism org (Score_variants a b c d) = Score_variants a b org d"
| "with_organism org (Score_interval a b c d) = Score_interval a b c org"
| "with_organism org (Score_intervals a b c) = Score_intervals a org c"
| "with_organism org (Score_ism_variants a b c d e f g h) = Score_ism_variants a b c d e f org h"
| "with_organism org (Analyze_gene_region a b c d) = Analyze_gene_region a org c d"
| "with_organism org (Compare_sequences a b c d) = Compare_sequences a b org d"
| "with_organism org (Rank_variants_by_impact a b c d e) = Rank_variants_by_impact a b org d e"
| "with_organism org r = r"

text \<open>The \<^verbatim>\<open>organism\<close> argument of a request to the external client.\<close>

fun call_organism :: "client_call \<Rightarrow> organism" where
  "call_organism (Call_predict_sequence s org ro ot) = org"
| "call_organism (Call_predict_interval iv org ro ot) = org"
| "call_organism (Call_predict_variant iv v org ro ot) = org"
| "call_organism (Call_score_variant iv v org) = org"
| "call_organism (Call_output_metadata org) = org"
| "call_organism (Call_predict_sequences ss org ro ot mw) = org"
| "call_organism (Call_predict_intervals ivs org ro ot mw) = org"
| "call_organism (Call_predict_variants iv vs org ro ot mw) = org"
| "call_organism (Call_score_variants iv vs org mw) = org"
| "call_organism (Call_score_interval iv org) = org"
| "call_organism (Call_score_intervals ivs org mw) = org"
| "call_organism (Call_score_ism_variants iv ism org mw) = org"

section \<open>Properties\<close>

subsection \<open>Comparisons of numbers\<close>

lemma py_compare_num:
  "as_num a = Some x \<Longrightarrow> as_num b = Some y \<Longrightarrow> py_compare c a b = Inr (num_cmp c x y)"
  by (cases a; cases b) auto

lemma py_compare_Inr_num_left:
  "py_compare c a b = Inr r \<Longrightarrow> as_num b = Some y \<Longrightarrow> \<exists>x. as_num a = Some x \<and> r = num_cmp c x y"
  by (cases a; cases b) (auto split: if_splits)

lemma py_compare_Inr_num_right:
  "py_compare c a b = Inr r \<Longrightarrow> as_num a = Some x \<Longrightarrow> \<exists>y. as_num b = Some y \<and> r = num_cmp c x y"
  by (cases a; cases b) (auto split: if_splits)

text \<open>Away from NaN the order of the numbers is total.\<close>

lemma fl_not_le: "x \<noteq> NaN \<Longrightarrow> y \<noteq> NaN \<Longrightarrow> (\<not> fl_le y x) = fl_lt x y"
  by (cases x; cases y) auto

lemma fl_not_lt: "x \<noteq> NaN \<Longrightarrow> y \<noteq> NaN \<Longrightarrow> (\<not> fl_lt x y) = fl_le y x"
  by (cases x; cases y) auto

lemma as_num_NaN: "as_num v = Some NaN \<longleftrightarrow> v = PFloat NaN"
  by (cases v) auto

subsection \<open>Validation of an interval\<close>

text \<open>The result is valid exactly when none of the three tests of the code fires.\<close>

lemma validate_interval_valid_iff:
  "(\<exists>v. validate_interval (PDict kvs) = Inr v \<and> vr_valid v) \<longleftrightarrow>
     py_truthy (case map_of kvs ''chromosome'' of None \<Rightarrow> PStr [] | Some c \<Rightarrow> c) \<and>
     (\<exists>s e. Option.bind (map_of kvs ''start'') as_num = Some s \<and>
            Option.bind (map_of kvs ''end'') as_num = Some e \<and> \<not> fl_le e s \<and> \<not> fl_lt s (Finite 1))"
  (is "?L \<longleftrightarrow> ?C \<and> ?N")
proof
  assume ?L
  then obtain v where v: "validate_interval (PDict kvs) = Inr v" "vr_valid v" by blast
  define start where "start = (case map_of kvs ''start'' of None \<Rightarrow> PNone | Some x \<Rightarrow> x)"
  define end_pos where "end_pos = (case map_of kvs ''end'' of None \<Rightarrow> PNone | Some x \<Rightarrow> x)"
  from v have c: ?C
    by (auto simp: validate_interval_def dict_get_def ebind_def add_error_def vres_init_def Let_def
        split: if_splits sum.splits)
  from v have ne: "start \<noteq> PNone" "end_pos \<noteq> PNone"
    by (auto simp: validate_interval_def dict_get_def ebind_def add_error_def vres_init_def Let_def
        start_def end_pos_def split: if_splits sum.splits)
  from v ne have ge: "py_compare Ge start end_pos = Inr False"
    by (auto simp: validate_interval_def dict_get_def ebind_def add_error_def vres_init_def Let_def
        start_def end_pos_def split: if_splits sum.splits)
  from v ne ge have lt: "py_compare Lt start (PInt 1) = Inr False"
    by (auto simp: validate_interval_def dict_get_def ebind_def add_error_def vres_init_def Let_def
        start_def end_pos_def split: if_splits sum.splits)
  from py_compare_Inr_num_left [OF lt, of "Finite 1"] obtain s
    where s: "as_num start = Some s" "\<not> fl_lt s (Finite 1)"
    by auto
  from py_compare_Inr_num_right [OF ge s(1)] obtain e where e: "as_num end_pos = Some e" "\<not> fl_le e s"
    by auto
  from ne s e have ?N
    by (auto simp: start_def end_pos_def split: option.splits)
  with c show "?C \<and> ?N" by blast
next
  assume r: "?C \<and> ?N"
  then obtain s e x y where *: "map_of kvs ''start'' = Some x" "as_num x = Some s"
     "map_of kvs ''end'' = Some y" "as_num y = Some e" "\<not> fl_le e s" "\<not> fl_lt s (Finite 1)"
    by (auto simp: Option.bind_eq_Some_conv)
  have ne: "x \<noteq> PNone" "y \<noteq> PNone" using * by auto
  have ge: "py_compare Ge x y = Inr False" using py_compare_num [OF *(2) *(4), of Ge] * by simp
  have lt: "py_compare Lt x (PInt 1) = Inr False"
    using py_compare_num [OF *(2), of "PInt 1" "Finite 1" Lt] * by simp
  show ?L using r * ne ge lt
    by (auto simp: validate_interval_def dict_get_def ebind_def add_error_def vres_init_def Let_def)
qed

lemma validate_interval_errors:
  "validate_interval data = Inr v \<Longrightarrow> \<not> vr_valid v \<Longrightarrow> vr_errors v \<noteq> []"
  by (auto simp: validate_interval_def ebind_def add_error_def vres_init_def Let_def
        split: if_splits sum.splits)

lemma validate_interval_result:
  "fst (validate_genomic_data env (PStr ''interval'') data self) =
     (case validate_interval data of
        Inl e \<Rightarrow> error_envelope e
      | Inr v \<Rightarrow> PDict [(''success'', PBool True), (''result'', vres_dict v),
                        (''data_type'', PStr ''interval'')])"
  by (simp add: validate_genomic_data_def validate_genomic_data_try_def guarded_def
      validate_body_def catch_def ebind_def split: sum.splits)

text \<open>
  Both comparisons of the code are false of NaN, so an interval whose start is NaN passes
  them: it is reported valid, though neither \<open>start < end\<close> nor \<open>start \<ge> 1\<close> holds of it.
\<close>

lemma interval_nan_reported_valid:
  "reports_valid (fst (validate_genomic_data env (PStr ''interval'')
      (PDict [(''chromosome'', PStr ''chr1''), (''start'', PFloat NaN), (''end'', PInt 5)]) self))"
  by (simp add: validate_interval_result validate_interval_def dict_get_def ebind_def
      vres_init_def vres_dict_def reports_valid_def succeeded_def result_field_def field_def)

text \<open>
  C7 (as the code has it). For every data dictionary whose start and end are not NaN,
  \<^verbatim>\<open>validate_genomic_data\<close> with data type "interval" returns success with \<^verbatim>\<open>valid\<close> true if
  and only if the chromosome field is true in the sense of \<^verbatim>\<open>not chromosome\<close> (a non-empty
  string, or any other non-empty or non-zero value), start and end are present numbers,
  \<open>start < end\<close> and \<open>start \<ge> 1\<close>. For every data dictionary, whenever a successful result has
  \<^verbatim>\<open>valid\<close> false, its \<^verbatim>\<open>errors\<close> list is not empty.
\<close>

theorem interval_valid_iff:
  "(map_of kvs ''start'' \<noteq> Some (PFloat NaN) \<and> map_of kvs ''end'' \<noteq> Some (PFloat NaN) \<longrightarrow>
     (reports_valid (fst (validate_genomic_data env (PStr ''interval'') (PDict kvs) self)) \<longleftrightarrow>
        py_truthy (case map_of kvs ''chromosome'' of None \<Rightarrow> PStr [] | Some c \<Rightarrow> c) \<and>
        (\<exists>s e. Option.bind (map_of kvs ''start'') as_num = Some s \<and>
               Option.bind (map_of kvs ''end'') as_num = Some e \<and> fl_lt s e \<and> fl_le (Finite 1) s))) \<and>
   (succeeded (fst (validate_genomic_data env (PStr ''interval'') (PDict kvs) self)) \<and>
    result_field ''valid'' (fst (validate_genomic_data env (PStr ''interval'') (PDict kvs) self))
      = Some (PBool False) \<longrightarrow>
      (\<exists>errs. result_field ''errors'' (fst (validate_genomic_data env (PStr ''interval'') (PDict kvs) self))
         = Some (PList errs) \<and> errs \<noteq> []))"
proof (intro conjI impI)
  assume nan: "map_of kvs ''start'' \<noteq> Some (PFloat NaN) \<and> map_of kvs ''end'' \<noteq> Some (PFloat NaN)"
  have total: "\<And>s e. Option.bind (map_of kvs ''start'') as_num = Some s \<Longrightarrow>
                     Option.bind (map_of kvs ''end'') as_num = Some e \<Longrightarrow>
                     (\<not> fl_le e s \<and> \<not> fl_lt s (Finite 1)) = (fl_lt s e \<and> fl_le (Finite 1) s)"
  proof -
    fix s e
    assume s: "Option.bind (map_of kvs ''start'') as_num = Some s"
       and e: "Option.bind (map_of kvs ''end'') as_num = Some e"
    from s nan have sn: "s \<noteq> NaN" by (auto simp: Option.bind_eq_Some_conv as_num_NaN)
    from e nan have en: "e \<noteq> NaN" by (auto simp: Option.bind_eq_Some_conv as_num_NaN)
    show "(\<not> fl_le e s \<and> \<not> fl_lt s (Finite 1)) = (fl_lt s e \<and> fl_le (Finite 1) s)"
      using fl_not_le [OF sn en] fl_not_lt [OF sn, of "Finite 1"] by simp
  qed
  have "reports_valid (fst (validate_genomic_data env (PStr ''interval'') (PDict kvs) self)) \<longleftrightarrow>
          (\<exists>v. validate_interval (PDict kvs) = Inr v \<and> vr_valid v)"
    by (simp add: validate_interval_result reports_valid_def succeeded_def result_field_def
        field_def vres_dict_def error_envelope_def split: sum.splits)
  then show "reports_valid (fst (validate_genomic_data env (PStr ''interval'') (PDict kvs) self)) \<longleftrightarrow>
      py_truthy (case map_of kvs ''chromosome'' of None \<Rightarrow> PStr [] | Some c \<Rightarrow> c) \<and>
      (\<exists>s e. Option.bind (map_of kvs ''start'') as_num = Some s \<and>
             Option.bind (map_of kvs ''end'') as_num = Some e \<and> fl_lt s e \<and> fl_le (Finite 1) s)"
    using validate_interval_valid_iff [of kvs] total by blast
next
  assume "succeeded (fst (validate_genomic_data env (PStr ''interval'') (PDict kvs) self)) \<and>
    result_field ''valid'' (fst (validate_genomic_data env (PStr ''interval'') (PDict kvs) self))
      = Some (PBool False)"
  then show "\<exists>errs. result_field ''errors'' (fst (validate_genomic_data env (PStr ''interval'') (PDict kvs) self))
         = Some (PList errs) \<and> errs \<noteq> []"
    using validate_interval_errors [of "PDict kvs"]
    by (auto simp: validate_interval_result succeeded_def result_field_def
        field_def vres_dict_def error_envelope_def split: sum.splits)
qed

theorem interval_valid_iff_witness:
  "reports_valid (fst (validate_genomic_data ref_env (PStr ''interval'')
      (PDict [(''chromosome'', PStr ''chr1''), (''start'', PInt 100), (''end'', PFloat PosInf)]) ref_self)) \<and>
   \<not> reports_valid (fst (validate_genomic_data ref_env (PStr ''interval'')
      (PDict [(''chromosome'', PStr ''chr1''), (''start'', PInt 200), (''end'', PInt 100)]) ref_self)) \<and>
   result_field ''errors'' (fst (validate_genomic_data ref_env (PStr ''interval'')
      (PDict [(''chromosome'', PStr ''chr1''), (''start'', PInt 200), (''end'', PInt 100)]) ref_self))
     = Some (PList [PStr ''End position must be greater than start position''])"
proof -
  have "reports_valid (fst (validate_genomic_data ref_env (PStr ''interval'')
      (PDict [(''chromosome'', PStr ''chr1''), (''start'', PInt 100), (''end'', PFloat PosInf)]) ref_self))"
    using interval_valid_iff [of
        "[(''chromosome'', PStr ''chr1''), (''start'', PInt 100), (''end'', PFloat PosInf)]" ref_env ref_self]
    by simp
  moreover have "\<not> reports_valid (fst (validate_genomic_data ref_env (PStr ''interval'')
      (PDict [(''chromosome'', PStr ''chr1''), (''start'', PInt 200), (''end'', PInt 100)]) ref_self))"
    using interval_valid_iff [of
        "[(''chromosome'', PStr ''chr1''), (''start'', PInt 200), (''end'', PInt 100)]" ref_env ref_self]
    by simp
  moreover have "result_field ''errors'' (fst (validate_genomic_data ref_env (PStr ''interval'')
      (PDict [(''chromosome'', PStr ''chr1''), (''start'', PInt 200), (''end'', PInt 100)]) ref_self))
     = Some (PList [PStr ''End position must be greater than start position''])"
    by (simp add: validate_interval_result validate_interval_def dict_get_def ebind_def
        add_error_def vres_init_def vres_dict_def result_field_def field_def)
  ultimately show ?thesis by blast
qed

theorem interval_chromosome_counterexample:
  "reports_valid (fst (validate_genomic_data ref_env (PStr ''interval'')
      (PDict [(''chromosome'', PInt 1), (''start'', PInt 1), (''end'', PInt 2)]) ref_self))
   \<noteq> claimed_interval_valid [(''chromosome'', PInt 1), (''start'', PInt 1), (''end'', PInt 2)]"
  by (simp add: validate_interval_result validate_interval_def dict_get_def ebind_def
      vres_init_def vres_dict_def reports_valid_def succeeded_def result_field_def field_def
      claimed_interval_valid_def)

text \<open>
  C10. For every \<^verbatim>\<open>data_type\<close> string other than "sequence", "interval" and "variant", and
  every data value, \<^verbatim>\<open>validate_genomic_data\<close> returns success with \<^verbatim>\<open>valid\<close> true and with
  empty \<^verbatim>\<open>errors\<close> and \<^verbatim>\<open>warnings\<close> lists: an unrecognised data type is reported as valid.
\<close>

theorem validate_unknown_type_valid:
  assumes "t \<notin> {''sequence'', ''interval'', ''variant''}"
  shows "fst (validate_genomic_data env (PStr t) data self) =
           PDict [(''success'', PBool True),
                  (''result'', PDict [(''valid'', PBool True),
                                      (''warnings'', PList []),
                                      (''errors'', PList [])]),
                  (''data_type'', PStr t)]"
  using assms
  by (simp add: validate_genomic_data_def validate_genomic_data_try_def guarded_def validate_body_def catch_def ebind_def
      vres_dict_def vres_init_def)

theorem validate_unknown_type_valid_witness:
  "fst (validate_genomic_data ref_env (PStr ''gene'') (PDict [(''symbol'', PStr ''TP53'')]) ref_self) =
     PDict [(''success'', PBool True),
            (''result'', PDict [(''valid'', PBool True),
                                (''warnings'', PList []),
                                (''errors'', PList [])]),
            (''data_type'', PStr ''gene'')]"
  using validate_unknown_type_valid [of "''gene''" ref_env "PDict [(''symbol'', PStr ''TP53'')]" ref_self]
  by simp

subsection \<open>Sequence statistics\<close>

lemma count_sum_valid:
  "set u \<subseteq> set ''ATGCN'' \<Longrightarrow>
     count_list u CHR ''A'' + count_list u CHR ''T'' + count_list u CHR ''G''
       + count_list u CHR ''C'' + count_list u CHR ''N'' = length u"
  by (induction u) auto

lemma invalid_chars_of_valid: "set u \<subseteq> set ''ATGCN'' \<Longrightarrow> invalid_chars_of u = []"
  by (auto simp: invalid_chars_of_def filter_empty_conv)

lemma count_only_N:
  "set u \<subseteq> {CHR ''N''} \<Longrightarrow> count_list u CHR ''A'' = 0 \<and> count_list u CHR ''T'' = 0
     \<and> count_list u CHR ''G'' = 0 \<and> count_list u CHR ''C'' = 0"
  by (induction u) auto

lemma percentage_ok: "y \<noteq> 0 \<Longrightarrow> percentage x y = Inr (PFloat (Finite (of_int x / of_int y * 100)))"
  by (simp add: percentage_def py_truediv_def py_mul_def ebind_def)

lemma sequence_info_fields:
  assumes "s \<noteq> []"
  shows "\<exists>res. get_sequence_info_body env (PStr s) =
           Inr (PDict [(''success'', PBool True), (''result'', PDict res)]) \<and>
         map_of res ''length'' = Some (PInt (int (length (upper s)))) \<and>
         map_of res ''base_counts'' = Some (PDict
               [(''A'', PInt (int (count_list (upper s) CHR ''A''))),
                (''T'', PInt (int (count_list (upper s) CHR ''T''))),
                (''G'', PInt (int (count_list (upper s) CHR ''G''))),
                (''C'', PInt (int (count_list (upper s) CHR ''C''))),
                (''N'', PInt (int (count_list (upper s) CHR ''N'')))]) \<and>
         map_of res ''is_valid'' = Some (PBool (invalid_chars_of (upper s) = [])) \<and>
         map_of res ''invalid_characters'' = Some (PList (map (\<lambda>c. PStr [c])
            (if invalid_chars_of (upper s) \<noteq> [] then set_iter env (invalid_chars_of (upper s)) else []))) \<and>
         (count_list (upper s) CHR ''G'' + count_list (upper s) CHR ''C''
            + count_list (upper s) CHR ''A'' + count_list (upper s) CHR ''T'' = 0 \<longrightarrow>
          map_of res ''gc_content'' = Some (PInt 0))"
proof -
  have len: "int (length (upper s)) \<noteq> 0"
    using assms by (simp add: upper_def)
  show ?thesis
    using assms len
    by (auto simp add: get_sequence_info_body_def py_upper_def Let_def percentage_ok ebind_def
        py_round2_def py_sub_def fl_sub_def)
qed

text \<open>
  C8. For every non-empty string whose upper-cased characters all lie in A, T, G, C, N,
  \<^verbatim>\<open>get_sequence_info\<close> returns success with \<^verbatim>\<open>is_valid\<close> true and no invalid characters;
  \<^verbatim>\<open>base_counts\<close> holds, for each of A, T, G, C and N, the number of its occurrences in the
  upper-cased sequence, \<^verbatim>\<open>length\<close> is the length of the upper-cased sequence, and the five
  counts sum to that length; when the sequence has no other base than N, \<^verbatim>\<open>gc_content\<close> is
  0 (no division is made); for the empty string the result is the failure envelope of a
  \<^verbatim>\<open>ValueError\<close>.
\<close>

theorem sequence_info_valid:
  assumes "s \<noteq> []" and "set (upper s) \<subseteq> set ''ATGCN''"
  shows "succeeded (fst (get_sequence_info env (PStr s) self)) \<and>
         result_field ''is_valid'' (fst (get_sequence_info env (PStr s) self)) = Some (PBool True) \<and>
         result_field ''invalid_characters'' (fst (get_sequence_info env (PStr s) self)) = Some (PList []) \<and>
         result_field ''base_counts'' (fst (get_sequence_info env (PStr s) self)) =
           Some (PDict [(''A'', PInt (int (count_list (upper s) CHR ''A''))),
                        (''T'', PInt (int (count_list (upper s) CHR ''T''))),
                        (''G'', PInt (int (count_list (upper s) CHR ''G''))),
                        (''C'', PInt (int (count_list (upper s) CHR ''C''))),
                        (''N'', PInt (int (count_list (upper s) CHR ''N'')))]) \<and>
         result_field ''length'' (fst (get_sequence_info env (PStr s) self)) =
           Some (PInt (int (length (upper s)))) \<and>
         count_list (upper s) CHR ''A'' + count_list (upper s) CHR ''T''
           + count_list (upper s) CHR ''G'' + count_list (upper s) CHR ''C''
           + count_list (upper s) CHR ''N'' = length (upper s) \<and>
         length (upper s) = length s \<and>
         (set (upper s) \<subseteq> {CHR ''N''} \<longrightarrow>
            result_field ''gc_content'' (fst (get_sequence_info env (PStr s) self)) = Some (PInt 0)) \<and>
         fst (get_sequence_info env (PStr []) self) =
           PDict [(''success'', PBool False), (''error'', PStr ''Sequence cannot be empty''),
                  (''type'', PStr ''ValueError'')]"
proof -
  from sequence_info_fields [OF assms(1), of env]
  obtain res where body: "get_sequence_info_body env (PStr s) =
           Inr (PDict [(''success'', PBool True), (''result'', PDict res)])"
    and f_len: "map_of res ''length'' = Some (PInt (int (length (upper s))))"
    and f_counts: "map_of res ''base_counts'' = Some (PDict
               [(''A'', PInt (int (count_list (upper s) CHR ''A''))),
                (''T'', PInt (int (count_list (upper s) CHR ''T''))),
                (''G'', PInt (int (count_list (upper s) CHR ''G''))),
                (''C'', PInt (int (count_list (upper s) CHR ''C''))),
                (''N'', PInt (int (count_list (upper s) CHR ''N'')))])"
    and f_valid: "map_of res ''is_valid'' = Some (PBool (invalid_chars_of (upper s) = []))"
    and f_inv: "map_of res ''invalid_characters'' = Some (PList (map (\<lambda>c. PStr [c])
            (if invalid_chars_of (upper s) \<noteq> [] then set_iter env (invalid_chars_of (upper s)) else [])))"
    and f_gc: "count_list (upper s) CHR ''G'' + count_list (upper s) CHR ''C''
            + count_list (upper s) CHR ''A'' + count_list (upper s) CHR ''T'' = 0 \<longrightarrow>
          map_of res ''gc_content'' = Some (PInt 0)"
    by (elim exE conjE)
  have inv: "invalid_chars_of (upper s) = []"
    using assms(2) by (rule invalid_chars_of_valid)
  have r: "fst (get_sequence_info env (PStr s) self) =
      PDict [(''success'', PBool True), (''result'', PDict res)]"
    by (simp add: get_sequence_info_def get_sequence_info_try_def guarded_def body catch_def)
  have 1: "succeeded (fst (get_sequence_info env (PStr s) self))"
    by (simp add: r succeeded_def field_def)
  have 2: "result_field ''is_valid'' (fst (get_sequence_info env (PStr s) self)) = Some (PBool True)"
    by (simp add: r result_field_def field_def f_valid inv)
  have 3: "result_field ''invalid_characters'' (fst (get_sequence_info env (PStr s) self)) = Some (PList [])"
    by (simp add: r result_field_def field_def f_inv inv)
  have 4: "result_field ''base_counts'' (fst (get_sequence_info env (PStr s) self)) =
           Some (PDict [(''A'', PInt (int (count_list (upper s) CHR ''A''))),
                        (''T'', PInt (int (count_list (upper s) CHR ''T''))),
                        (''G'', PInt (int (count_list (upper s) CHR ''G''))),
                        (''C'', PInt (int (count_list (upper s) CHR ''C''))),
                        (''N'', PInt (int (count_list (upper s) CHR ''N'')))])"
    by (simp add: r result_field_def field_def f_counts)
  have 5: "result_field ''length'' (fst (get_sequence_info env (PStr s) self)) =
           Some (PInt (int (length (upper s))))"
    by (simp add: r result_field_def field_def f_len)
  have 6: "count_list (upper s) CHR ''A'' + count_list (upper s) CHR ''T''
           + count_list (upper s) CHR ''G'' + count_list (upper s) CHR ''C''
           + count_list (upper s) CHR ''N'' = length (upper s)"
    using assms(2) by (rule count_sum_valid)
  have 7: "length (upper s) = length s"
    by (simp add: upper_def)
  have 8: "set (upper s) \<subseteq> {CHR ''N''} \<longrightarrow>
            result_field ''gc_content'' (fst (get_sequence_info env (PStr s) self)) = Some (PInt 0)"
    using f_gc count_only_N [of "upper s"] by (simp add: r result_field_def field_def)
  have 9: "fst (get_sequence_info env (PStr []) self) =
           PDict [(''success'', PBool False), (''error'', PStr ''Sequence cannot be empty''),
                  (''type'', PStr ''ValueError'')]"
    by (simp add: get_sequence_info_def get_sequence_info_try_def guarded_def
        get_sequence_info_body_def catch_def error_envelope_def)
  from 1 2 3 4 5 6 7 8 9 show ?thesis by blast
qed

lemma upper_acgtNn: "upper ''acgtNnA'' = ''ACGTNNA''"
  by (simp add: upper_def upper_char_def)

lemma upper_NNnN: "upper ''NNnN'' = ''NNNN''"
  by (simp add: upper_def upper_char_def)

theorem sequence_info_valid_witness:
  "succeeded (fst (get_sequence_info ref_env (PStr ''acgtNnA'') ref_self)) \<and>
   result_field ''is_valid'' (fst (get_sequence_info ref_env (PStr ''acgtNnA'') ref_self)) = Some (PBool True) \<and>
   result_field ''base_counts'' (fst (get_sequence_info ref_env (PStr ''acgtNnA'') ref_self)) =
     Some (PDict [(''A'', PInt 2), (''T'', PInt 1), (''G'', PInt 1), (''C'', PInt 1), (''N'', PInt 2)]) \<and>
   result_field ''length'' (fst (get_sequence_info ref_env (PStr ''acgtNnA'') ref_self)) = Some (PInt 7) \<and>
   result_field ''base_counts'' (fst (get_sequence_info ref_env (PStr ''NNnN'') ref_self)) =
     Some (PDict [(''A'', PInt 0), (''T'', PInt 0), (''G'', PInt 0), (''C'', PInt 0), (''N'', PInt 4)]) \<and>
   result_field ''length'' (fst (get_sequence_info ref_env (PStr ''NNnN'') ref_self)) = Some (PInt 4) \<and>
   result_field ''gc_content'' (fst (get_sequence_info ref_env (PStr ''NNnN'') ref_self)) = Some (PInt 0)"
  using sequence_info_valid [of "''acgtNnA''" ref_env ref_self]
        sequence_info_valid [of "''NNnN''" ref_env ref_self]
  by (simp add: upper_acgtNn upper_NNnN)

subsection \<open>Parsing variant strings\<close>

lemma split_on_nonempty: "split_on sep s \<noteq> []"
  by (induction s) (auto split: list.splits)

lemma split_on_none: "sep \<notin> set a \<Longrightarrow> split_on sep a = [a]"
  by (induction a) auto

lemma split_on_append: "sep \<notin> set a \<Longrightarrow> split_on sep (a @ sep # b) = a # split_on sep b"
  by (induction a) (auto split: list.splits)

lemma split_four:
  assumes "sep \<notin> set c" "sep \<notin> set p" "sep \<notin> set r" "sep \<notin> set a"
  shows "split_on sep (c @ sep # p @ sep # r @ sep # a) = [c, p, r, a]"
  using assms by (simp add: split_on_append split_on_none)

text \<open>What \<^verbatim>\<open>int\<close> accepts is made of white space, a sign, digits and underscores.\<close>

lemma py_int_Inr:
  assumes "py_int env p = Inr n"
  shows "dropWhile is_space (dropWhile in_number
           (if dropWhile is_space p \<noteq> [] \<and>
               (hd (dropWhile is_space p) = CHR ''-'' \<or> hd (dropWhile is_space p) = CHR ''+'')
            then tl (dropWhile is_space p) else dropWhile is_space p)) = []"
proof (rule ccontr)
  assume "\<not> ?thesis"
  then have "\<exists>e. py_int env p = Inl e"
    unfolding py_int_def Let_def by (simp cong: if_cong)
  with assms show False by simp
qed

lemma py_int_chars:
  assumes "py_int env p = Inr n" and "x \<in> set p"
  shows "is_space x \<or> x = CHR ''-'' \<or> x = CHR ''+'' \<or> in_number x"
proof -
  define t where "t = dropWhile is_space p"
  define u where "u = (if t \<noteq> [] \<and> (hd t = CHR ''-'' \<or> hd t = CHR ''+'') then tl t else t)"
  have rest: "dropWhile is_space (dropWhile in_number u) = []"
    unfolding u_def t_def using assms(1) by (rule py_int_Inr)
  have p: "set p = set (takeWhile is_space p) \<union> set t"
    unfolding t_def by (metis set_append takeWhile_dropWhile_id)
  have us: "set u = set (takeWhile in_number u) \<union> set (dropWhile in_number u)"
    by (metis set_append takeWhile_dropWhile_id)
  from assms(2) p consider "x \<in> set (takeWhile is_space p)" | "x \<in> set t" by blast
  then show ?thesis
  proof cases
    case 1
    then have "is_space x" by (rule set_takeWhileD [THEN conjunct2])
    then show ?thesis by blast
  next
    case 2
    have tu: "x = CHR ''-'' \<or> x = CHR ''+'' \<or> x \<in> set u"
    proof (cases t)
      case Nil
      with 2 show ?thesis by simp
    next
      case (Cons d ds)
      with 2 show ?thesis unfolding u_def by (cases "d = CHR ''-'' \<or> d = CHR ''+''") auto
    qed
    have "is_space x \<or> in_number x" if "x \<in> set u"
    proof -
      from that us consider "x \<in> set (takeWhile in_number u)" | "x \<in> set (dropWhile in_number u)"
        by blast
      then show ?thesis
      proof cases
        case 1
        then have "in_number x" by (rule set_takeWhileD [THEN conjunct2])
        then show ?thesis by blast
      next
        case 2
        with rest have "is_space x" by (simp add: dropWhile_eq_Nil_conv)
        then show ?thesis by blast
      qed
    qed
    with tu show ?thesis by blast
  qed
qed

lemma py_int_no_colon:
  assumes "py_int env p = Inr n"
  shows "CHR '':'' \<notin> set p"
  using py_int_chars [OF assms, of "CHR '':''"]
  by (auto simp: is_space_def in_number_def is_digit_def)

text \<open>
  Some values of \<^verbatim>\<open>int\<close>: U+00A0 is white space for it and U+001F is not; underscores may
  separate digits; a sign must be followed by a digit at once.
\<close>

lemma py_int_examples:
  "py_int env (CHR 0xA0 # ''5'') = Inr 5"
  "py_int env (CHR 0x1F # ''5'') = Inl (invalid_literal env (CHR 0x1F # ''5''))"
  "py_int env '' +1_000 '' = Inr 1000"
  "py_int env ''5__0'' = Inl (invalid_literal env ''5__0'')"
  "py_int env ''- 5'' = Inl (invalid_literal env ''- 5'')"
  "py_int env ''5 6'' = Inl (invalid_literal env ''5 6'')"
  "py_int env [] = Inl (invalid_literal env [])"
  by (simp_all add: py_int_def is_space_def in_number_def is_digit_def digit_val_def
      digits_value_def max_str_digits_def)

text \<open>A number of more than 4300 digits is refused, whatever follows it.\<close>

lemma takeWhile_replicate_append:
  "P c \<Longrightarrow> takeWhile P (replicate k c @ ys) = replicate k c @ takeWhile P ys"
  by (induction k) auto

lemma dropWhile_replicate_append:
  "P c \<Longrightarrow> dropWhile P (replicate k c @ ys) = dropWhile P ys"
  by (induction k) auto

lemma double_underscore_replicate: "c \<noteq> CHR ''_'' \<Longrightarrow> \<not> double_underscore (replicate k c)"
proof (induction k)
  case 0
  then show ?case by simp
next
  case (Suc k)
  then show ?case by (cases k) auto
qed

lemma py_int_digit_limit:
  assumes "4300 < k"
  shows "py_int env (replicate k CHR ''9'' @ ''x'') = Inl (digit_limit k)"
proof -
  obtain j where k: "k = Suc j" using assms by (cases k) auto
  have nine: "in_number CHR ''9''" "is_digit CHR ''9''" "\<not> is_space CHR ''9''" "\<not> in_number CHR ''x''"
    by (simp_all add: in_number_def is_digit_def is_space_def)
  define t where "t = replicate k CHR ''9'' @ ''x''"
  have t: "dropWhile is_space (replicate k CHR ''9'' @ ''x'') = t"
    using nine(3) by (simp add: k t_def)
  have u: "(if t \<noteq> [] \<and> (hd t = CHR ''-'' \<or> hd t = CHR ''+'') then tl t else t) = t"
    by (simp add: k t_def)
  have body: "takeWhile in_number t = replicate k CHR ''9''"
    using nine by (simp add: takeWhile_replicate_append t_def)
  have hb: "hd (replicate k CHR ''9'') \<noteq> CHR ''_''" "last (replicate k CHR ''9'') \<noteq> CHR ''_''"
           "replicate k CHR ''9'' \<noteq> []"
    by (simp_all add: k)
  have du: "\<not> double_underscore (replicate k CHR ''9'')"
    by (rule double_underscore_replicate) simp
  have fd: "length (filter is_digit (replicate k CHR ''9'')) = k"
    using nine(2) by simp
  have c1: "\<not> (replicate k CHR ''9'' = [] \<or> hd (replicate k CHR ''9'') = CHR ''_''
               \<or> last (replicate k CHR ''9'') = CHR ''_'' \<or> double_underscore (replicate k CHR ''9''))"
    using hb du by blast
  have c2: "max_str_digits < k" using assms by (simp add: max_str_digits_def)
  show ?thesis
    unfolding py_int_def Let_def t u body fd
    by (simp only: c1 c2 if_False if_True)
qed

lemma manual_parse_four:
  "py_int env p = Inr n \<Longrightarrow>
   manual_parse env [c, p, r, a] vs fmt =
     Inr (variant_result (PStr c) (PInt n) (PStr r) (PStr a) vs fmt vs)"
  by (simp add: manual_parse_def ebind_def)

text \<open>
  C5 (as the code has it). For every chromosome \<open>c\<close> and alleles \<open>r\<close>, \<open>a\<close> containing
  neither \<open>-\<close> nor \<open>:\<close>, and every position string \<open>p\<close> that \<^verbatim>\<open>int\<close> accepts and that
  contains no \<open>-\<close>, the dash notation and the colon notation are both parsed by the manual
  parser, successfully and with the same chromosome, position (the value of \<open>p\<close>),
  reference and alternate bases.
\<close>

theorem dash_colon_agree:
  assumes "CHR ''-'' \<notin> set c" "CHR '':'' \<notin> set c"
      and "CHR ''-'' \<notin> set r" "CHR '':'' \<notin> set r"
      and "CHR ''-'' \<notin> set a" "CHR '':'' \<notin> set a"
      and "py_int env p = Inr n" "CHR ''-'' \<notin> set p"
  shows "fst (parse_variant_string env (PStr (c @ ''-'' @ p @ ''-'' @ r @ ''-'' @ a)) fmt self) =
           variant_result (PStr c) (PInt n) (PStr r) (PStr a)
             (PStr (c @ ''-'' @ p @ ''-'' @ r @ ''-'' @ a)) fmt
             (PStr (c @ ''-'' @ p @ ''-'' @ r @ ''-'' @ a)) \<and>
         fst (parse_variant_string env (PStr (c @ '':'' @ p @ '':'' @ r @ '':'' @ a)) fmt self) =
           variant_result (PStr c) (PInt n) (PStr r) (PStr a)
             (PStr (c @ '':'' @ p @ '':'' @ r @ '':'' @ a)) fmt
             (PStr (c @ '':'' @ p @ '':'' @ r @ '':'' @ a))"
proof
  have "split_on CHR ''-'' (c @ CHR ''-'' # p @ CHR ''-'' # r @ CHR ''-'' # a) = [c, p, r, a]"
    using assms by (intro split_four) auto
  then show "fst (parse_variant_string env (PStr (c @ ''-'' @ p @ ''-'' @ r @ ''-'' @ a)) fmt self) =
           variant_result (PStr c) (PInt n) (PStr r) (PStr a)
             (PStr (c @ ''-'' @ p @ ''-'' @ r @ ''-'' @ a)) fmt
             (PStr (c @ ''-'' @ p @ ''-'' @ r @ ''-'' @ a))"
    using assms(7)
    by (simp add: parse_variant_string_def parse_variant_string_try_def guarded_def parse_variant_string_body_def py_contains_char_def
        py_split_def ebind_def catch_def manual_parse_four)
next
  have pc: "CHR '':'' \<notin> set p" using assms(7) by (rule py_int_no_colon)
  have "split_on CHR '':'' (c @ CHR '':'' # p @ CHR '':'' # r @ CHR '':'' # a) = [c, p, r, a]"
    using assms pc by (intro split_four) auto
  then show "fst (parse_variant_string env (PStr (c @ '':'' @ p @ '':'' @ r @ '':'' @ a)) fmt self) =
           variant_result (PStr c) (PInt n) (PStr r) (PStr a)
             (PStr (c @ '':'' @ p @ '':'' @ r @ '':'' @ a)) fmt
             (PStr (c @ '':'' @ p @ '':'' @ r @ '':'' @ a))"
    using assms
    by (simp add: parse_variant_string_def parse_variant_string_try_def guarded_def parse_variant_string_body_def py_contains_char_def
        py_split_def ebind_def catch_def manual_parse_four)
qed

lemma py_int_1001000: "py_int env ''1001000'' = Inr 1001000"
  by (simp add: py_int_def is_space_def in_number_def is_digit_def digit_val_def digits_value_def
      max_str_digits_def)

lemma py_int_minus5: "py_int env ''-5'' = Inr (- 5)"
  by (simp add: py_int_def is_space_def in_number_def is_digit_def digit_val_def digits_value_def
      max_str_digits_def)

theorem dash_colon_agree_witness:
  "fst (parse_variant_string ref_env (PStr ''chr1-1001000-A-G'') (PStr ''default'') ref_self) =
     variant_result (PStr ''chr1'') (PInt 1001000) (PStr ''A'') (PStr ''G'')
       (PStr ''chr1-1001000-A-G'') (PStr ''default'') (PStr ''chr1-1001000-A-G'') \<and>
   fst (parse_variant_string ref_env (PStr ''chr1:1001000:A:G'') (PStr ''default'') ref_self) =
     variant_result (PStr ''chr1'') (PInt 1001000) (PStr ''A'') (PStr ''G'')
       (PStr ''chr1:1001000:A:G'') (PStr ''default'') (PStr ''chr1:1001000:A:G'')"
  using dash_colon_agree [where c = "''chr1''" and r = "''A''" and a = "''G''" and p = "''1001000''"
      and n = 1001000 and env = ref_env and fmt = "PStr ''default''" and self = ref_self]
  by (simp add: py_int_1001000)

text \<open>
  A negative position is an integer for \<^verbatim>\<open>int\<close>, but its sign is a separator for the manual
  parser: the dash notation then has five parts, the colon notation is split at the sign
  into two, and both strings are handed to the library's parser.
\<close>

lemma negative_position_to_library:
  "fst (parse_variant_string env (PStr ''chr1--5-A-G'') fmt self) =
     catch (library_parse env (PStr ''chr1--5-A-G'') fmt) \<and>
   fst (parse_variant_string env (PStr ''chr1:-5:A:G'') fmt self) =
     catch (library_parse env (PStr ''chr1:-5:A:G'') fmt)"
  by (simp add: parse_variant_string_def parse_variant_string_try_def guarded_def parse_variant_string_body_def py_contains_char_def
        py_split_def ebind_def manual_parse_def)

theorem negative_position_counterexample:
  "py_int ref_env ''-5'' = Inr (- 5) \<and>
   CHR ''-'' \<notin> set ''chr1'' \<and> CHR '':'' \<notin> set ''chr1'' \<and>
   CHR ''-'' \<notin> set ''A'' \<and> CHR '':'' \<notin> set ''A'' \<and>
   CHR ''-'' \<notin> set ''G'' \<and> CHR '':'' \<notin> set ''G'' \<and>
   \<not> succeeded (fst (parse_variant_string ref_env
        (PStr (''chr1'' @ ''-'' @ ''-5'' @ ''-'' @ ''A'' @ ''-'' @ ''G'')) (PStr ''default'') ref_self)) \<and>
   \<not> succeeded (fst (parse_variant_string ref_env
        (PStr (''chr1'' @ '':'' @ ''-5'' @ '':'' @ ''A'' @ '':'' @ ''G'')) (PStr ''default'') ref_self))"
  by (simp add: py_int_minus5 parse_variant_string_def parse_variant_string_try_def guarded_def parse_variant_string_body_def
        py_contains_char_def py_split_def ebind_def manual_parse_def library_parse_def
        py_lower_def lower_def lower_char_def format_map_def ref_env_def catch_def
        error_envelope_def succeeded_def field_def)

subsection \<open>Overlap of two intervals\<close>












subsection \<open>Validation in \<^verbatim>\<open>predict_sequence\<close>\<close>

lemma emap_upper_error: "emap py_upper xs = Inl e \<Longrightarrow> exn_type e = ''AttributeError''"
  by (induction xs arbitrary: e)
     (auto simp: ebind_def py_upper_def no_attribute_def split: sum.splits pyval.splits)

lemma requested_outputs_error:
  "requested_outputs env ots = Inl e \<Longrightarrow> exn_type e = ''AttributeError'' \<or> exn_type e = ''TypeError''"
  by (auto simp: requested_outputs_def ebind_def py_iter_def dest: emap_upper_error
      split: if_splits sum.splits pyval.splits)

lemma organism_enum_result:
  "organism_enum organism = Inr org \<Longrightarrow> org = HOMO_SAPIENS"
  by (auto simp: organism_enum_def ebind_def split: sum.splits)

lemma organism_enum_error:
  "organism_enum organism = Inl e \<Longrightarrow> exn_type e = ''AttributeError''"
  by (auto simp: organism_enum_def ebind_def py_lower_def no_attribute_def
      split: sum.splits pyval.splits)

lemma prep_empty:
  "predict_sequence_prep env (PStr []) organism ots ont =
     Inl (Exn ''ValueError'' ''Sequence must be a non-empty string'')"
  by (simp add: predict_sequence_prep_def)

lemma prep_invalid:
  "s \<noteq> [] \<Longrightarrow> \<not> set (upper s) \<subseteq> set ''ATGCN'' \<Longrightarrow>
   predict_sequence_prep env (PStr s) organism ots ont =
     Inl (Exn ''ValueError'' ''Sequence contains invalid characters. Only A, T, G, C, N are allowed'')"
  by (simp add: predict_sequence_prep_def is_str_def py_upper_def ebind_def)

lemma prep_valid:
  assumes "s \<noteq> []" "set (upper s) \<subseteq> set ''ATGCN''"
  shows "(\<exists>e. predict_sequence_prep env (PStr s) organism ots ont = Inl e \<and>
              exn_type e \<noteq> ''ValueError'') \<or>
         (\<exists>ro. predict_sequence_prep env (PStr s) organism ots ont =
              Inr (Call_predict_sequence (upper s) HOMO_SAPIENS ro ont))"
proof (cases "organism_enum organism")
  case (Inl e)
  then show ?thesis
    using assms organism_enum_error [OF Inl]
    by (simp add: predict_sequence_prep_def is_str_def py_upper_def ebind_def)
next
  case (Inr org)
  note org = this
  show ?thesis
  proof (cases "requested_outputs env ots")
    case (Inl e)
    then show ?thesis
      using assms org requested_outputs_error [OF Inl]
      by (auto simp add: predict_sequence_prep_def is_str_def py_upper_def ebind_def)
  next
    case (Inr ro)
    then show ?thesis
      using assms org organism_enum_result [OF org]
      by (simp add: predict_sequence_prep_def is_str_def py_upper_def ebind_def)
  qed
qed

lemma with_client_error: "with_client env (Inl e) post self = (error_envelope e, self)"
  by (simp add: guarded_def try_client_def catch_def)

lemma with_client_call:
  "with_client env (Inr c) post self =
     (case client_invoke env (client self) c of
        (Inl e, s') \<Rightarrow> (error_envelope e, self\<lparr>client := s', calls := calls self @ [c]\<rparr>)
      | (Inr r, s') \<Rightarrow> (catch (post r), self\<lparr>client := s', calls := calls self @ [c]\<rparr>))"
  by (simp add: guarded_def try_client_def catch_def invoke_def split: prod.splits sum.splits)

lemma with_client_calls:
  "calls (snd (with_client env (Inr c) post self)) = calls self @ [c]"
  by (simp add: with_client_call split: prod.splits sum.splits)

lemma error_envelope_inject: "error_envelope e = error_envelope e' \<longleftrightarrow> e = e'"
  by (cases e; cases e') (auto simp add: error_envelope_def)


lemma predict_sequence_unfold:
  "predict_sequence env (PStr s) organism ots ont self =
     with_client env (predict_sequence_prep env (PStr s) organism ots ont)
       (\<lambda>result. Inr (PDict [(''success'', PBool True),
                               (''result'', serialize_output result),
                               (''sequence_length'', PInt (int (length s)))])) self"
  by (simp add: predict_sequence_def predict_sequence_try_def py_len_def ebind_def)

text \<open>
  C3. For every string \<open>s\<close>, \<^verbatim>\<open>predict_sequence\<close> returns the failure envelope of the
  \<^verbatim>\<open>ValueError\<close> "Sequence must be a non-empty string" without calling the client if and only
  if \<open>s\<close> is empty, and that of "Sequence contains invalid characters. Only A, T, G, C, N are
  allowed" without calling the client if and only if \<open>s\<close> is non-empty and its upper-cased
  form has a character outside A, T, G, C, N. The client is called only when both checks
  pass, once, with the upper-cased sequence. When the external client itself never raises
  an exception with one of these two messages, the two envelopes alone tell the cases apart.
\<close>

theorem predict_sequence_validation:
  "((fst (predict_sequence env (PStr s) organism ots ont self) =
       error_envelope (Exn ''ValueError'' ''Sequence must be a non-empty string'') \<and>
     calls (snd (predict_sequence env (PStr s) organism ots ont self)) = calls self)
     \<longleftrightarrow> s = []) \<and>
   ((fst (predict_sequence env (PStr s) organism ots ont self) =
       error_envelope (Exn ''ValueError''
         ''Sequence contains invalid characters. Only A, T, G, C, N are allowed'') \<and>
     calls (snd (predict_sequence env (PStr s) organism ots ont self)) = calls self)
     \<longleftrightarrow> s \<noteq> [] \<and> \<not> set (upper s) \<subseteq> set ''ATGCN'') \<and>
   (calls (snd (predict_sequence env (PStr s) organism ots ont self)) \<noteq> calls self \<longrightarrow>
      s \<noteq> [] \<and> set (upper s) \<subseteq> set ''ATGCN'' \<and>
      (\<exists>ro. calls (snd (predict_sequence env (PStr s) organism ots ont self)) =
         calls self @ [Call_predict_sequence (upper s) HOMO_SAPIENS ro ont])) \<and>
   ((\<forall>st c e st'. client_invoke env st c = (Inl e, st') \<longrightarrow>
        exn_msg e \<noteq> ''Sequence must be a non-empty string'' \<and>
        exn_msg e \<noteq> ''Sequence contains invalid characters. Only A, T, G, C, N are allowed'') \<longrightarrow>
      (fst (predict_sequence env (PStr s) organism ots ont self) =
         error_envelope (Exn ''ValueError'' ''Sequence must be a non-empty string'')
         \<longleftrightarrow> s = []) \<and>
      (fst (predict_sequence env (PStr s) organism ots ont self) =
         error_envelope (Exn ''ValueError''
           ''Sequence contains invalid characters. Only A, T, G, C, N are allowed'')
         \<longleftrightarrow> s \<noteq> [] \<and> \<not> set (upper s) \<subseteq> set ''ATGCN''))"
  (is "?A \<and> ?B \<and> ?C \<and> ?D")
proof -
  consider (empty) "s = []"
    | (invalid) "s \<noteq> []" "\<not> set (upper s) \<subseteq> set ''ATGCN''"
    | (prep_fails) e where "s \<noteq> []" "set (upper s) \<subseteq> set ''ATGCN''"
        "predict_sequence_prep env (PStr s) organism ots ont = Inl e" "exn_type e \<noteq> ''ValueError''"
    | (called) ro where "s \<noteq> []" "set (upper s) \<subseteq> set ''ATGCN''"
        "predict_sequence_prep env (PStr s) organism ots ont =
           Inr (Call_predict_sequence (upper s) HOMO_SAPIENS ro ont)"
    using prep_valid [of s env organism ots ont] by blast
  then show ?thesis
  proof cases
    case empty
    then show ?thesis
      by (simp add: predict_sequence_unfold prep_empty with_client_error error_envelope_inject)
  next
    case invalid
    then show ?thesis
      by (simp add: predict_sequence_unfold prep_invalid with_client_error error_envelope_inject)
  next
    case prep_fails
    then show ?thesis
      by (auto simp add: predict_sequence_unfold with_client_error error_envelope_inject)
  next
    case called
    obtain r st' where inv: "client_invoke env (client self) (Call_predict_sequence (upper s) HOMO_SAPIENS ro ont) = (r, st')"
      by (cases "client_invoke env (client self) (Call_predict_sequence (upper s) HOMO_SAPIENS ro ont)")
    show ?thesis
    proof (cases r)
      case (Inl e)
      have "(\<forall>st c e st'. client_invoke env st c = (Inl e, st') \<longrightarrow>
          exn_msg e \<noteq> ''Sequence must be a non-empty string'' \<and>
          exn_msg e \<noteq> ''Sequence contains invalid characters. Only A, T, G, C, N are allowed'') \<longrightarrow>
          exn_msg e \<noteq> ''Sequence must be a non-empty string'' \<and>
          exn_msg e \<noteq> ''Sequence contains invalid characters. Only A, T, G, C, N are allowed''"
        using inv Inl by blast
      then have d: ?D
        using called inv Inl
        by (auto simp add: predict_sequence_unfold with_client_call error_envelope_inject)
      have "?A \<and> ?B \<and> ?C"
        using called inv Inl
        by (auto simp add: predict_sequence_unfold with_client_call error_envelope_inject)
      with d show ?thesis by blast
    next
      case (Inr out)
      with called inv show ?thesis
        by (auto simp add: predict_sequence_unfold with_client_call catch_def error_envelope_def)
    qed
  qed
qed

lemma upper_acgt: "upper ''acgt'' = ''ACGT''"
  by (simp add: upper_def upper_char_def)

theorem predict_sequence_validation_witness:
  "calls (snd (predict_sequence ref_env (PStr ''acgt'') (PStr ''human'') PNone PNone ref_self)) =
     [Call_predict_sequence ''ACGT'' HOMO_SAPIENS None PNone] \<and>
   fst (predict_sequence ref_env (PStr []) (PStr ''human'') PNone PNone ref_self) =
     error_envelope (Exn ''ValueError'' ''Sequence must be a non-empty string'')"
proof -
  have quiet: "\<forall>st c e st'. client_invoke ref_env st c = (Inl e, st') \<longrightarrow>
        exn_msg e \<noteq> ''Sequence must be a non-empty string'' \<and>
        exn_msg e \<noteq> ''Sequence contains invalid characters. Only A, T, G, C, N are allowed''"
    by (simp add: ref_env_def ref_client_invoke_def)
  have called: "calls (snd (predict_sequence ref_env (PStr ''acgt'') (PStr ''human'') PNone PNone ref_self))
      = [Call_predict_sequence ''ACGT'' HOMO_SAPIENS None PNone]"
    by (simp add: predict_sequence_unfold predict_sequence_prep_def is_str_def py_upper_def
        upper_acgt ebind_def organism_enum_def py_lower_def requested_outputs_def
        with_client_calls ref_self_def)
  then have "calls (snd (predict_sequence ref_env (PStr ''acgt'') (PStr ''human'') PNone PNone ref_self))
      \<noteq> calls ref_self" by (simp add: ref_self_def)
  with predict_sequence_validation [of ref_env "''acgt''" "PStr ''human''" PNone PNone ref_self]
  have "set (upper ''acgt'') \<subseteq> set ''ATGCN''" by blast
  moreover from quiet predict_sequence_validation [of ref_env "[]" "PStr ''human''" PNone PNone ref_self]
  have "fst (predict_sequence ref_env (PStr []) (PStr ''human'') PNone PNone ref_self) =
     error_envelope (Exn ''ValueError'' ''Sequence must be a non-empty string'')" by blast
  ultimately show ?thesis using called by blast
qed

subsection \<open>The organism argument\<close>

lemma guarded_pair: "guarded (r, s) = (catch r, s)"
  by (simp add: guarded_def)

lemma organism_enum_str: "organism_enum (PStr x) = Inr HOMO_SAPIENS"
  by (simp add: organism_enum_def py_lower_def ebind_def)

lemma snd_with_client:
  "snd (with_client env prep post self) =
     (case prep of
        Inl e \<Rightarrow> self
      | Inr c \<Rightarrow> self\<lparr>client := snd (client_invoke env (client self) c), calls := calls self @ [c]\<rparr>)"
  by (simp add: guarded_def try_client_def catch_def invoke_def split: prod.splits sum.splits)

lemma snd_compare_sequences:
  "snd (compare_sequences env a b org ots self) =
     snd (predict_sequence env b org ots PNone (snd (predict_sequence env a org ots PNone self)))"
  by (simp add: compare_sequences_def compare_sequences_try_def guarded_pair split: prod.splits)

lemma snd_rank_variants:
  "snd (rank_variants_by_impact env vs iv org metric mw self) =
     snd (score_variants env vs iv org mw self)"
  by (simp add: rank_variants_by_impact_def rank_variants_by_impact_try_def guarded_pair split: prod.splits)

lemma predict_sequence_state_organism:
  "snd (predict_sequence env x (PStr o1) ots ont self) =
   snd (predict_sequence env x (PStr o2) ots ont self)"
  by (simp add: predict_sequence_def predict_sequence_try_def snd_with_client predict_sequence_prep_def organism_enum_str
      cong: if_cong)

lemma run_state_organism:
  "snd (run env (with_organism (PStr o1) req) self) = snd (run env (with_organism (PStr o2) req) self)"
proof (cases req)
  case (Compare_sequences a b c d)
  then show ?thesis
    using predict_sequence_state_organism [of env a o1 d PNone self o2]
          predict_sequence_state_organism [of env b o1 d PNone _ o2]
    by (simp add: snd_compare_sequences)
next
  case (Rank_variants_by_impact a b c d e)
  then show ?thesis
    by (simp add: snd_rank_variants score_variants_def score_variants_try_def snd_with_client organism_enum_str
        cong: if_cong)
next
  case (Predict_sequence a b c d)
  then show ?thesis by (simp add: predict_sequence_state_organism)
qed (simp_all add: predict_interval_def predict_interval_try_def predict_variant_def predict_variant_try_def score_variant_def score_variant_try_def
      get_output_metadata_def get_output_metadata_try_def predict_sequences_def predict_sequences_try_def predict_intervals_def predict_intervals_try_def predict_variants_def predict_variants_try_def
      score_variants_def score_variants_try_def score_interval_def score_interval_try_def score_intervals_def score_intervals_try_def score_ism_variants_def score_ism_variants_try_def
      analyze_gene_region_def analyze_gene_region_try_def guarded_pair snd_with_client organism_enum_str cong: if_cong)

lemma calls_with_client:
  assumes "\<And>c. prep = Inr c \<Longrightarrow> call_organism c = HOMO_SAPIENS"
      and "c \<in> set (calls (snd (with_client env prep post self)))"
  shows "c \<in> set (calls self) \<or> call_organism c = HOMO_SAPIENS"
  using assms by (cases prep) (auto simp: snd_with_client)


lemma predict_sequence_calls_human:
  "c \<in> set (calls (snd (predict_sequence env x org ots ont self))) \<Longrightarrow>
   c \<in> set (calls self) \<or> call_organism c = HOMO_SAPIENS"
  unfolding predict_sequence_def predict_sequence_try_def
  by (erule calls_with_client [rotated])
     (auto simp: predict_sequence_prep_def ebind_def split: sum.splits if_splits
       dest!: organism_enum_result)

lemma score_variants_calls_human:
  "c \<in> set (calls (snd (score_variants env vs iv org mw self))) \<Longrightarrow>
   c \<in> set (calls self) \<or> call_organism c = HOMO_SAPIENS"
  unfolding score_variants_def score_variants_try_def
  by (erule calls_with_client [rotated])
     (auto simp: ebind_def split: sum.splits if_splits dest!: organism_enum_result)

lemma run_calls_human:
  assumes "c \<in> set (calls (snd (run env req self)))"
  shows "c \<in> set (calls self) \<or> call_organism c = HOMO_SAPIENS"
proof (cases req)
  case (Predict_sequence a b d e)
  with assms show ?thesis by (auto dest: predict_sequence_calls_human)
next
  case (Predict_interval a b d e f g)
  with assms show ?thesis
    unfolding Predict_interval run.simps predict_interval_def predict_interval_try_def
    by - (erule calls_with_client [rotated],
          auto simp: ebind_def split: sum.splits if_splits dest!: organism_enum_result)
next
  case (Predict_variant a b d e f g h i j)
  with assms show ?thesis
    unfolding Predict_variant run.simps predict_variant_def predict_variant_try_def
    by - (erule calls_with_client [rotated],
          auto simp: ebind_def split: sum.splits if_splits dest!: organism_enum_result)
next
  case (Score_variant a b d e f g h)
  with assms show ?thesis
    unfolding Score_variant run.simps score_variant_def score_variant_try_def
    by - (erule calls_with_client [rotated],
          auto simp: ebind_def split: sum.splits if_splits dest!: organism_enum_result)
next
  case (Get_output_metadata a)
  with assms show ?thesis
    unfolding Get_output_metadata run.simps get_output_metadata_def get_output_metadata_try_def
    by - (erule calls_with_client [rotated],
          auto simp: ebind_def split: sum.splits if_splits dest!: organism_enum_result)
next
  case (Predict_sequences a b d e f)
  with assms show ?thesis
    unfolding Predict_sequences run.simps predict_sequences_def predict_sequences_try_def
    by - (erule calls_with_client [rotated],
          auto simp: ebind_def split: sum.splits if_splits dest!: organism_enum_result)
next
  case (Predict_intervals a b d e f)
  with assms show ?thesis
    unfolding Predict_intervals run.simps predict_intervals_def predict_intervals_try_def
    by - (erule calls_with_client [rotated],
          auto simp: ebind_def split: sum.splits if_splits dest!: organism_enum_result)
next
  case (Predict_variants a b d e f g)
  with assms show ?thesis
    unfolding Predict_variants run.simps predict_variants_def predict_variants_try_def
    by - (erule calls_with_client [rotated],
          auto simp: ebind_def split: sum.splits if_splits dest!: organism_enum_result)
next
  case (Score_variants a b d e)
  with assms show ?thesis by (auto dest: score_variants_calls_human)
next
  case (Score_interval a b d e)
  with assms show ?thesis
    unfolding Score_interval run.simps score_interval_def score_interval_try_def
    by - (erule calls_with_client [rotated],
          auto simp: ebind_def split: sum.splits if_splits dest!: organism_enum_result)
next
  case (Score_intervals a b d)
  with assms show ?thesis
    unfolding Score_intervals run.simps score_intervals_def score_intervals_try_def
    by - (erule calls_with_client [rotated],
          auto simp: ebind_def split: sum.splits if_splits dest!: organism_enum_result)
next
  case (Score_ism_variants a b d e f g h i)
  with assms show ?thesis
    unfolding Score_ism_variants run.simps score_ism_variants_def score_ism_variants_try_def
    by - (erule calls_with_client [rotated],
          auto simp: ebind_def split: sum.splits if_splits dest!: organism_enum_result)
next
  case (Parse_variant_string a b)
  with assms show ?thesis by (simp add: parse_variant_string_def parse_variant_string_try_def guarded_pair)
next
  case (Validate_genomic_data a b)
  with assms show ?thesis by (simp add: validate_genomic_data_def validate_genomic_data_try_def guarded_pair)
next
  case Get_supported_outputs
  with assms show ?thesis by (simp add: get_supported_outputs_def get_supported_outputs_try_def guarded_pair)
next
  case (Calculate_genomic_overlap a b)
  with assms show ?thesis by (simp add: calculate_genomic_overlap_def calculate_genomic_overlap_try_def guarded_pair)
next
  case (Get_sequence_info a)
  with assms show ?thesis by (simp add: get_sequence_info_def get_sequence_info_try_def guarded_pair)
next
  case (Analyze_gene_region a b d e)
  with assms show ?thesis by (simp add: analyze_gene_region_def analyze_gene_region_try_def guarded_pair)
next
  case (Compare_sequences a b d e)
  with assms have "c \<in> set (calls (snd (predict_sequence env b d e PNone
      (snd (predict_sequence env a d e PNone self)))))"
    by (simp add: snd_compare_sequences)
  then have "c \<in> set (calls (snd (predict_sequence env a d e PNone self))) \<or>
      call_organism c = HOMO_SAPIENS"
    by (rule predict_sequence_calls_human)
  then show ?thesis by (auto dest: predict_sequence_calls_human)
next
  case (Rank_variants_by_impact a b d e f)
  with assms show ?thesis by (auto simp: snd_rank_variants dest: score_variants_calls_human)
qed

text \<open>
  C9. For every call of a public method and any two organism strings, the two runs leave
  the client in the same state after the same requests; and whatever the organism argument
  is, every request a method makes passes \<^verbatim>\<open>Organism.HOMO_SAPIENS\<close>: the organism argument
  never reaches the external client.
\<close>

theorem organism_never_influences_request:
  "snd (run env (with_organism (PStr o1) req) self) = snd (run env (with_organism (PStr o2) req) self) \<and>
   (\<forall>c \<in> set (calls (snd (run env req self))).
      c \<in> set (calls self) \<or> call_organism c = HOMO_SAPIENS)"
  using run_state_organism [of env o1 req self o2] run_calls_human [of _ env req self]
  by blast

theorem organism_never_influences_request_witness:
  "calls (snd (run ref_env (Score_interval (PStr ''chr1'') (PInt 10) (PInt 20) (PStr ''mouse'')) ref_self)) =
     [Call_score_interval \<lparr>i_chromosome = PStr ''chr1'', i_start = PInt 10, i_end = PInt 20\<rparr> HOMO_SAPIENS] \<and>
   snd (run ref_env (Score_interval (PStr ''chr1'') (PInt 10) (PInt 20) (PStr ''mouse'')) ref_self) =
   snd (run ref_env (Score_interval (PStr ''chr1'') (PInt 10) (PInt 20) (PStr ''human'')) ref_self)"
proof -
  have c: "calls (snd (run ref_env (Score_interval (PStr ''chr1'') (PInt 10) (PInt 20) (PStr ''mouse'')) ref_self)) =
     [Call_score_interval \<lparr>i_chromosome = PStr ''chr1'', i_start = PInt 10, i_end = PInt 20\<rparr> HOMO_SAPIENS]"
    by (simp add: score_interval_def score_interval_try_def snd_with_client ebind_def organism_enum_str
        ref_env_def ref_interval_init_def ref_self_def)
  from organism_never_influences_request
    [of ref_env "''mouse''" "Score_interval (PStr ''chr1'') (PInt 10) (PInt 20) (PStr ''x'')" ref_self "''human''"]
  have "snd (run ref_env (Score_interval (PStr ''chr1'') (PInt 10) (PInt 20) (PStr ''mouse'')) ref_self) =
   snd (run ref_env (Score_interval (PStr ''chr1'') (PInt 10) (PInt 20) (PStr ''human'')) ref_self)"
    by simp
  with c show ?thesis by blast
qed

subsection \<open>The utilities and the client state\<close>

lemma set_str_env:
  assumes "set_iter env1 = set_iter env2" "repr_val env1 = repr_val env2"
  shows "set_str env1 cs = set_str env2 cs"
  using assms by (simp add: set_str_def)

lemma validate_body_env:
  assumes "set_iter env1 = set_iter env2" "repr_val env1 = repr_val env2"
  shows "validate_body env1 t d = validate_body env2 t d"
  unfolding validate_body_def validate_sequence_def set_str_env [OF assms] by (rule refl)

lemma get_sequence_info_body_env:
  assumes "set_iter env1 = set_iter env2"
  shows "get_sequence_info_body env1 x = get_sequence_info_body env2 x"
  unfolding get_sequence_info_body_def assms by (rule refl)

lemma library_parse_env:
  assumes "Variant_from_str env1 = Variant_from_str env2"
  shows "library_parse env1 v f = library_parse env2 v f"
  unfolding library_parse_def assms by (rule refl)

lemma py_int_env:
  assumes "repr_val env1 = repr_val env2"
  shows "py_int env1 s = py_int env2 s"
  unfolding py_int_def invalid_literal_def assms by (rule refl)

lemma manual_parse_env:
  assumes "repr_val env1 = repr_val env2" "Variant_from_str env1 = Variant_from_str env2"
  shows "manual_parse env1 parts v f = manual_parse env2 parts v f"
  unfolding manual_parse_def library_parse_env [OF assms(2)] py_int_env [OF assms(1)] by (rule refl)

lemma parse_variant_string_body_env:
  assumes "repr_val env1 = repr_val env2" "Variant_from_str env1 = Variant_from_str env2"
  shows "parse_variant_string_body env1 v f = parse_variant_string_body env2 v f"
  unfolding parse_variant_string_body_def manual_parse_env [OF assms] library_parse_env [OF assms(2)]
  by (rule refl)

text \<open>
  C4 (as the code has it). \<^verbatim>\<open>parse_variant_string\<close>, \<^verbatim>\<open>validate_genomic_data\<close> and
  \<^verbatim>\<open>get_sequence_info\<close> are stateless: they return the client state as they found it, with
  no request made, and their result does not depend on that state nor on the external
  client. They are deterministic up to the runtime's iteration order of sets: two runs on
  equal arguments return equal results when sets of characters are iterated and printed
  alike in both (and the library's \<^verbatim>\<open>Variant.from_str\<close> is the same function).
\<close>

theorem utilities_stateless:
  "snd (parse_variant_string env v f self) = self \<and>
   snd (validate_genomic_data env t d self) = self \<and>
   snd (get_sequence_info env x self) = self \<and>
   (set_iter env1 = set_iter env2 \<and> repr_val env1 = repr_val env2 \<and>
    Variant_from_str env1 = Variant_from_str env2 \<longrightarrow>
      fst (parse_variant_string env1 v f self1) = fst (parse_variant_string env2 v f self2) \<and>
      fst (validate_genomic_data env1 t d self1) = fst (validate_genomic_data env2 t d self2) \<and>
      fst (get_sequence_info env1 x self1) = fst (get_sequence_info env2 x self2))"
  by (simp add: parse_variant_string_def parse_variant_string_try_def guarded_def validate_genomic_data_def validate_genomic_data_try_def guarded_def get_sequence_info_def get_sequence_info_try_def guarded_def
      validate_body_env [of env1 env2] get_sequence_info_body_env [of env1 env2]
      parse_variant_string_body_env [of env1 env2])

theorem utilities_stateless_witness:
  "fst (get_sequence_info ref_env (PStr ''XY'') ref_self) =
     fst (get_sequence_info (ref_env\<lparr>client_invoke := (\<lambda>s c. (Inl (Exn ''RuntimeError'' ''down''), s))\<rparr>)
          (PStr ''XY'') \<lparr>client = 7, calls = [Call_output_metadata HOMO_SAPIENS]\<rparr>) \<and>
   snd (get_sequence_info ref_env (PStr ''XY'') ref_self) = ref_self"
  using utilities_stateless [of ref_env PNone PNone ref_self PNone PNone "PStr ''XY''" ref_env
      "ref_env\<lparr>client_invoke := (\<lambda>s c. (Inl (Exn ''RuntimeError'' ''down''), s))\<rparr>"
      ref_self "\<lparr>client = 7, calls = [Call_output_metadata HOMO_SAPIENS]\<rparr>"]
  by simp

text \<open>
  The list \<^verbatim>\<open>invalid_characters\<close> and the message "Invalid characters found: {...}" are made
  by iterating over a set of characters. Two runs that iterate over the set \<open>{X, Y}\<close> in
  different orders return different results on the same arguments.
\<close>

lemma upper_XY: "upper ''XY'' = ''XY''"
  by (simp add: upper_def upper_char_def)

theorem set_order_counterexample:
  "fst (get_sequence_info ref_env (PStr ''XY'') ref_self) \<noteq>
   fst (get_sequence_info ref_env_rev (PStr ''XY'') ref_self) \<and>
   fst (validate_genomic_data ref_env (PStr ''sequence'') (PDict [(''sequence'', PStr ''XY'')]) ref_self) \<noteq>
   fst (validate_genomic_data ref_env_rev (PStr ''sequence'') (PDict [(''sequence'', PStr ''XY'')]) ref_self)"
proof
  have a: "result_field ''invalid_characters'' (fst (get_sequence_info ref_env (PStr ''XY'') ref_self))
      = Some (PList [PStr ''X'', PStr ''Y''])"
    by (simp add: get_sequence_info_def get_sequence_info_try_def guarded_def get_sequence_info_body_def py_upper_def upper_XY ebind_def
        Let_def percentage_def py_truediv_def py_mul_def py_round2_def py_sub_def catch_def
        invalid_chars_of_def ref_env_def result_field_def field_def)
  have b: "result_field ''invalid_characters'' (fst (get_sequence_info ref_env_rev (PStr ''XY'') ref_self))
      = Some (PList [PStr ''Y'', PStr ''X''])"
    by (simp add: get_sequence_info_def get_sequence_info_try_def guarded_def get_sequence_info_body_def py_upper_def upper_XY ebind_def
        Let_def percentage_def py_truediv_def py_mul_def py_round2_def py_sub_def catch_def
        invalid_chars_of_def ref_env_def ref_env_rev_def result_field_def field_def)
  show "fst (get_sequence_info ref_env (PStr ''XY'') ref_self) \<noteq>
        fst (get_sequence_info ref_env_rev (PStr ''XY'') ref_self)"
    using a b by auto
next
  have a: "result_field ''errors'' (fst (validate_genomic_data ref_env (PStr ''sequence'')
        (PDict [(''sequence'', PStr ''XY'')]) ref_self))
      = Some (PList [PStr (''Invalid characters found: {'' @ sq @ ''X'' @ sq @ '', '' @ sq @ ''Y'' @ sq @ ''}'')])"
    by (simp add: validate_genomic_data_def validate_genomic_data_try_def guarded_def validate_body_def validate_sequence_def dict_get_def
        py_upper_def upper_XY ebind_def Let_def py_len_def catch_def invalid_chars_of_def
        set_str_def ref_env_def ref_repr_def add_error_def add_warning_def vres_init_def
        vres_dict_def supported_lengths_def result_field_def field_def)
  have b: "result_field ''errors'' (fst (validate_genomic_data ref_env_rev (PStr ''sequence'')
        (PDict [(''sequence'', PStr ''XY'')]) ref_self))
      = Some (PList [PStr (''Invalid characters found: {'' @ sq @ ''Y'' @ sq @ '', '' @ sq @ ''X'' @ sq @ ''}'')])"
    by (simp add: validate_genomic_data_def validate_genomic_data_try_def guarded_def validate_body_def validate_sequence_def dict_get_def
        py_upper_def upper_XY ebind_def Let_def py_len_def catch_def invalid_chars_of_def
        set_str_def ref_env_def ref_env_rev_def ref_repr_def add_error_def add_warning_def
        vres_init_def vres_dict_def supported_lengths_def result_field_def field_def)
  show "fst (validate_genomic_data ref_env (PStr ''sequence'') (PDict [(''sequence'', PStr ''XY'')]) ref_self) \<noteq>
        fst (validate_genomic_data ref_env_rev (PStr ''sequence'') (PDict [(''sequence'', PStr ''XY'')]) ref_self)"
    using a b by (auto simp: sq_def)
qed

subsection \<open>The shape of every result\<close>

lemma with_client_shape:
  assumes "\<And>x v. post x = Inr v \<Longrightarrow> field ''success'' v = Some (PBool True)"
  shows "(\<exists>e. fst (with_client env prep post self) = error_envelope e) \<or>
         field ''success'' (fst (with_client env prep post self)) = Some (PBool True)"
proof (cases prep)
  case (Inl e)
  then show ?thesis by (auto simp: guarded_def try_client_def catch_def)
next
  case (Inr c)
  obtain r self' where i: "invoke env c self = (r, self')" by (cases "invoke env c self")
  show ?thesis
  proof (cases r)
    case (Inl e)
    with Inr i show ?thesis by (auto simp: guarded_def try_client_def catch_def)
  next
    case r: (Inr x)
    show ?thesis
    proof (cases "post x")
      case (Inl e)
      with Inr i r show ?thesis by (auto simp: guarded_def try_client_def catch_def catch_def)
    next
      case v: (Inr v)
      with Inr i r assms [OF v] show ?thesis by (auto simp: guarded_def try_client_def catch_def catch_def)
    qed
  qed
qed

lemma catch_shape:
  assumes "\<And>v. body = Inr v \<Longrightarrow> field ''success'' v = Some (PBool True)"
  shows "(\<exists>e. catch body = error_envelope e) \<or> field ''success'' (catch body) = Some (PBool True)"
  using assms by (cases body) (auto simp: catch_def)

lemma envelope_success: "field ''success'' (error_envelope e) = Some (PBool False)"
  by (simp add: error_envelope_def field_def)

lemma predict_sequence_shape:
  "(\<exists>e. fst (predict_sequence env a b c d self) = error_envelope e) \<or>
   field ''success'' (fst (predict_sequence env a b c d self)) = Some (PBool True)"
  unfolding predict_sequence_def predict_sequence_try_def
  by (rule with_client_shape) (auto simp: ebind_def field_def split: sum.splits)

lemma score_variants_shape:
  "(\<exists>e. fst (score_variants env a b c d self) = error_envelope e) \<or>
   field ''success'' (fst (score_variants env a b c d self)) = Some (PBool True)"
  unfolding score_variants_def score_variants_try_def
  by (rule with_client_shape) (auto simp: ebind_def field_def split: sum.splits)


lemma getitem_envelope: "py_getitem (error_envelope e) ''success'' = Inr (PBool False)"
  by (simp add: error_envelope_def py_getitem_def)

lemma compare_sequences_shape:
  "(\<exists>e. fst (compare_sequences env s1 s2 org ots self) = error_envelope e) \<or>
   field ''success'' (fst (compare_sequences env s1 s2 org ots self)) = Some (PBool True) \<or>
   (\<exists>r1 r2. fst (compare_sequences env s1 s2 org ots self) =
        PDict [(''success'', PBool False),
               (''error'', PStr ''Failed to predict one or both sequences''),
               (''result1'', r1), (''result2'', r2)] \<and>
      ((\<exists>e. r1 = error_envelope e) \<or> (\<exists>e. r2 = error_envelope e)))"
proof -
  obtain r1 self1 where p1: "predict_sequence env s1 org ots PNone self = (r1, self1)"
    by (cases "predict_sequence env s1 org ots PNone self")
  obtain r2 self2 where p2: "predict_sequence env s2 org ots PNone self1 = (r2, self2)"
    by (cases "predict_sequence env s2 org ots PNone self1")
  have c: "fst (compare_sequences env s1 s2 org ots self) = catch (compare_body s1 s2 r1 r2)"
    by (simp add: compare_sequences_def compare_sequences_try_def guarded_pair p1 p2)
  from predict_sequence_shape [of env s1 org ots PNone self] p1
  have sh1: "(\<exists>e. r1 = error_envelope e) \<or> field ''success'' r1 = Some (PBool True)" by simp
  from predict_sequence_shape [of env s2 org ots PNone self1] p2
  have sh2: "(\<exists>e. r2 = error_envelope e) \<or> field ''success'' r2 = Some (PBool True)" by simp
  from sh1 show ?thesis
  proof
    assume "\<exists>e. r1 = error_envelope e"
    then obtain e where e: "r1 = error_envelope e" ..
    have "compare_body s1 s2 r1 r2 = Inr (PDict [(''success'', PBool False),
               (''error'', PStr ''Failed to predict one or both sequences''),
               (''result1'', r1), (''result2'', r2)])"
      by (simp add: compare_body_def e getitem_envelope ebind_def)
    with e show ?thesis unfolding c by (auto simp: catch_def)
  next
    assume ok1: "field ''success'' r1 = Some (PBool True)"
    then have g1: "py_getitem r1 ''success'' = Inr (PBool True)"
      by (cases r1) (auto simp: field_def py_getitem_def)
    from sh2 show ?thesis
    proof
      assume "\<exists>e. r2 = error_envelope e"
      then obtain e where e: "r2 = error_envelope e" ..
      have "compare_body s1 s2 r1 r2 = Inr (PDict [(''success'', PBool False),
               (''error'', PStr ''Failed to predict one or both sequences''),
               (''result1'', r1), (''result2'', r2)])"
        by (simp add: compare_body_def g1 e getitem_envelope ebind_def)
      with e show ?thesis unfolding c by (auto simp: catch_def)
    next
      assume ok2: "field ''success'' r2 = Some (PBool True)"
      then have g2: "py_getitem r2 ''success'' = Inr (PBool True)"
        by (cases r2) (auto simp: field_def py_getitem_def)
      have "(\<exists>e. catch (compare_body s1 s2 r1 r2) = error_envelope e) \<or>
            field ''success'' (catch (compare_body s1 s2 r1 r2)) = Some (PBool True)"
        by (rule catch_shape)
           (auto simp: compare_body_def g1 g2 ebind_def field_def split: sum.splits)
      then show ?thesis unfolding c by blast
    qed
  qed
qed

lemma rank_variants_shape:
  "(\<exists>e. fst (rank_variants_by_impact env vs iv org metric mw self) = error_envelope e) \<or>
   field ''success'' (fst (rank_variants_by_impact env vs iv org metric mw self)) = Some (PBool True)"
proof -
  obtain r self1 where p: "score_variants env vs iv org mw self = (r, self1)"
    by (cases "score_variants env vs iv org mw self")
  have c: "fst (rank_variants_by_impact env vs iv org metric mw self) =
      catch (rank_body env vs iv metric r)"
    by (simp add: rank_variants_by_impact_def rank_variants_by_impact_try_def guarded_pair p)
  from score_variants_shape [of env vs iv org mw self] p
  have "(\<exists>e. r = error_envelope e) \<or> field ''success'' r = Some (PBool True)" by simp
  then show ?thesis
  proof
    assume "\<exists>e. r = error_envelope e"
    then obtain e where e: "r = error_envelope e" ..
    have "rank_body env vs iv metric r = Inr r"
      by (simp add: rank_body_def e getitem_envelope ebind_def)
    with e show ?thesis unfolding c by (auto simp: catch_def)
  next
    assume "field ''success'' r = Some (PBool True)"
    then have g: "py_getitem r ''success'' = Inr (PBool True)"
      by (cases r) (auto simp: field_def py_getitem_def)
    have "(\<exists>e. catch (rank_body env vs iv metric r) = error_envelope e) \<or>
          field ''success'' (catch (rank_body env vs iv metric r)) = Some (PBool True)"
      by (rule catch_shape) (auto simp: rank_body_def g ebind_def field_def split: sum.splits)
    then show ?thesis unfolding c .
  qed
qed

lemma parse_variant_string_shape:
  "(\<exists>e. fst (parse_variant_string env v f self) = error_envelope e) \<or>
   field ''success'' (fst (parse_variant_string env v f self)) = Some (PBool True)"
  unfolding parse_variant_string_def parse_variant_string_try_def guarded_pair fst_conv
  by (rule catch_shape)
     (auto simp: parse_variant_string_body_def manual_parse_def library_parse_def variant_result_def
        ebind_def field_def Let_def split: sum.splits if_splits list.splits)

lemma validate_genomic_data_shape:
  "(\<exists>e. fst (validate_genomic_data env t d self) = error_envelope e) \<or>
   field ''success'' (fst (validate_genomic_data env t d self)) = Some (PBool True)"
  unfolding validate_genomic_data_def validate_genomic_data_try_def guarded_pair fst_conv
  by (rule catch_shape) (auto simp: validate_body_def ebind_def field_def split: sum.splits)

lemma calculate_genomic_overlap_shape:
  "(\<exists>e. fst (calculate_genomic_overlap env a b self) = error_envelope e) \<or>
   field ''success'' (fst (calculate_genomic_overlap env a b self)) = Some (PBool True)"
  unfolding calculate_genomic_overlap_def calculate_genomic_overlap_try_def guarded_pair fst_conv
  by (rule catch_shape)
     (auto simp: calculate_genomic_overlap_body_def ebind_def field_def Let_def split: sum.splits)

lemma get_sequence_info_shape:
  "(\<exists>e. fst (get_sequence_info env x self) = error_envelope e) \<or>
   field ''success'' (fst (get_sequence_info env x self)) = Some (PBool True)"
  unfolding get_sequence_info_def get_sequence_info_try_def guarded_pair fst_conv
  by (rule catch_shape)
     (auto simp: get_sequence_info_body_def ebind_def field_def Let_def split: sum.splits if_splits)


lemma run_shape:
  "(\<exists>e. fst (run env req self) = error_envelope e) \<or>
   field ''success'' (fst (run env req self)) = Some (PBool True) \<or>
   (\<exists>g org fl ots. req = Analyze_gene_region g org fl ots \<and>
      field ''success'' (fst (run env req self)) = Some (PBool False)) \<or>
   (\<exists>s1 s2 org ots r1 r2. req = Compare_sequences s1 s2 org ots \<and>
      fst (run env req self) =
        PDict [(''success'', PBool False),
               (''error'', PStr ''Failed to predict one or both sequences''),
               (''result1'', r1), (''result2'', r2)] \<and>
      ((\<exists>e. r1 = error_envelope e) \<or> (\<exists>e. r2 = error_envelope e)))"
proof (cases req)
  case (Predict_sequence a b c d)
  then show ?thesis using predict_sequence_shape [of env a b c d self] by auto
next
  case (Predict_interval a b c d e f)
  have "(\<exists>x. fst (predict_interval env a b c d e f self) = error_envelope x) \<or>
        field ''success'' (fst (predict_interval env a b c d e f self)) = Some (PBool True)"
    unfolding predict_interval_def predict_interval_try_def
    by (rule with_client_shape) (auto simp: ebind_def field_def split: sum.splits)
  with Predict_interval show ?thesis by auto
next
  case (Predict_variant a b c d e f g h i)
  have "(\<exists>x. fst (predict_variant env a b c d e f g h i self) = error_envelope x) \<or>
        field ''success'' (fst (predict_variant env a b c d e f g h i self)) = Some (PBool True)"
    unfolding predict_variant_def predict_variant_try_def
    by (rule with_client_shape) (auto simp: ebind_def field_def split: sum.splits)
  with Predict_variant show ?thesis by auto
next
  case (Score_variant a b c d e f g)
  have "(\<exists>x. fst (score_variant env a b c d e f g self) = error_envelope x) \<or>
        field ''success'' (fst (score_variant env a b c d e f g self)) = Some (PBool True)"
    unfolding score_variant_def score_variant_try_def
    by (rule with_client_shape) (auto simp: ebind_def field_def split: sum.splits)
  with Score_variant show ?thesis by auto
next
  case (Get_output_metadata a)
  have "(\<exists>x. fst (get_output_metadata env a self) = error_envelope x) \<or>
        field ''success'' (fst (get_output_metadata env a self)) = Some (PBool True)"
    unfolding get_output_metadata_def get_output_metadata_try_def
    by (rule with_client_shape) (auto simp: ebind_def field_def split: sum.splits)
  with Get_output_metadata show ?thesis by auto
next
  case (Predict_sequences a b c d e)
  have "(\<exists>x. fst (predict_sequences env a b c d e self) = error_envelope x) \<or>
        field ''success'' (fst (predict_sequences env a b c d e self)) = Some (PBool True)"
    unfolding predict_sequences_def predict_sequences_try_def
    by (rule with_client_shape) (auto simp: ebind_def field_def split: sum.splits)
  with Predict_sequences show ?thesis by auto
next
  case (Predict_intervals a b c d e)
  have "(\<exists>x. fst (predict_intervals env a b c d e self) = error_envelope x) \<or>
        field ''success'' (fst (predict_intervals env a b c d e self)) = Some (PBool True)"
    unfolding predict_intervals_def predict_intervals_try_def
    by (rule with_client_shape) (auto simp: ebind_def field_def split: sum.splits)
  with Predict_intervals show ?thesis by auto
next
  case (Predict_variants a b c d e f)
  have "(\<exists>x. fst (predict_variants env a b c d e f self) = error_envelope x) \<or>
        field ''success'' (fst (predict_variants env a b c d e f self)) = Some (PBool True)"
    unfolding predict_variants_def predict_variants_try_def
    by (rule with_client_shape) (auto simp: ebind_def field_def split: sum.splits)
  with Predict_variants show ?thesis by auto
next
  case (Score_variants a b c d)
  then show ?thesis using score_variants_shape [of env a b c d self] by auto
next
  case (Score_interval a b c d)
  have "(\<exists>x. fst (score_interval env a b c d self) = error_envelope x) \<or>
        field ''success'' (fst (score_interval env a b c d self)) = Some (PBool True)"
    unfolding score_interval_def score_interval_try_def
    by (rule with_client_shape) (auto simp: ebind_def field_def split: sum.splits)
  with Score_interval show ?thesis by auto
next
  case (Score_intervals a b c)
  have "(\<exists>x. fst (score_intervals env a b c self) = error_envelope x) \<or>
        field ''success'' (fst (score_intervals env a b c self)) = Some (PBool True)"
    unfolding score_intervals_def score_intervals_try_def
    by (rule with_client_shape) (auto simp: ebind_def field_def split: sum.splits)
  with Score_intervals show ?thesis by auto
next
  case (Score_ism_variants a b c d e f g h)
  have "(\<exists>x. fst (score_ism_variants env a b c d e f g h self) = error_envelope x) \<or>
        field ''success'' (fst (score_ism_variants env a b c d e f g h self)) = Some (PBool True)"
    unfolding score_ism_variants_def score_ism_variants_try_def
    by (rule with_client_shape) (auto simp: ebind_def field_def split: sum.splits)
  with Score_ism_variants show ?thesis by auto
next
  case (Parse_variant_string a b)
  then show ?thesis using parse_variant_string_shape [of env a b self] by auto
next
  case (Validate_genomic_data a b)
  then show ?thesis using validate_genomic_data_shape [of env a b self] by auto
next
  case Get_supported_outputs
  then show ?thesis
    by (simp add: get_supported_outputs_def get_supported_outputs_try_def guarded_pair catch_def field_def)
next
  case (Calculate_genomic_overlap a b)
  then show ?thesis using calculate_genomic_overlap_shape [of env a b self] by auto
next
  case (Get_sequence_info a)
  then show ?thesis using get_sequence_info_shape [of env a self] by auto
next
  case (Analyze_gene_region a b c d)
  then show ?thesis
    by (simp add: analyze_gene_region_def analyze_gene_region_try_def guarded_pair catch_def field_def)
next
  case (Compare_sequences a b c d)
  then show ?thesis using compare_sequences_shape [of env a b c d self] by auto
next
  case (Rank_variants_by_impact a b c d e)
  then show ?thesis using rank_variants_shape [of env a b c d e self] by auto
qed


lemma run_boolean_success:
  "\<exists>b. field ''success'' (fst (run env req self)) = Some (PBool b)"
proof -
  from run_shape [of env req self]
  consider (envelope) e where "fst (run env req self) = error_envelope e"
    | (success) "field ''success'' (fst (run env req self)) = Some (PBool True)"
    | (failure) "field ''success'' (fst (run env req self)) = Some (PBool False)"
    | (compare) r1 r2 where "fst (run env req self) =
         PDict [(''success'', PBool False),
                (''error'', PStr ''Failed to predict one or both sequences''),
                (''result1'', r1), (''result2'', r2)]"
    by blast
  then show ?thesis
  proof cases
    case envelope
    then show ?thesis by (auto simp add: envelope_success)
  next
    case success
    then show ?thesis by blast
  next
    case failure
    then show ?thesis by blast
  next
    case compare
    then show ?thesis by (auto simp add: field_def)
  qed
qed

text \<open>Every method is its \<^verbatim>\<open>try\<close> block under the \<^verbatim>\<open>except\<close> clause.\<close>

lemma run_guarded: "run env req self = guarded (run_try env req self)"
  by (cases req)
     (simp_all add: predict_sequence_def predict_interval_def predict_variant_def score_variant_def
        get_output_metadata_def predict_sequences_def predict_intervals_def predict_variants_def
        score_variants_def score_interval_def score_intervals_def score_ism_variants_def
        parse_variant_string_def validate_genomic_data_def get_supported_outputs_def
        calculate_genomic_overlap_def get_sequence_info_def analyze_gene_region_def
        compare_sequences_def rank_variants_by_impact_def)

text \<open>
  C1. Every public operation returns a dictionary with a boolean key "success". Whenever an
  exception leaves the \<^verbatim>\<open>try\<close> block of an operation, the operation returns the uniform
  envelope of that very exception: "success" false, "error" its message, "type" the name of
  its class, and nothing else; when none does, the operation returns what the block
  returns. In both cases the object is left in the state in which the block left it. (An
  exception raised inside a nested call of another public operation, as in
  \<^verbatim>\<open>compare_sequences\<close> and \<^verbatim>\<open>rank_variants_by_impact\<close>, is caught by that operation and
  reaches the caller as a returned envelope, not as an exception.)
\<close>

theorem uniform_envelope:
  "(\<exists>b. field ''success'' (fst (run env req self)) = Some (PBool b)) \<and>
   (\<forall>e. fst (run_try env req self) = Inl e \<longrightarrow>
      fst (run env req self) =
        PDict [(''success'', PBool False), (''error'', PStr (exn_msg e)), (''type'', PStr (exn_type e))]) \<and>
   (\<forall>v. fst (run_try env req self) = Inr v \<longrightarrow> fst (run env req self) = v) \<and>
   snd (run env req self) = snd (run_try env req self)"
proof (intro conjI allI impI)
  show "\<exists>b. field ''success'' (fst (run env req self)) = Some (PBool b)"
    by (rule run_boolean_success)
next
  fix e
  assume "fst (run_try env req self) = Inl e"
  then show "fst (run env req self) =
        PDict [(''success'', PBool False), (''error'', PStr (exn_msg e)), (''type'', PStr (exn_type e))]"
    by (simp add: run_guarded guarded_def catch_def error_envelope_def)
next
  fix v
  assume "fst (run_try env req self) = Inr v"
  then show "fst (run env req self) = v"
    by (simp add: run_guarded guarded_def catch_def)
next
  show "snd (run env req self) = snd (run_try env req self)"
    by (simp add: run_guarded guarded_def)
qed

theorem uniform_envelope_witness:
  "fst (run_try ref_env (Predict_sequence (PStr []) (PStr ''human'') PNone PNone) ref_self) =
     Inl (Exn ''ValueError'' ''Sequence must be a non-empty string'') \<and>
   fst (run ref_env (Predict_sequence (PStr []) (PStr ''human'') PNone PNone) ref_self) =
     PDict [(''success'', PBool False), (''error'', PStr ''Sequence must be a non-empty string''),
            (''type'', PStr ''ValueError'')] \<and>
   fst (run_try (ref_env\<lparr>client_invoke := (\<lambda>s c. (Inl (Exn ''RuntimeError'' ''service unavailable''), s))\<rparr>)
          (Get_output_metadata (PStr ''human'')) ref_self) =
     Inl (Exn ''RuntimeError'' ''service unavailable'') \<and>
   fst (run (ref_env\<lparr>client_invoke := (\<lambda>s c. (Inl (Exn ''RuntimeError'' ''service unavailable''), s))\<rparr>)
          (Get_output_metadata (PStr ''human'')) ref_self) =
     PDict [(''success'', PBool False), (''error'', PStr ''service unavailable''),
            (''type'', PStr ''RuntimeError'')] \<and>
   fst (run_try ref_env (Calculate_genomic_overlap (PDict []) (PDict [])) ref_self) =
     Inl (Exn ''KeyError'' (sq @ ''chromosome'' @ sq)) \<and>
   fst (run ref_env (Calculate_genomic_overlap (PDict []) (PDict [])) ref_self) =
     PDict [(''success'', PBool False), (''error'', PStr (sq @ ''chromosome'' @ sq)),
            (''type'', PStr ''KeyError'')] \<and>
   fst (run ref_env Get_supported_outputs ref_self) =
     catch (fst (run_try ref_env Get_supported_outputs ref_self)) \<and>
   field ''success'' (fst (run ref_env Get_supported_outputs ref_self)) = Some (PBool True)"
proof -
  have t1: "fst (run_try ref_env (Predict_sequence (PStr []) (PStr ''human'') PNone PNone) ref_self) =
     Inl (Exn ''ValueError'' ''Sequence must be a non-empty string'')"
    by (simp add: predict_sequence_try_def predict_sequence_prep_def try_client_def)
  have t2: "fst (run_try (ref_env\<lparr>client_invoke := (\<lambda>s c. (Inl (Exn ''RuntimeError'' ''service unavailable''), s))\<rparr>)
          (Get_output_metadata (PStr ''human'')) ref_self) =
     Inl (Exn ''RuntimeError'' ''service unavailable'')"
    by (simp add: get_output_metadata_try_def try_client_def organism_enum_str ebind_def invoke_def)
  have t3: "fst (run_try ref_env (Calculate_genomic_overlap (PDict []) (PDict [])) ref_self) =
     Inl (Exn ''KeyError'' (sq @ ''chromosome'' @ sq))"
    by (simp add: calculate_genomic_overlap_try_def calculate_genomic_overlap_body_def
        interval_of_def py_getitem_def ebind_def)
  have t4: "\<exists>v. fst (run_try ref_env Get_supported_outputs ref_self) = Inr v \<and>
                field ''success'' v = Some (PBool True)"
    by (simp add: get_supported_outputs_try_def field_def)
  from t4 obtain v where v: "fst (run_try ref_env Get_supported_outputs ref_self) = Inr v"
    "field ''success'' v = Some (PBool True)" by blast
  have r1: "fst (run ref_env (Predict_sequence (PStr []) (PStr ''human'') PNone PNone) ref_self) =
     PDict [(''success'', PBool False), (''error'', PStr ''Sequence must be a non-empty string''),
            (''type'', PStr ''ValueError'')]"
    using uniform_envelope [of ref_env "Predict_sequence (PStr []) (PStr ''human'') PNone PNone" ref_self] t1
    by simp
  have r2: "fst (run (ref_env\<lparr>client_invoke := (\<lambda>s c. (Inl (Exn ''RuntimeError'' ''service unavailable''), s))\<rparr>)
          (Get_output_metadata (PStr ''human'')) ref_self) =
     PDict [(''success'', PBool False), (''error'', PStr ''service unavailable''),
            (''type'', PStr ''RuntimeError'')]"
    using uniform_envelope [of
        "ref_env\<lparr>client_invoke := (\<lambda>s c. (Inl (Exn ''RuntimeError'' ''service unavailable''), s))\<rparr>"
        "Get_output_metadata (PStr ''human'')" ref_self] t2
    by simp
  have r3: "fst (run ref_env (Calculate_genomic_overlap (PDict []) (PDict [])) ref_self) =
     PDict [(''success'', PBool False), (''error'', PStr (sq @ ''chromosome'' @ sq)),
            (''type'', PStr ''KeyError'')]"
    using uniform_envelope [of ref_env "Calculate_genomic_overlap (PDict []) (PDict [])" ref_self] t3
    by simp
  have r4: "fst (run ref_env Get_supported_outputs ref_self) = v"
    using uniform_envelope [of ref_env Get_supported_outputs ref_self] v(1)
    by blast
  from t1 t2 t3 r1 r2 r3 r4 v show ?thesis by (simp add: catch_def)
qed

text \<open>
  \<^verbatim>\<open>compare_sequences("", "A")\<close>: the \<^verbatim>\<open>ValueError\<close> of the empty sequence is raised and caught
  inside the first nested \<^verbatim>\<open>predict_sequence\<close>, which returns its envelope. No exception
  leaves the \<^verbatim>\<open>try\<close> block of \<^verbatim>\<open>compare_sequences\<close>: the block returns the dictionary of its
  explicit test, with the envelope under "result1".
\<close>

lemma compare_sequences_nested_failure:
  "\<exists>r2. fst (run_try ref_env (Compare_sequences (PStr []) (PStr ''A'') (PStr ''human'') PNone) ref_self) =
      Inr (PDict [(''success'', PBool False),
             (''error'', PStr ''Failed to predict one or both sequences''),
             (''result1'', error_envelope (Exn ''ValueError'' ''Sequence must be a non-empty string'')),
             (''result2'', r2)])"
proof -
  have p: "predict_sequence ref_env (PStr []) (PStr ''human'') PNone PNone ref_self =
      (error_envelope (Exn ''ValueError'' ''Sequence must be a non-empty string''), ref_self)"
    by (simp add: predict_sequence_def predict_sequence_try_def predict_sequence_prep_def
        guarded_def try_client_def catch_def)
  obtain r2 self2 where q: "predict_sequence ref_env (PStr ''A'') (PStr ''human'') PNone PNone ref_self = (r2, self2)"
    by (cases "predict_sequence ref_env (PStr ''A'') (PStr ''human'') PNone PNone ref_self")
  show ?thesis
    by (simp add: compare_sequences_try_def p q compare_body_def getitem_envelope ebind_def)
qed

subsection \<open>The command line\<close>

lemma ns_get_api_key: "ns_get (parse_args a) ''api_key'' = Inr (PStr (a_api_key a))"
  by (simp add: ns_get_def parse_args_def)

lemma ns_get_command: "ns_get (parse_args a) ''command'' = Inr (PStr (a_command a))"
  by (simp add: ns_get_def parse_args_def)

lemma ns_get_variant_string:
  "ns_get (parse_args a) ''variant_string'' =
     Inl (Exn ''AttributeError'' (sq @ ''Namespace'' @ sq @ '' object has no attribute '' @ sq @ ''variant_string'' @ sq))"
  by (simp add: ns_get_def parse_args_def)

lemma ns_get_data_type:
  "ns_get (parse_args a) ''data_type'' =
     Inl (Exn ''AttributeError'' (sq @ ''Namespace'' @ sq @ '' object has no attribute '' @ sq @ ''data_type'' @ sq))"
  by (simp add: ns_get_def parse_args_def)

lemma ns_get_interval1:
  "ns_get (parse_args a) ''interval1'' =
     Inl (Exn ''AttributeError'' (sq @ ''Namespace'' @ sq @ '' object has no attribute '' @ sq @ ''interval1'' @ sq))"
  by (simp add: ns_get_def parse_args_def)

lemma dispatch_parse_variant_string:
  "dispatch env (parse_args a) cl (PStr ''parse_variant_string'') =
     Inl (Exn ''AttributeError''
       (sq @ ''Namespace'' @ sq @ '' object has no attribute '' @ sq @ ''variant_string'' @ sq))"
  unfolding dispatch_def
  by (simp add: ns_get_variant_string ebind_def)


lemma dispatch_validate_genomic_data:
  "dispatch env (parse_args a) cl (PStr ''validate_genomic_data'') =
     Inl (Exn ''AttributeError''
       (sq @ ''Namespace'' @ sq @ '' object has no attribute '' @ sq @ ''data_type'' @ sq))"
  unfolding dispatch_def
  by (simp add: ns_get_data_type ebind_def)

lemma dispatch_calculate_genomic_overlap:
  "dispatch env (parse_args a) cl (PStr ''calculate_genomic_overlap'') =
     Inl (Exn ''AttributeError''
       (sq @ ''Namespace'' @ sq @ '' object has no attribute '' @ sq @ ''interval1'' @ sq))"
  unfolding dispatch_def
  by (simp add: ns_get_interval1 ebind_def)

lemma main_body_dispatch:
  "main_body env (parse_args a) =
     ebind (new_client env (PStr (a_api_key a))) (\<lambda>cl. dispatch env (parse_args a) cl (PStr (a_command a)))"
  by (simp add: main_body_def ns_get_api_key ns_get_command ebind_def)

lemma main_exit_status:
  "snd (main env ns) = (case main_body env ns of Inl e \<Rightarrow> 1 | Inr r \<Rightarrow> 0)"
  by (simp add: main_def split: sum.splits)

lemma main_attribute_error:
  assumes "main env (parse_args a) =
      (error_envelope (Exn ''AttributeError''
          (sq @ ''Namespace'' @ sq @ '' object has no attribute '' @ sq @ name @ sq)), 1)"
      and "name \<in> {''variant_string'', ''data_type'', ''interval1''}"
  shows "snd (main env (parse_args a)) = 1 \<and>
         (\<exists>e. fst (main env (parse_args a)) = error_envelope e) \<and>
         (\<forall>cl. new_client env (PStr (a_api_key a)) = Inr cl \<longrightarrow>
            (\<exists>name. name \<in> {''variant_string'', ''data_type'', ''interval1''} \<and>
               fst (main env (parse_args a)) =
                 error_envelope (Exn ''AttributeError''
                   (sq @ ''Namespace'' @ sq @ '' object has no attribute '' @ sq @ name @ sq))))"
proof (intro conjI allI impI)
  show "snd (main env (parse_args a)) = 1" unfolding assms(1) by (rule snd_conv)
  show "\<exists>e. fst (main env (parse_args a)) = error_envelope e"
    unfolding assms(1) fst_conv by (rule exI) (rule refl)
  show "\<exists>name. name \<in> {''variant_string'', ''data_type'', ''interval1''} \<and>
               fst (main env (parse_args a)) =
                 error_envelope (Exn ''AttributeError''
                   (sq @ ''Namespace'' @ sq @ '' object has no attribute '' @ sq @ name @ sq))"
    unfolding assms(1) fst_conv using assms(2) by (intro exI [of _ name] conjI refl)
qed

text \<open>
  C2 at the three subcommands it names. The parser declares no option for
  \<^verbatim>\<open>variant_string\<close>, \<^verbatim>\<open>variant_format\<close>, \<^verbatim>\<open>data_type\<close>, \<^verbatim>\<open>data\<close>, \<^verbatim>\<open>interval1\<close> or
  \<^verbatim>\<open>interval2\<close>, so the namespace has no such attribute: for every command line the parser
  accepts, the dispatch branch of \<^verbatim>\<open>parse_variant_string\<close>, \<^verbatim>\<open>validate_genomic_data\<close> and
  \<^verbatim>\<open>calculate_genomic_overlap\<close> raises \<^verbatim>\<open>AttributeError\<close> at its first read, \<^verbatim>\<open>main\<close> prints an
  error envelope and exits with status 1, and the client method is never called.
\<close>

theorem undeclared_arguments_fail:
  assumes "a_command a \<in> {''parse_variant_string'', ''validate_genomic_data'', ''calculate_genomic_overlap''}"
  shows "snd (main env (parse_args a)) = 1 \<and>
         (\<exists>e. fst (main env (parse_args a)) = error_envelope e) \<and>
         (\<forall>cl. new_client env (PStr (a_api_key a)) = Inr cl \<longrightarrow>
            (\<exists>name. name \<in> {''variant_string'', ''data_type'', ''interval1''} \<and>
               fst (main env (parse_args a)) =
                 error_envelope (Exn ''AttributeError''
                   (sq @ ''Namespace'' @ sq @ '' object has no attribute '' @ sq @ name @ sq))))"
proof (cases "new_client env (PStr (a_api_key a))")
  case (Inl e)
  then show ?thesis
    by (auto simp add: main_def main_body_dispatch ebind_def)
next
  case (Inr cl)
  from assms consider "a_command a = ''parse_variant_string''"
    | "a_command a = ''validate_genomic_data''" | "a_command a = ''calculate_genomic_overlap''"
    by blast
  then show ?thesis
  proof cases
    case 1
    have "main env (parse_args a) =
      (error_envelope (Exn ''AttributeError''
          (sq @ ''Namespace'' @ sq @ '' object has no attribute '' @ sq @ ''variant_string'' @ sq)), 1)"
      unfolding main_def main_body_dispatch Inr 1 dispatch_parse_variant_string
      by (simp add: ebind_def)
    then show ?thesis by (rule main_attribute_error) simp
  next
    case 2
    have "main env (parse_args a) =
      (error_envelope (Exn ''AttributeError''
          (sq @ ''Namespace'' @ sq @ '' object has no attribute '' @ sq @ ''data_type'' @ sq)), 1)"
      unfolding main_def main_body_dispatch Inr 2 dispatch_validate_genomic_data
      by (simp add: ebind_def)
    then show ?thesis by (rule main_attribute_error) simp
  next
    case 3
    have "main env (parse_args a) =
      (error_envelope (Exn ''AttributeError''
          (sq @ ''Namespace'' @ sq @ '' object has no attribute '' @ sq @ ''interval1'' @ sq)), 1)"
      unfolding main_def main_body_dispatch Inr 3 dispatch_calculate_genomic_overlap
      by (simp add: ebind_def)
    then show ?thesis by (rule main_attribute_error) simp
  qed
qed

theorem undeclared_arguments_fail_witness:
  "main ref_env (parse_args (bare_args ''parse_variant_string'')) =
     (error_envelope (Exn ''AttributeError''
        (sq @ ''Namespace'' @ sq @ '' object has no attribute '' @ sq @ ''variant_string'' @ sq)), 1)"
proof -
  have c: "a_command (bare_args ''parse_variant_string'') = ''parse_variant_string''"
    by (simp add: bare_args_def)
  have n: "new_client ref_env (PStr (a_api_key (bare_args ''parse_variant_string''))) =
      Inr \<lparr>client = 0, calls = []\<rparr>"
    by (simp add: new_client_def bare_args_def ref_env_def ebind_def)
  from undeclared_arguments_fail [of "bare_args ''parse_variant_string''" ref_env] c n
  have "snd (main ref_env (parse_args (bare_args ''parse_variant_string''))) = 1" by simp
  moreover have "fst (main ref_env (parse_args (bare_args ''parse_variant_string''))) =
      error_envelope (Exn ''AttributeError''
        (sq @ ''Namespace'' @ sq @ '' object has no attribute '' @ sq @ ''variant_string'' @ sq))"
    using c n by (simp add: main_def main_body_dispatch ebind_def dispatch_parse_variant_string)
  ultimately show ?thesis by (simp add: prod_eq_iff)
qed

text \<open>A subcommand whose options are declared reaches its method: the printed value is the
  method's result and the exit status is 0.\<close>

lemma main_get_sequence_info:
  "main ref_env (parse_args ((bare_args ''get_sequence_info'')\<lparr>a_sequence := Some ''ACGT''\<rparr>)) =
     (fst (get_sequence_info ref_env (PStr ''ACGT'') ref_self), 0)"
proof -
  define A where "A = (bare_args ''get_sequence_info'')\<lparr>a_sequence := Some ''ACGT''\<rparr>"
  have k: "a_api_key A = ''KEY''" and c: "a_command A = ''get_sequence_info''"
    by (simp_all add: A_def bare_args_def)
  have n: "new_client ref_env (PStr ''KEY'') = Inr ref_self"
    by (simp add: new_client_def ref_env_def ref_self_def ebind_def)
  have g: "ns_get (parse_args A) ''sequence'' = Inr (PStr ''ACGT'')"
    by (simp add: ns_get_def parse_args_def A_def bare_args_def opt_str_def)
  have d: "dispatch ref_env (parse_args A) ref_self (PStr ''get_sequence_info'') =
      Inr (fst (get_sequence_info ref_env (PStr ''ACGT'') ref_self))"
    unfolding dispatch_def by (simp add: g ebind_def)
  have "main ref_env (parse_args A) = (fst (get_sequence_info ref_env (PStr ''ACGT'') ref_self), 0)"
    by (simp add: main_def main_body_dispatch k c n d ebind_def)
  then show ?thesis by (simp add: A_def)
qed

end
